theory Spec2Isabelle
  imports Complex_Main "HOL-Library.Char_ord" "HOL-Library.List_Lexorder"
begin

unbundle bit_operations_syntax

section \<open>Eagle schematic import: a model of SCH\_EAGLE\_PLUGIN\<close>

text \<open>
  The definitions below follow the import engine of the Eagle schematic plugin
  (class SCH\_EAGLE\_PLUGIN). Positions are pairs of integers (wxPoint, VECTOR2I);
  the C++ \<open>int\<close> coordinates are modelled as unbounded integers, so every
  statement is about coordinates for which the 32-bit arithmetic of the source
  does not overflow.
\<close>

subsection \<open>Geometric primitives\<close>

type_synonym point = "int \<times> int"

text \<open>
  Modelled from the spec: the arithmetic of points and vectors (wxPoint and VECTOR2I
  are declared outside the plugin's file) is componentwise: sum, difference,
  product with an integer, and quotient by an integer, truncated towards zero as the
  integer division of C++ is.
\<close>

definition padd :: "point \<Rightarrow> point \<Rightarrow> point" where
  "padd p q = (fst p + fst q, snd p + snd q)"

definition psub :: "point \<Rightarrow> point \<Rightarrow> point" where
  "psub p q = (fst p - fst q, snd p - snd q)"

definition cdiv :: "int \<Rightarrow> int \<Rightarrow> int" where
  "cdiv a b = sgn a * sgn b * (\<bar>a\<bar> div \<bar>b\<bar>)"

definition pscale :: "point \<Rightarrow> int \<Rightarrow> point" where
  "pscale p k = (fst p * k, snd p * k)"

definition pdiv :: "point \<Rightarrow> int \<Rightarrow> point" where
  "pdiv p k = (cdiv (fst p) k, cdiv (snd p) k)"

record SEG =
  seg_A :: point
  seg_B :: point

text \<open>
  Modelled from the spec: \<open>TestSegmentHit\<close> (declared in the geometry helpers, which
  are outside the plugin's file) is called with distance 0 only, where it decides
  whether a point lies exactly on a segment: inside the bounding box of the two
  end points and collinear with them.
\<close>

definition TestSegmentHit :: "point \<Rightarrow> point \<Rightarrow> point \<Rightarrow> bool" where
  "TestSegmentHit p a b \<longleftrightarrow>
     min (fst a) (fst b) \<le> fst p \<and> fst p \<le> max (fst a) (fst b) \<and>
     min (snd a) (snd b) \<le> snd p \<and> snd p \<le> max (snd a) (snd b) \<and>
     (fst b - fst a) * (snd a - snd p) - (snd b - snd a) * (fst a - fst p) = 0"

text \<open>
  Modelled from the spec: \<open>SEG::Contains\<close> (the position "lies within the segment's
  span"), the same exact test on a segment value, and \<open>SEG::Center\<close>, the midpoint
  \<open>A + (B - A) / 2\<close> in integer arithmetic.
\<close>

definition Contains :: "SEG \<Rightarrow> point \<Rightarrow> bool" where
  "Contains s p = TestSegmentHit p (seg_A s) (seg_B s)"

definition Center :: "SEG \<Rightarrow> point" where
  "Center s = padd (seg_A s) (pdiv (psub (seg_B s) (seg_A s)) 2)"

subsection \<open>Text alignment (eagleToKicadAlignment)\<close>

text \<open>
  Modelled from the spec: the alignment enumeration of ETEXT is declared in the
  parser's header, outside the plugin's file. It has nine members; the four in the
  second group are the negations of their opposites, which is what the statement
  \<open>align = -align\<close> of the rotation step relies on.
\<close>

definition CENTER :: int where "CENTER = 0"
definition CENTER_LEFT :: int where "CENTER_LEFT = 1"
definition TOP_CENTER :: int where "TOP_CENTER = 2"
definition TOP_LEFT :: int where "TOP_LEFT = 3"
definition TOP_RIGHT :: int where "TOP_RIGHT = 4"
definition CENTER_RIGHT :: int where "CENTER_RIGHT = - CENTER_LEFT"
definition BOTTOM_CENTER :: int where "BOTTOM_CENTER = - TOP_CENTER"
definition BOTTOM_LEFT :: int where "BOTTOM_LEFT = - TOP_RIGHT"
definition BOTTOM_RIGHT :: int where "BOTTOM_RIGHT = - TOP_LEFT"

definition eagle_alignments :: "int list" where
  "eagle_alignments = [CENTER, CENTER_LEFT, TOP_CENTER, TOP_LEFT, TOP_RIGHT,
     CENTER_RIGHT, BOTTOM_CENTER, BOTTOM_LEFT, BOTTOM_RIGHT]"

datatype hjustify = GR_TEXT_HJUSTIFY_LEFT | GR_TEXT_HJUSTIFY_CENTER | GR_TEXT_HJUSTIFY_RIGHT
datatype vjustify = GR_TEXT_VJUSTIFY_TOP | GR_TEXT_VJUSTIFY_CENTER | GR_TEXT_VJUSTIFY_BOTTOM

record EDA_TEXT =
  text_angle :: int
  horiz_justify :: hjustify
  vert_justify :: vjustify

text \<open>The first step: the relative rotation sets the text angle and may negate the alignment.\<close>

definition align_rotate :: "EDA_TEXT \<Rightarrow> int \<Rightarrow> int \<Rightarrow> EDA_TEXT \<times> int" where
  "align_rotate aText align aRelDegress =
     (if aRelDegress = 90 then (aText\<lparr>text_angle := 900\<rparr>, align)
      else if aRelDegress = 180 then (aText, - align)
      else if aRelDegress = 270 then (aText\<lparr>text_angle := 900\<rparr>, - align)
      else (aText, align))"

text \<open>The second step, taken when the mirror flag is set: the permutation keyed on the absolute angle.\<close>

definition align_mirror :: "int \<Rightarrow> int \<Rightarrow> int" where
  "align_mirror aAbsDegress align =
     (if aAbsDegress = 90 \<or> aAbsDegress = 270 then
        (if align = BOTTOM_RIGHT then TOP_RIGHT
         else if align = BOTTOM_LEFT then TOP_LEFT
         else if align = TOP_LEFT then BOTTOM_LEFT
         else if align = TOP_RIGHT then BOTTOM_RIGHT
         else align)
      else if aAbsDegress = 0 \<or> aAbsDegress = 180 then
        (if align = BOTTOM_RIGHT then BOTTOM_LEFT
         else if align = BOTTOM_LEFT then BOTTOM_RIGHT
         else if align = TOP_LEFT then TOP_RIGHT
         else if align = TOP_RIGHT then TOP_LEFT
         else if align = CENTER_LEFT then CENTER_RIGHT
         else if align = CENTER_RIGHT then CENTER_LEFT
         else align)
      else align)"

text \<open>The last step: the switch from the alignment to the two justifications.\<close>

definition align_justify :: "EDA_TEXT \<Rightarrow> int \<Rightarrow> EDA_TEXT" where
  "align_justify aText align =
     (if align = CENTER then
        aText\<lparr>horiz_justify := GR_TEXT_HJUSTIFY_CENTER, vert_justify := GR_TEXT_VJUSTIFY_CENTER\<rparr>
      else if align = CENTER_LEFT then
        aText\<lparr>horiz_justify := GR_TEXT_HJUSTIFY_LEFT, vert_justify := GR_TEXT_VJUSTIFY_CENTER\<rparr>
      else if align = CENTER_RIGHT then
        aText\<lparr>horiz_justify := GR_TEXT_HJUSTIFY_RIGHT, vert_justify := GR_TEXT_VJUSTIFY_CENTER\<rparr>
      else if align = TOP_CENTER then
        aText\<lparr>horiz_justify := GR_TEXT_HJUSTIFY_CENTER, vert_justify := GR_TEXT_VJUSTIFY_TOP\<rparr>
      else if align = TOP_LEFT then
        aText\<lparr>horiz_justify := GR_TEXT_HJUSTIFY_LEFT, vert_justify := GR_TEXT_VJUSTIFY_TOP\<rparr>
      else if align = TOP_RIGHT then
        aText\<lparr>horiz_justify := GR_TEXT_HJUSTIFY_RIGHT, vert_justify := GR_TEXT_VJUSTIFY_TOP\<rparr>
      else if align = BOTTOM_CENTER then
        aText\<lparr>horiz_justify := GR_TEXT_HJUSTIFY_CENTER, vert_justify := GR_TEXT_VJUSTIFY_BOTTOM\<rparr>
      else if align = BOTTOM_LEFT then
        aText\<lparr>horiz_justify := GR_TEXT_HJUSTIFY_LEFT, vert_justify := GR_TEXT_VJUSTIFY_BOTTOM\<rparr>
      else if align = BOTTOM_RIGHT then
        aText\<lparr>horiz_justify := GR_TEXT_HJUSTIFY_RIGHT, vert_justify := GR_TEXT_VJUSTIFY_BOTTOM\<rparr>
      else
        aText\<lparr>horiz_justify := GR_TEXT_HJUSTIFY_RIGHT, vert_justify := GR_TEXT_VJUSTIFY_BOTTOM\<rparr>)"

definition eagleToKicadAlignment ::
  "EDA_TEXT \<Rightarrow> int \<Rightarrow> int \<Rightarrow> bool \<Rightarrow> bool \<Rightarrow> int \<Rightarrow> EDA_TEXT" where
  "eagleToKicadAlignment aText aEagleAlignment aRelDegress aMirror aSpin aAbsDegress =
     (let (t, align) = align_rotate aText aEagleAlignment aRelDegress;
          align' = (if aMirror then align_mirror aAbsDegress align else align)
      in align_justify t align')"

subsection \<open>Nearest line point (findNearestLinePoint)\<close>

text \<open>
  The value under the square root, as the source writes it: in C++ the operator
  \<open>^\<close> is the bitwise exclusive or, so \<open>(dx ^ 2) + (dy ^ 2)\<close> is not a sum of squares.
\<close>

definition dist_arg :: "point \<Rightarrow> point \<Rightarrow> int" where
  "dist_arg aPoint testpoint =
     \<bar>((fst aPoint - fst testpoint) XOR 2) + ((snd aPoint - snd testpoint) XOR 2)\<bar>"

text \<open>
  The distance \<open>d\<close> is \<open>sqrt\<close> of that value, stored in a \<open>float\<close>. The square root
  and its rounding are the parameter \<open>fsqrt\<close>, with values in any linear order. The
  initial \<open>mindistance\<close>, the largest float, is above every distance: it is \<open>None\<close>.
\<close>

record 'd nearest_state =
  mindistance :: "'d option"
  nearestPoint :: point
  nearestLine :: "SEG option"

definition try_point ::
  "(int \<Rightarrow> 'd::linorder) \<Rightarrow> point \<Rightarrow> SEG \<Rightarrow> point \<Rightarrow> 'd nearest_state \<Rightarrow> 'd nearest_state" where
  "try_point fsqrt aPoint line testpoint st =
     (let d = fsqrt (dist_arg aPoint testpoint) in
      if (case mindistance st of None \<Rightarrow> True | Some m \<Rightarrow> d < m)
      then \<lparr>mindistance = Some d, nearestPoint = testpoint, nearestLine = Some line\<rparr>
      else st)"

fun nearest_loop ::
  "(int \<Rightarrow> 'd::linorder) \<Rightarrow> point \<Rightarrow> SEG list \<Rightarrow> 'd nearest_state \<Rightarrow> 'd nearest_state" where
  "nearest_loop fsqrt aPoint [] st = st"
| "nearest_loop fsqrt aPoint (line # lines) st =
     nearest_loop fsqrt aPoint lines
       (try_point fsqrt aPoint line (seg_B line)
         (try_point fsqrt aPoint line (Center line)
           (try_point fsqrt aPoint line (seg_A line) st)))"

definition findNearestLinePoint ::
  "(int \<Rightarrow> 'd::linorder) \<Rightarrow> point \<Rightarrow> SEG list \<Rightarrow> point \<times> SEG option" where
  "findNearestLinePoint fsqrt aPoint aLines =
     (let st = nearest_loop fsqrt aPoint aLines
                 \<lparr>mindistance = None, nearestPoint = (0, 0), nearestLine = None\<rparr>
      in (nearestPoint st, nearestLine st))"

text \<open>The squared Euclidean distance, and the candidate points of a list of segments.\<close>

definition sq_dist :: "point \<Rightarrow> point \<Rightarrow> int" where
  "sq_dist p q = (fst p - fst q) * (fst p - fst q) + (snd p - snd q) * (snd p - snd q)"

definition candidates :: "SEG list \<Rightarrow> (point \<times> SEG) list" where
  "candidates aLines = concat (map (\<lambda>l. [(seg_A l, l), (Center l, l), (seg_B l, l)]) aLines)"

subsection \<open>Label placement (adjustNetLabels)\<close>

datatype text_type = SCH_TEXT_T | SCH_LABEL_T | SCH_GLOBAL_LABEL_T

text \<open>
  A text item of a sheet: a plain text, a local label or a global label. Its kind,
  position and string are represented; its size and spin style are not.
\<close>

record SCH_TEXT =
  text_kind :: text_type
  text_pos :: point
  text_string :: string

record SEG_DESC =
  labels :: "SCH_TEXT list"
  segs :: "SEG list"

text \<open>
  The containment test of a segment is a parameter of the corrector
  (\<open>contains\<close>), as is the resizing of the wire's direction to 50 mils
  (\<open>Resize50 v\<close> stands for \<open>v.Resize( Mils2iu( 50 ) )\<close>): both belong to the
  geometry library.
\<close>

definition LabelAttached :: "(SEG \<Rightarrow> point \<Rightarrow> bool) \<Rightarrow> SEG list \<Rightarrow> point \<Rightarrow> SEG option" where
  "LabelAttached contains sgs labelPos = find (\<lambda>seg. contains seg labelPos) sgs"

text \<open>The variables of the displacement search.\<close>

record search_state =
  labelPos :: point
  checkPositive :: bool
  checkNegative :: bool
  move :: bool
  trial :: int

definition search_init :: "point \<Rightarrow> search_state" where
  "search_init p =
     \<lparr>labelPos = p, checkPositive = True, checkNegative = True, move = False, trial = 0\<rparr>"

definition search_cond :: "(point \<Rightarrow> bool) \<Rightarrow> search_state \<Rightarrow> bool" where
  "search_cond onIntersection s \<longleftrightarrow>
     (\<not> move s \<or> onIntersection (labelPos s)) \<and> (checkPositive s \<or> checkNegative s)"

definition search_step ::
  "(point \<Rightarrow> bool) \<Rightarrow> point \<Rightarrow> point \<Rightarrow> search_state \<Rightarrow> search_state" where
  "search_step contains origPos wireDirection s =
     (if trial s mod 2 = 1 then
        (let p = padd origPos (pdiv (pscale wireDirection (trial s)) 2); c = contains p
         in s\<lparr>labelPos := p, checkPositive := c, move := c, trial := trial s + 1\<rparr>)
      else
        (let p = psub origPos (pdiv (pscale wireDirection (trial s)) 2); c = contains p
         in s\<lparr>labelPos := p, checkNegative := c, move := c, trial := trial s + 1\<rparr>))"

text \<open>The while loop; \<open>None\<close> is the loop that never leaves.\<close>

partial_function (option) search_loop ::
  "(point \<Rightarrow> bool) \<Rightarrow> (point \<Rightarrow> bool) \<Rightarrow> point \<Rightarrow> point \<Rightarrow> search_state
     \<Rightarrow> search_state option" where
  "search_loop onIntersection contains origPos wireDirection s =
     (if search_cond onIntersection s
      then search_loop onIntersection contains origPos wireDirection
             (search_step contains origPos wireDirection s)
      else Some s)"

text \<open>
  The body of the loop over the labels of a group: the new position of one label
  (its old position where the source executes \<open>continue\<close> or does not move it).
\<close>

definition adjust_label ::
  "(SEG \<Rightarrow> point \<Rightarrow> bool) \<Rightarrow> (point \<Rightarrow> point) \<Rightarrow> (int \<Rightarrow> 'd::linorder) \<Rightarrow> point list \<Rightarrow>
     SEG list \<Rightarrow> point \<Rightarrow> point option" where
  "adjust_label contains Resize50 fsqrt wireIntersections sgs pos =
     (let onIntersection = (\<lambda>aPos. aPos \<in> set wireIntersections);
          attached = LabelAttached contains sgs pos
      in if attached \<noteq> None \<and> \<not> onIntersection pos then Some pos
         else
           (let (start, segAttached) =
                  (if attached = None then findNearestLinePoint fsqrt pos sgs
                   else (pos, attached))
            in case segAttached of
                 None \<Rightarrow> Some pos
               | Some seg \<Rightarrow>
                   (let wireDirection = Resize50 (psub (seg_B seg) (seg_A seg))
                    in map_option (\<lambda>s. if move s then labelPos s else pos)
                         (search_loop onIntersection (contains seg) start wireDirection
                            (search_init start)))))"

fun adjust_labels ::
  "(SEG \<Rightarrow> point \<Rightarrow> bool) \<Rightarrow> (point \<Rightarrow> point) \<Rightarrow> (int \<Rightarrow> 'd::linorder) \<Rightarrow> point list \<Rightarrow>
     SEG list \<Rightarrow> SCH_TEXT list \<Rightarrow> SCH_TEXT list option" where
  "adjust_labels contains Resize50 fsqrt wireIntersections sgs [] = Some []"
| "adjust_labels contains Resize50 fsqrt wireIntersections sgs (label # ls) =
     (case adjust_label contains Resize50 fsqrt wireIntersections sgs (text_pos label) of
        None \<Rightarrow> None
      | Some p \<Rightarrow>
          map_option (\<lambda>r. label\<lparr>text_pos := p\<rparr> # r)
            (adjust_labels contains Resize50 fsqrt wireIntersections sgs ls))"

text \<open>
  The whole pass over \<open>m_segments\<close>: the labels of every group after the pass, or
  \<open>None\<close> when the pass does not return. (The pass ends by clearing \<open>m_segments\<close> and
  \<open>m_wireIntersections\<close>; the labels themselves live on the screen.)
\<close>

fun adjustNetLabels ::
  "(SEG \<Rightarrow> point \<Rightarrow> bool) \<Rightarrow> (point \<Rightarrow> point) \<Rightarrow> (int \<Rightarrow> 'd::linorder) \<Rightarrow> point list \<Rightarrow>
     SEG_DESC list \<Rightarrow> SCH_TEXT list list option" where
  "adjustNetLabels contains Resize50 fsqrt wireIntersections [] = Some []"
| "adjustNetLabels contains Resize50 fsqrt wireIntersections (segDesc # ds) =
     (case adjust_labels contains Resize50 fsqrt wireIntersections (segs segDesc) (labels segDesc) of
        None \<Rightarrow> None
      | Some ls \<Rightarrow>
          map_option (\<lambda>r. ls # r) (adjustNetLabels contains Resize50 fsqrt wireIntersections ds))"

text \<open>
  A resizing for the examples: exact on axis-parallel vectors, and it keeps the zero
  vector, which has no direction.
\<close>

definition Resize50_axis :: "point \<Rightarrow> point" where
  "Resize50_axis v = (50 * sgn (fst v), 50 * sgn (snd v))"

subsection \<open>Bus entries (addBusEntries)\<close>

text \<open>
  The body of the two nested loops of addBusEntries, for one bus and one wire of the
  sheet. The state holds what the body changes: the items it appends to the screen,
  the two end points of the wire, whether the wire has been deleted from the
  screen, and the positions of the labels of the screen (moved by moveLabels).
\<close>

datatype new_item =
    SCH_BUS_WIRE_ENTRY point bool
  | SCH_MARKER string point

fun is_bus_entry :: "new_item \<Rightarrow> bool" where
  "is_bus_entry (SCH_BUS_WIRE_ENTRY p f) = True"
| "is_bus_entry (SCH_MARKER m p) = False"

record pair_state =
  appended :: "new_item list"
  wire_start :: point
  wire_end :: point
  wire_deleted :: bool
  label_positions :: "point list"

definition pair_init :: "point \<Rightarrow> point \<Rightarrow> point list \<Rightarrow> pair_state" where
  "pair_init linestart lineend lbls =
     \<lparr>appended = [], wire_start = linestart, wire_end = lineend, wire_deleted = False,
      label_positions = lbls\<rparr>"

definition Append :: "new_item \<Rightarrow> pair_state \<Rightarrow> pair_state" where
  "Append item st = st\<lparr>appended := appended st @ [item]\<rparr>"

text \<open>moveLabels: every label lying on the wire, as it is now, goes to the new end point.\<close>

definition moveLabels :: "point \<Rightarrow> pair_state \<Rightarrow> pair_state" where
  "moveLabels aNewEndPoint st =
     st\<lparr>label_positions :=
          map (\<lambda>pos. if TestSegmentHit pos (wire_start st) (wire_end st) then aNewEndPoint
                      else pos)
            (label_positions st)\<rparr>"

definition SetStartPoint :: "point \<Rightarrow> pair_state \<Rightarrow> pair_state" where
  "SetStartPoint p st = st\<lparr>wire_start := p\<rparr>"

definition SetEndPoint :: "point \<Rightarrow> pair_state \<Rightarrow> pair_state" where
  "SetEndPoint p st = st\<lparr>wire_end := p\<rparr>"

definition DeleteItem :: "pair_state \<Rightarrow> pair_state" where
  "DeleteItem st = st\<lparr>wire_deleted := True\<rparr>"

text \<open>
  The three statements every entry branch of the orthogonal part consists of: a new
  bus entry, the labels moved, the wire's start (or end) point set.
\<close>

definition entry_at_start :: "point \<Rightarrow> bool \<Rightarrow> point \<Rightarrow> pair_state \<Rightarrow> pair_state" where
  "entry_at_start entryPos flipY newPoint st =
     SetStartPoint newPoint (moveLabels newPoint (Append (SCH_BUS_WIRE_ENTRY entryPos flipY) st))"

definition entry_at_end :: "point \<Rightarrow> bool \<Rightarrow> point \<Rightarrow> pair_state \<Rightarrow> pair_state" where
  "entry_at_end entryPos flipY newPoint st =
     SetEndPoint newPoint (moveLabels newPoint (Append (SCH_BUS_WIRE_ENTRY entryPos flipY) st))"

definition marker_at :: "point \<Rightarrow> pair_state \<Rightarrow> pair_state" where
  "marker_at p st = Append (SCH_MARKER ''Bus Entry needed'' p) st"

text \<open>
  The first part: a horizontal wire on a vertical bus, then a vertical wire on a
  horizontal bus. \<open>linestart\<close>, \<open>lineend\<close>, \<open>busstart\<close> and \<open>busend\<close> are the local copies
  the source reads before the tests; they are not refreshed inside this part.
\<close>

definition horizontal_wire_start :: "point \<Rightarrow> point \<Rightarrow> point \<Rightarrow> point \<Rightarrow> pair_state \<Rightarrow> pair_state" where
  "horizontal_wire_start busstart busend linestart lineend st =
     (if TestSegmentHit linestart busstart busend then
        (if fst lineend < fst busstart then
           (if TestSegmentHit (padd linestart (0, -100)) busstart busend then
              entry_at_start (padd linestart (-100, 0)) True (padd linestart (-100, 0)) st
            else if TestSegmentHit (padd linestart (0, 100)) busstart busend then
              entry_at_start (padd linestart (-100, 0)) False (padd linestart (-100, 0)) st
            else marker_at linestart st)
         else
           (if TestSegmentHit (padd linestart (0, -100)) busstart busend then
              entry_at_start (padd linestart (0, -100)) False (padd linestart (100, 0)) st
            else if TestSegmentHit (padd linestart (0, 100)) busstart busend then
              entry_at_start (padd linestart (0, 100)) True (padd linestart (100, 0)) st
            else marker_at linestart st))
      else st)"

definition horizontal_wire_end :: "point \<Rightarrow> point \<Rightarrow> point \<Rightarrow> point \<Rightarrow> pair_state \<Rightarrow> pair_state" where
  "horizontal_wire_end busstart busend linestart lineend st =
     (if TestSegmentHit lineend busstart busend then
        (if fst linestart < fst busstart then
           (if TestSegmentHit (padd lineend (0, 100)) busstart busend then
              entry_at_end (padd lineend (-100, 0)) False (padd lineend (-100, 0)) st
            else if TestSegmentHit (padd lineend (0, -100)) busstart busend then
              entry_at_end (padd lineend (-100, 0)) True (padd lineend (-100, 0)) st
            else marker_at lineend st)
         else
           (if TestSegmentHit (padd lineend (0, -100)) busstart busend then
              entry_at_end (padd lineend (0, -100)) False (padd lineend (100, 0)) st
            else if TestSegmentHit (padd lineend (0, 100)) busstart busend then
              entry_at_end (padd lineend (0, 100)) True (padd lineend (100, 0)) st
            else marker_at lineend st))
      else st)"

definition vertical_wire_start :: "point \<Rightarrow> point \<Rightarrow> point \<Rightarrow> point \<Rightarrow> pair_state \<Rightarrow> pair_state" where
  "vertical_wire_start busstart busend linestart lineend st =
     (if TestSegmentHit linestart busstart busend then
        (if snd lineend < snd busstart then
           (if TestSegmentHit (padd linestart (-100, 0)) busstart busend then
              entry_at_start (padd linestart (-100, 0)) True (padd linestart (0, -100)) st
            else if TestSegmentHit (padd linestart (100, 0)) busstart busend then
              entry_at_start (padd linestart (0, 100)) False (padd linestart (0, -100)) st
            else marker_at linestart st)
         else
           (if TestSegmentHit (padd linestart (-100, 0)) busstart busend then
              entry_at_start (padd linestart (-100, 0)) False (padd linestart (0, 100)) st
            else if TestSegmentHit (padd linestart (100, 0)) busstart busend then
              entry_at_start (padd linestart (100, 0)) True (padd linestart (0, 100)) st
            else marker_at linestart st))
      else st)"

definition vertical_wire_end :: "point \<Rightarrow> point \<Rightarrow> point \<Rightarrow> point \<Rightarrow> pair_state \<Rightarrow> pair_state" where
  "vertical_wire_end busstart busend linestart lineend st =
     (if TestSegmentHit lineend busstart busend then
        (if snd linestart < snd busstart then
           (if TestSegmentHit (padd lineend (-100, 0)) busstart busend then
              entry_at_end (padd lineend (-100, 0)) True (padd lineend (0, -100)) st
            else if TestSegmentHit (padd lineend (100, 0)) busstart busend then
              entry_at_end (padd lineend (0, -100)) False (padd lineend (0, -100)) st
            else marker_at lineend st)
         else
           (if TestSegmentHit (padd lineend (-100, 0)) busstart busend then
              entry_at_end (padd lineend (-100, 0)) False (padd lineend (0, 100)) st
            else if TestSegmentHit (padd lineend (100, 0)) busstart busend then
              entry_at_end (padd lineend (0, 100)) True (padd lineend (0, 100)) st
            else marker_at lineend st))
      else st)"

definition orthogonal_part :: "point \<Rightarrow> point \<Rightarrow> pair_state \<Rightarrow> pair_state" where
  "orthogonal_part busstart busend st =
     (let linestart = wire_start st; lineend = wire_end st;
          st1 = (if snd linestart = snd lineend \<and> fst busstart = fst busend then
                   horizontal_wire_end busstart busend linestart lineend
                     (horizontal_wire_start busstart busend linestart lineend st)
                 else st)
      in if fst linestart = fst lineend \<and> snd busstart = snd busend then
           vertical_wire_end busstart busend linestart lineend
             (vertical_wire_start busstart busend linestart lineend st1)
         else st1)"

text \<open>
  The second part re-reads the end points of the wire and treats each end lying on
  the bus by the signs of the wire's vector. It is not guarded by a test that the
  wire is neither horizontal nor vertical.
\<close>

definition diagonal_start_entry ::
  "point \<Rightarrow> bool \<Rightarrow> point \<Rightarrow> point \<Rightarrow> pair_state \<Rightarrow> pair_state" where
  "diagonal_start_entry entryPos flipY p lineend st =
     (let st1 = moveLabels p (Append (SCH_BUS_WIRE_ENTRY entryPos flipY) st)
      in if p = lineend then DeleteItem st1 else SetStartPoint p st1)"

definition diagonal_end_entry ::
  "point \<Rightarrow> bool \<Rightarrow> point \<Rightarrow> point \<Rightarrow> pair_state \<Rightarrow> pair_state" where
  "diagonal_end_entry entryPos flipY p linestart st =
     (let st1 = moveLabels p (Append (SCH_BUS_WIRE_ENTRY entryPos flipY) st)
      in if p = linestart then DeleteItem st1 else SetEndPoint p st1)"

definition diagonal_start :: "point \<Rightarrow> point \<Rightarrow> point \<Rightarrow> point \<Rightarrow> pair_state \<Rightarrow> pair_state" where
  "diagonal_start busstart busend linestart lineend st =
     (if TestSegmentHit linestart busstart busend then
        (let wirevector = psub linestart lineend in
         if fst wirevector > 0 then
           (if snd wirevector > 0 then
              diagonal_start_entry (padd linestart (-100, -100)) False
                (padd linestart (-100, -100)) lineend st
            else
              diagonal_start_entry (padd linestart (-100, 100)) True
                (padd linestart (-100, 100)) lineend st)
         else
           (if snd wirevector > 0 then
              diagonal_start_entry linestart True (padd linestart (100, -100)) lineend st
            else
              diagonal_start_entry linestart False (padd linestart (100, 100)) lineend st))
      else st)"

definition diagonal_end :: "point \<Rightarrow> point \<Rightarrow> point \<Rightarrow> point \<Rightarrow> pair_state \<Rightarrow> pair_state" where
  "diagonal_end busstart busend linestart lineend st =
     (if \<not> wire_deleted st \<and> TestSegmentHit lineend busstart busend then
        (let wirevector = psub linestart lineend in
         if fst wirevector > 0 then
           (if snd wirevector > 0 then
              diagonal_end_entry lineend False (padd lineend (100, 100)) linestart st
            else
              diagonal_end_entry lineend True (padd lineend (100, -100)) linestart st)
         else
           (if snd wirevector > 0 then
              diagonal_end_entry (padd lineend (-100, 100)) True
                (padd lineend (-100, 100)) linestart st
            else
              diagonal_end_entry (padd lineend (-100, -100)) False
                (padd lineend (-100, -100)) linestart st))
      else st)"

definition diagonal_part :: "point \<Rightarrow> point \<Rightarrow> pair_state \<Rightarrow> pair_state" where
  "diagonal_part busstart busend st =
     (let linestart = wire_start st; lineend = wire_end st
      in diagonal_end busstart busend linestart lineend
           (diagonal_start busstart busend linestart lineend st))"

definition bus_wire_pair :: "point \<Rightarrow> point \<Rightarrow> pair_state \<Rightarrow> pair_state" where
  "bus_wire_pair busstart busend st =
     diagonal_part busstart busend (orthogonal_part busstart busend st)"

subsection \<open>The parsed Eagle elements\<close>

text \<open>
  The plugin reads typed views of the XML elements (EWIRE, ELABEL, EINSTANCE and so
  on, built by the parser, which is outside the plugin's file). A coordinate
  (ECOORD) is held as an integer; its conversion \<open>ToSchUnits\<close> to schematic units
  belongs to the parser and is a parameter of the model. The curvature of a wire is
  a double-precision number of degrees; double-precision values are modelled as
  real numbers.
\<close>

record EROT =
  rot_mirror :: bool
  rot_spin :: bool
  rot_degrees :: int

record EWIRE =
  wire_x1 :: int
  wire_y1 :: int
  wire_x2 :: int
  wire_y2 :: int
  wire_width :: int
  wire_layer :: int
  wire_curve :: "real option"

record EJUNCTION =
  junction_x :: int
  junction_y :: int

record ELABEL =
  elabel_x :: int
  elabel_y :: int
  elabel_netname :: string
  elabel_rot :: "EROT option"

record ETEXT =
  etext_text :: string
  etext_x :: int
  etext_y :: int
  etext_align :: "int option"
  etext_rot :: "EROT option"

record EFRAME =
  frame_x1 :: int
  frame_y1 :: int
  frame_x2 :: int
  frame_y2 :: int

record EINSTANCE =
  inst_part :: string
  inst_gate :: string
  inst_x :: int
  inst_y :: int
  inst_smashed :: "bool option"
  inst_rot :: "EROT option"

record EPART =
  epart_name :: string
  epart_library :: string
  epart_deviceset :: string
  epart_device :: string
  epart_value :: "string option"

record EAGLE_LIBRARY =
  lib_name :: string
  GateUnit :: "string \<rightharpoonup> int"
  package :: "string \<rightharpoonup> string"

subsection \<open>Library symbols and sheet items\<close>

datatype ELECTRICAL_PINTYPE =
    PT_INPUT | PT_OUTPUT | PT_BIDI | PT_TRISTATE | PT_PASSIVE
  | PT_OPENCOLLECTOR | PT_POWER_IN | PT_NC

record LIB_PIN =
  pin_position :: point
  pin_name :: string
  pin_number :: string
  pin_unit :: int
  pin_orientation :: char
  pin_type :: ELECTRICAL_PINTYPE

text \<open>
  The drawing items of a library symbol. A circle has its centre, radius, width and
  unit; a rectangle its two corners and unit; a polyline its points, unit and width;
  an arc its centre, start point, end point, radius, width, whether it is filled,
  and unit (its two angles are computed from these by the arc itself).
\<close>

datatype LIB_ITEM =
    LIB_CIRCLE point int int int
  | LIB_RECTANGLE point point int
  | LIB_POLYLINE "point list" int int
  | LIB_ARC point point point int int bool int
  | LIB_PIN_ITEM LIB_PIN
  | LIB_TEXT point string int

record LIB_PART =
  part_name :: string
  part_unit_count :: int
  part_power :: bool
  part_reference_visible :: bool
  part_value_visible :: bool
  part_reference_text :: string
  part_items :: "LIB_ITEM list"

definition part_pins :: "LIB_PART \<Rightarrow> LIB_PIN list" where
  "part_pins p = concat (map (\<lambda>i. case i of LIB_PIN_ITEM pin \<Rightarrow> [pin] | _ \<Rightarrow> []) (part_items p))"

datatype SCH_LAYER_ID = LAYER_WIRE | LAYER_BUS | LAYER_NOTES

record SCH_LINE =
  line_layer :: SCH_LAYER_ID
  line_start :: point
  line_end :: point

datatype COMPONENT_ORIENTATION_T = CMP_ORIENT_0 | CMP_ORIENT_90 | CMP_ORIENT_180 | CMP_ORIENT_270

text \<open>
  A placed symbol. Its library id, unit, position, orientation, mirroring,
  footprint, reference and value are represented, and the library symbol it refers
  to; the placement of its other fields is not.
\<close>

record SCH_COMPONENT =
  cmp_lib_id :: string
  cmp_unit :: int
  cmp_position :: point
  cmp_orientation :: COMPONENT_ORIENTATION_T
  cmp_mirrored :: bool
  cmp_footprint :: string
  cmp_reference :: string
  cmp_value :: string
  cmp_part_ref :: "LIB_PART option"

datatype SCH_ITEM =
    LINE SCH_LINE
  | JUNCTION point
  | TEXT SCH_TEXT
  | COMPONENT SCH_COMPONENT

text \<open>
  The connection-point map holds pointers to wires and pins. A wire is named by its
  index on the screen, a pin by the index of its symbol on the screen and its own
  index among the symbol's pins.
\<close>

datatype conn_item = Conn_Wire nat | Conn_Pin nat nat

type_synonym conn_points = "point \<rightharpoonup> conn_item set"

definition conn_emplace :: "point \<Rightarrow> conn_item \<Rightarrow> conn_points \<Rightarrow> conn_points" where
  "conn_emplace p x m = m(p \<mapsto> insert x (case m p of None \<Rightarrow> {} | Some s \<Rightarrow> s))"

datatype SEVERITY = RPT_SEVERITY_INFO | RPT_SEVERITY_ERROR

text \<open>
  What the import takes from outside the plugin's file: the unit conversion, the
  escaping of names, the intersection of two segments, the layer map, the
  correction of illegal characters of a symbol name, the physical position of a
  pin of a placed symbol and the pins of its unit, the centre of the arc through
  two points with a given angle, the symbols that can be loaded back from the
  imported library and from the project's library table, and the part list and the
  net counts filled in before the sheets are loaded. Two operations of
  double-precision arithmetic are parameters as well, so that nothing is assumed
  about their rounding: the square root of an integer, and the quotient of an
  integer by a double-precision number.
\<close>

record import_env =
  ToSchUnits :: "int \<Rightarrow> int"
  escapeName :: "string \<Rightarrow> string"
  Intersect :: "SEG \<Rightarrow> SEG \<Rightarrow> point option"
  kiCadLayer :: "int \<Rightarrow> SCH_LAYER_ID"
  FixIllegalChars :: "string \<Rightarrow> string"
  GetPinPhysicalPosition :: "SCH_COMPONENT \<Rightarrow> LIB_PIN \<Rightarrow> point"
  GetLibPins :: "SCH_COMPONENT \<Rightarrow> LIB_PIN list"
  ConvertArcCenter :: "point \<Rightarrow> point \<Rightarrow> real \<Rightarrow> point"
  sqrt_double :: "int \<Rightarrow> real"
  div_double :: "int \<Rightarrow> real \<Rightarrow> real"
  LoadSymbol :: "string \<rightharpoonup> LIB_PART"
  SchSymbolLibTable :: "string \<rightharpoonup> LIB_PART"
  m_netCounts :: "string \<rightharpoonup> int"
  m_partlist :: "string \<rightharpoonup> EPART"

text \<open>Reading \<open>m_netCounts[name]\<close>: a name that is absent reads as 0.\<close>

definition netCount :: "import_env \<Rightarrow> string \<Rightarrow> int" where
  "netCount env name = (case m_netCounts env name of None \<Rightarrow> 0 | Some c \<Rightarrow> c)"

text \<open>The state of the import of a sheet.\<close>

record sheet_state =
  screen :: "SCH_ITEM list"
  m_connPoints :: conn_points
  m_segments :: "SEG_DESC list"
  m_wireIntersections :: "point list"
  m_eagleLibs :: "string \<rightharpoonup> EAGLE_LIBRARY"
  reports :: "(string \<times> SEVERITY) list"

definition screen_Append :: "SCH_ITEM \<Rightarrow> sheet_state \<Rightarrow> sheet_state" where
  "screen_Append item st = st\<lparr>screen := screen st @ [item]\<rparr>"

subsection \<open>Net counts (countNets)\<close>

definition count_net :: "string \<Rightarrow> (string \<rightharpoonup> int) \<Rightarrow> (string \<rightharpoonup> int)" where
  "count_net netName counts =
     (case counts netName of Some c \<Rightarrow> counts(netName \<mapsto> c + 1) | None \<Rightarrow> counts(netName \<mapsto> 1))"

text \<open>The document is given by the names of the nets of each of its sheets.\<close>

definition countNets :: "string list list \<Rightarrow> (string \<rightharpoonup> int) \<Rightarrow> (string \<rightharpoonup> int)" where
  "countNets sheets counts = fold (\<lambda>nets c. fold count_net nets c) sheets counts"

subsection \<open>Sheet items (loadWire, loadJunction, loadLabel, loadPlainText, loadFrame)\<close>

definition make_wire :: "import_env \<Rightarrow> EWIRE \<Rightarrow> SCH_LINE" where
  "make_wire env ewire =
     \<lparr>line_layer = kiCadLayer env (wire_layer ewire),
      line_start = (ToSchUnits env (wire_x1 ewire), - ToSchUnits env (wire_y1 ewire)),
      line_end = (ToSchUnits env (wire_x2 ewire), - ToSchUnits env (wire_y2 ewire))\<rparr>"

text \<open>loadWire also records the two end points of the new wire in the connection-point map.\<close>

definition loadWire :: "import_env \<Rightarrow> EWIRE \<Rightarrow> sheet_state \<Rightarrow> SCH_LINE \<times> sheet_state" where
  "loadWire env ewire st =
     (let wire = make_wire env ewire; ref = Conn_Wire (length (screen st))
      in (wire,
          st\<lparr>m_connPoints :=
               conn_emplace (line_end wire) ref
                 (conn_emplace (line_start wire) ref (m_connPoints st))\<rparr>))"

definition loadJunction :: "import_env \<Rightarrow> EJUNCTION \<Rightarrow> SCH_ITEM" where
  "loadJunction env ejunction =
     JUNCTION (ToSchUnits env (junction_x ejunction), - ToSchUnits env (junction_y ejunction))"

text \<open>
  A label is global when its net is counted more than once. (The parser stores the
  net name it is given in the field \<open>netname\<close> of the label.)
\<close>

definition loadLabel :: "import_env \<Rightarrow> ELABEL \<Rightarrow> string \<Rightarrow> SCH_TEXT" where
  "loadLabel env elabel aNetName =
     (let elabelpos = (ToSchUnits env (elabel_x elabel), - ToSchUnits env (elabel_y elabel));
          global = netCount env aNetName > 1
      in \<lparr>text_kind = (if global then SCH_GLOBAL_LABEL_T else SCH_LABEL_T),
          text_pos = elabelpos,
          text_string = escapeName env (elabel_netname elabel)\<rparr>)"

text \<open>
  loadPlainText strips the white space of every line of the text; the stripped text
  is the field \<open>etext_text\<close> here.
\<close>

definition loadPlainText :: "import_env \<Rightarrow> ETEXT \<Rightarrow> SCH_TEXT" where
  "loadPlainText env etext =
     \<lparr>text_kind = SCH_TEXT_T,
      text_pos = (ToSchUnits env (etext_x etext), - ToSchUnits env (etext_y etext)),
      text_string = (if etext_text etext = [] then [CHR 0x22, CHR '' '', CHR 0x22]
                     else escapeName env (etext_text etext))\<rparr>"

text \<open>The four lines of a frame; a new line is on the notes layer.\<close>

definition loadFrame :: "import_env \<Rightarrow> EFRAME \<Rightarrow> SCH_LINE list" where
  "loadFrame env eframe =
     (let corner1 = (ToSchUnits env (frame_x1 eframe), - ToSchUnits env (frame_y1 eframe));
          corner3 = (ToSchUnits env (frame_x2 eframe), - ToSchUnits env (frame_y2 eframe));
          corner2 = (fst corner3, snd corner1);
          corner4 = (fst corner1, snd corner3);
          line = (\<lambda>a b. \<lparr>line_layer = LAYER_NOTES, line_start = a, line_end = b\<rparr>)
      in [line corner1 corner2, line corner2 corner3, line corner3 corner4, line corner4 corner1])"

subsection \<open>Net and bus segments (loadSegments)\<close>

text \<open>The children of a segment element, by name.\<close>

datatype segment_child =
    SEG_WIRE EWIRE
  | SEG_JUNCTION EJUNCTION
  | SEG_LABEL ELABEL
  | SEG_PINREF
  | SEG_OTHER

fun update_last :: "('a \<Rightarrow> 'a) \<Rightarrow> 'a list \<Rightarrow> 'a list" where
  "update_last f [] = []"
| "update_last f [x] = [f x]"
| "update_last f (x # y # ys) = x # update_last f (y # ys)"

text \<open>
  The crossings of a new wire with the segments recorded so far, the groups whose
  first label carries the net's name left out.
\<close>

definition new_intersections :: "import_env \<Rightarrow> string \<Rightarrow> SEG \<Rightarrow> SEG_DESC list \<Rightarrow> point list" where
  "new_intersections env netName thisWire descs =
     concat (map (\<lambda>desc.
        if labels desc \<noteq> [] \<and> text_string (hd (labels desc)) = netName then []
        else List.map_filter (\<lambda>seg. Intersect env thisWire seg) (segs desc)) descs)"

text \<open>The first loop over the children of a segment: the wires.\<close>

definition segment_wire_step ::
  "import_env \<Rightarrow> string \<Rightarrow> segment_child \<Rightarrow> SCH_LINE option \<times> sheet_state
     \<Rightarrow> SCH_LINE option \<times> sheet_state" where
  "segment_wire_step env netName child acc =
     (case child of
        SEG_WIRE ewire \<Rightarrow>
          (let (firstWire, st) = acc;
               (wire, st1) = loadWire env ewire st;
               firstWire' = (case firstWire of None \<Rightarrow> Some wire | Some w \<Rightarrow> Some w);
               thisWire = \<lparr>seg_A = line_start wire, seg_B = line_end wire\<rparr>;
               st2 = st1\<lparr>m_wireIntersections :=
                           m_wireIntersections st1
                             @ new_intersections env netName thisWire (m_segments st1)\<rparr>;
               st3 = st2\<lparr>m_segments :=
                           update_last (\<lambda>d. d\<lparr>segs := segs d @ [thisWire]\<rparr>) (m_segments st2)\<rparr>
           in (firstWire', screen_Append (LINE wire) st3))
      | _ \<Rightarrow> acc)"

text \<open>The second loop: junctions and labels.\<close>

definition segment_attribute_step ::
  "import_env \<Rightarrow> string \<Rightarrow> segment_child \<Rightarrow> bool \<times> sheet_state \<Rightarrow> bool \<times> sheet_state" where
  "segment_attribute_step env netName child acc =
     (case child of
        SEG_JUNCTION ejunction \<Rightarrow>
          (fst acc, screen_Append (loadJunction env ejunction) (snd acc))
      | SEG_LABEL elabel \<Rightarrow>
          (let label = loadLabel env elabel netName;
               st1 = screen_Append (TEXT label) (snd acc)
           in (True,
               st1\<lparr>m_segments :=
                     update_last (\<lambda>d. d\<lparr>labels := labels d @ [label]\<rparr>) (m_segments st1)\<rparr>))
      | _ \<Rightarrow> acc)"

text \<open>The label added to a segment that has a wire and no label of its own.\<close>

definition synthesized_label ::
  "import_env \<Rightarrow> string \<Rightarrow> int \<Rightarrow> bool \<Rightarrow> SCH_LINE option \<Rightarrow> SCH_TEXT option" where
  "synthesized_label env netName segmentCount labelled firstWire =
     (case firstWire of
        None \<Rightarrow> None
      | Some wire \<Rightarrow>
          if labelled then None
          else if netCount env netName > 1 then
            Some \<lparr>text_kind = SCH_GLOBAL_LABEL_T, text_pos = line_start wire,
                  text_string = escapeName env netName\<rparr>
          else if segmentCount > 1 then
            Some \<lparr>text_kind = SCH_LABEL_T, text_pos = line_start wire,
                  text_string = escapeName env netName\<rparr>
          else None)"

text \<open>The body of the loop over the segments of a net or bus.\<close>

definition loadSegment ::
  "import_env \<Rightarrow> string \<Rightarrow> int \<Rightarrow> segment_child list \<Rightarrow> sheet_state \<Rightarrow> sheet_state" where
  "loadSegment env netName segmentCount children st =
     (let st0 = st\<lparr>m_segments := m_segments st @ [\<lparr>labels = [], segs = []\<rparr>]\<rparr>;
          (firstWire, st1) = fold (segment_wire_step env netName) children (None, st0);
          (labelled, st2) = fold (segment_attribute_step env netName) children (False, st1)
      in case synthesized_label env netName segmentCount labelled firstWire of
           None \<Rightarrow> st2
         | Some label \<Rightarrow> screen_Append (TEXT label) st2)"

text \<open>
  The net (or bus) element is given by its segments, each by its children: the
  document type allows no other child, so the number of children named "segment"
  is the length of the list.
\<close>

definition loadSegments ::
  "import_env \<Rightarrow> segment_child list list \<Rightarrow> string \<Rightarrow> sheet_state \<Rightarrow> sheet_state" where
  "loadSegments env aSegmentsNode netName st =
     fold (loadSegment env netName (int (length aSegmentsNode))) aSegmentsNode st"

text \<open>The wires of a segment, and whether it has a label of its own.\<close>

definition segment_wires :: "segment_child list \<Rightarrow> EWIRE list" where
  "segment_wires children =
     concat (map (\<lambda>c. case c of SEG_WIRE w \<Rightarrow> [w] | _ \<Rightarrow> []) children)"

definition has_label :: "segment_child list \<Rightarrow> bool" where
  "has_label children = list_ex (\<lambda>c. case c of SEG_LABEL l \<Rightarrow> True | _ \<Rightarrow> False) children"

text \<open>The junctions and labels of a segment, as the second loop appends them.\<close>

definition segment_attributes :: "import_env \<Rightarrow> string \<Rightarrow> segment_child list \<Rightarrow> SCH_ITEM list" where
  "segment_attributes env netName children =
     concat (map (\<lambda>c. case c of
                        SEG_JUNCTION j \<Rightarrow> [loadJunction env j]
                      | SEG_LABEL l \<Rightarrow> [TEXT (loadLabel env l netName)]
                      | _ \<Rightarrow> []) children)"

subsection \<open>Part instances (loadInstance)\<close>

definition upper_char :: "char \<Rightarrow> char" where
  "upper_char c =
     (if (97::nat) \<le> of_char c \<and> of_char c \<le> (122::nat) then char_of (of_char c - (32::nat))
      else c)"

definition lower_char :: "char \<Rightarrow> char" where
  "lower_char c =
     (if (65::nat) \<le> of_char c \<and> of_char c \<le> (90::nat) then char_of (of_char c + (32::nat))
      else c)"

definition Upper :: "string \<Rightarrow> string" where
  "Upper s = map upper_char s"

definition Lower :: "string \<Rightarrow> string" where
  "Lower s = map lower_char s"

definition kiCadComponentRotation :: "int \<Rightarrow> COMPONENT_ORIENTATION_T" where
  "kiCadComponentRotation roti =
     (if roti = 0 then CMP_ORIENT_0
      else if roti = 90 then CMP_ORIENT_90
      else if roti = 180 then CMP_ORIENT_180
      else if roti = 270 then CMP_ORIENT_270
      else CMP_ORIENT_0)"

definition part_not_found_msg :: "string \<Rightarrow> string" where
  "part_not_found_msg part =
     ''Error parsing Eagle file. Could not find '' @ [CHR 0x27] @ part @ [CHR 0x27]
       @ '' instance but it is referenced in the schematic.''"

definition symbol_not_found_msg :: "string \<Rightarrow> string" where
  "symbol_not_found_msg kisymbolname =
     ''Could not find '' @ [CHR 0x27] @ kisymbolname @ [CHR 0x27] @ '' in the imported library.''"

definition Report :: "string \<Rightarrow> SEVERITY \<Rightarrow> sheet_state \<Rightarrow> sheet_state" where
  "Report msg sev st = st\<lparr>reports := reports st @ [(msg, sev)]\<rparr>"

text \<open>The reference of the new symbol: the part's name, marked when it has no footprint or is a number.\<close>

definition instance_reference :: "string \<Rightarrow> string \<Rightarrow> string" where
  "instance_reference pkg part =
     (let reference = (if pkg = [] then CHR ''#'' # part else part)
      in if list_all (\<lambda>c. c \<in> set ''0123456789'') reference then ''UNK'' @ reference
         else reference)"

definition register_pins ::
  "import_env \<Rightarrow> SCH_COMPONENT \<Rightarrow> nat \<Rightarrow> conn_points \<Rightarrow> conn_points" where
  "register_pins env component idx conn =
     fold (\<lambda>(i, pin). conn_emplace (GetPinPhysicalPosition env component pin) (Conn_Pin idx i))
       (enumerate 0 (GetLibPins env component)) conn"

text \<open>The name of the library symbol of a part: device set and device, without asterisks, corrected.\<close>

definition kisymbolname_of :: "import_env \<Rightarrow> EPART \<Rightarrow> string" where
  "kisymbolname_of env epart =
     FixIllegalChars env
       (filter (\<lambda>c. c \<noteq> CHR ''*'') (epart_deviceset epart @ epart_device epart))"

text \<open>
  loadInstance. A mirrored instance is mirrored about its own X coordinate, which
  leaves its position where it is.
\<close>

definition loadInstance :: "import_env \<Rightarrow> EINSTANCE \<Rightarrow> sheet_state \<Rightarrow> sheet_state" where
  "loadInstance env einstance st =
     (case m_partlist env (Upper (inst_part einstance)) of
        None \<Rightarrow> Report (part_not_found_msg (inst_part einstance)) RPT_SEVERITY_ERROR st
      | Some epart \<Rightarrow>
          (let libraryname = epart_library epart;
               gatename = epart_deviceset epart @ epart_device epart @ inst_gate einstance;
               kisymbolname = kisymbolname_of env epart;
               elib0 = (case m_eagleLibs st libraryname of
                          None \<Rightarrow> \<lparr>lib_name = [], GateUnit = Map.empty, package = Map.empty\<rparr>
                        | Some l \<Rightarrow> l);
               unit = (case GateUnit elib0 gatename of None \<Rightarrow> 0 | Some u \<Rightarrow> u);
               elib = elib0\<lparr>GateUnit := (GateUnit elib0)(gatename \<mapsto> unit)\<rparr>;
               st1 = st\<lparr>m_eagleLibs := (m_eagleLibs st)(libraryname \<mapsto> elib)\<rparr>;
               pkg = (case package elib kisymbolname of None \<Rightarrow> [] | Some p \<Rightarrow> p)
           in case LoadSymbol env kisymbolname of
                None \<Rightarrow> Report (symbol_not_found_msg kisymbolname) RPT_SEVERITY_ERROR st1
              | Some part \<Rightarrow>
                  (let component =
                         \<lparr>cmp_lib_id = kisymbolname,
                          cmp_unit = unit,
                          cmp_position = (ToSchUnits env (inst_x einstance),
                                          - ToSchUnits env (inst_y einstance)),
                          cmp_orientation =
                            (case inst_rot einstance of
                               None \<Rightarrow> CMP_ORIENT_0
                             | Some rot \<Rightarrow> kiCadComponentRotation (rot_degrees rot)),
                          cmp_mirrored =
                            (case inst_rot einstance of None \<Rightarrow> False | Some rot \<Rightarrow> rot_mirror rot),
                          cmp_footprint = pkg,
                          cmp_reference = instance_reference pkg (inst_part einstance),
                          cmp_value =
                            (case epart_value epart of None \<Rightarrow> kisymbolname | Some v \<Rightarrow> v),
                          cmp_part_ref = None\<rparr>
                   in case SchSymbolLibTable env kisymbolname of
                        None \<Rightarrow> st1
                      | Some libSymbol \<Rightarrow>
                          (let component' = component\<lparr>cmp_part_ref := Some libSymbol\<rparr>;
                               st2 = st1\<lparr>m_connPoints :=
                                           register_pins env component' (length (screen st1))
                                             (m_connPoints st1)\<rparr>
                           in screen_Append (COMPONENT component') st2))))"

subsection \<open>The loops of addBusEntries\<close>

text \<open>
  addBusEntries visits the lines of the screen in the order of the screen's item
  container. The outer loop takes every line on the bus layer; the inner loop starts
  at the line after it (\<open>it2 = it1; ++it2\<close>) and takes every later line on the wire
  layer, for which it runs the body modelled by \<open>bus_wire_pair\<close>. The lines are
  given here in that order. A line that the body deletes from the screen becomes
  \<open>None\<close> and is not visited again; the items the body appends are bus entries and
  markers, which are not lines.
\<close>

record entries_state =
  es_lines :: "SCH_LINE option list"
  es_appended :: "new_item list"
  es_labels :: "point list"

definition entries_init :: "SCH_LINE list \<Rightarrow> point list \<Rightarrow> entries_state" where
  "entries_init lines lbls = \<lparr>es_lines = map Some lines, es_appended = [], es_labels = lbls\<rparr>"

text \<open>One round of the inner loop: the bus at index \<open>i\<close> and the line at index \<open>j\<close>.\<close>

definition pair_step :: "nat \<Rightarrow> nat \<Rightarrow> entries_state \<Rightarrow> entries_state" where
  "pair_step i j es =
     (case es_lines es ! i of
        None \<Rightarrow> es
      | Some bus \<Rightarrow>
          (case es_lines es ! j of
             None \<Rightarrow> es
           | Some line \<Rightarrow>
               if line_layer line = LAYER_WIRE then
                 (let st = bus_wire_pair (line_start bus) (line_end bus)
                             (pair_init (line_start line) (line_end line) (es_labels es))
                  in \<lparr>es_lines =
                        (es_lines es)
                          [j := (if wire_deleted st then None
                                 else Some (line\<lparr>line_start := wire_start st,
                                                 line_end := wire_end st\<rparr>))],
                      es_appended = es_appended es @ appended st,
                      es_labels = label_positions st\<rparr>)
               else es))"

text \<open>One round of the outer loop: the line at index \<open>i\<close>, when it is a bus, with every later line.\<close>

definition bus_step :: "nat \<Rightarrow> entries_state \<Rightarrow> entries_state" where
  "bus_step i es =
     (case es_lines es ! i of
        None \<Rightarrow> es
      | Some bus \<Rightarrow>
          if line_layer bus \<noteq> LAYER_BUS then es
          else fold (pair_step i) [Suc i..<length (es_lines es)] es)"

definition addBusEntries :: "SCH_LINE list \<Rightarrow> point list \<Rightarrow> entries_state" where
  "addBusEntries lines lbls = fold bus_step [0..<length lines] (entries_init lines lbls)"

subsection \<open>Library symbols (loadSymbol and its primitives)\<close>

record ECIRCLE =
  circle_x :: int
  circle_y :: int
  circle_radius :: int
  circle_width :: int

record ERECT =
  rect_x1 :: int
  rect_y1 :: int
  rect_x2 :: int
  rect_y2 :: int

record EPIN =
  epin_name :: string
  epin_x :: int
  epin_y :: int
  epin_direction :: "string option"
  epin_rot :: "EROT option"

record ECONNECT =
  connect_gate :: string
  connect_pin :: string
  connect_pad :: string

record EDEVICE =
  device_name :: string
  device_package :: "string option"
  device_connects :: "ECONNECT list"

record EDEVICE_SET =
  deviceset_name :: string
  deviceset_prefix :: "string option"

record EGATE =
  gate_name :: string
  gate_symbol :: string

text \<open>The children of a symbol element, by name; a polygon is given by its vertices.\<close>

datatype symbol_child =
    SYM_CIRCLE ECIRCLE
  | SYM_PIN EPIN
  | SYM_POLYGON "(int \<times> int) list"
  | SYM_RECTANGLE ERECT
  | SYM_TEXT ETEXT
  | SYM_WIRE EWIRE
  | SYM_FRAME EFRAME
  | SYM_OTHER

definition loadSymbolCircle :: "import_env \<Rightarrow> ECIRCLE \<Rightarrow> int \<Rightarrow> LIB_ITEM" where
  "loadSymbolCircle env c aGateNumber =
     LIB_CIRCLE (ToSchUnits env (circle_x c), ToSchUnits env (circle_y c))
       (ToSchUnits env (circle_radius c)) (ToSchUnits env (circle_width c)) aGateNumber"

definition loadSymbolRectangle :: "import_env \<Rightarrow> ERECT \<Rightarrow> int \<Rightarrow> LIB_ITEM" where
  "loadSymbolRectangle env rect aGateNumber =
     LIB_RECTANGLE (ToSchUnits env (rect_x1 rect), ToSchUnits env (rect_y1 rect))
       (ToSchUnits env (rect_x2 rect), ToSchUnits env (rect_y2 rect)) aGateNumber"

text \<open>The conversion of a double-precision number to \<open>int\<close> drops its fraction.\<close>

definition to_int :: "real \<Rightarrow> int" where
  "to_int r = (if 0 \<le> r then \<lfloor>r\<rfloor> else \<lceil>r\<rceil>)"

text \<open>
  The value the source calls the radius of an arc: twice the distance of the point
  from the centre.
\<close>

definition arc_radius :: "import_env \<Rightarrow> point \<Rightarrow> point \<Rightarrow> real" where
  "arc_radius env center p =
     sqrt_double env
       \<bar>(fst center - fst p) * (fst center - fst p) + (snd center - snd p) * (snd center - snd p)\<bar>
     * 2"

text \<open>
  The end point of a thick arc: the vector from the centre to the point, each
  component multiplied by twice the width and divided by the radius, from the
  centre.
\<close>

definition thick_arc_point :: "import_env \<Rightarrow> point \<Rightarrow> int \<Rightarrow> real \<Rightarrow> point \<Rightarrow> point" where
  "thick_arc_point env center width radius p =
     (let centerVector = psub p center
      in padd center
           (to_int (div_double env (fst centerVector * width * 2) radius),
            to_int (div_double env (snd centerVector * width * 2) radius)))"

text \<open>
  A wire of a symbol: nothing for a wire of no length, an arc for a curved wire, else
  a line. The centre of the arc is computed from the two end points and the negated
  curve. An arc whose doubled width exceeds the radius is drawn filled, with width
  1, both end points moved and the radius computed again; the start and end of an
  arc are exchanged when the curve is not positive. The arc takes its radius as an
  \<open>int\<close>.
\<close>

definition loadSymbolWire :: "import_env \<Rightarrow> EWIRE \<Rightarrow> int \<Rightarrow> LIB_ITEM option" where
  "loadSymbolWire env ewire aGateNumber =
     (let begin = (ToSchUnits env (wire_x1 ewire), ToSchUnits env (wire_y1 ewire));
          end' = (ToSchUnits env (wire_x2 ewire), ToSchUnits env (wire_y2 ewire))
      in if begin = end' then None
         else case wire_curve ewire of
                Some curve \<Rightarrow>
                  (let center = ConvertArcCenter env begin end' (curve * -1);
                       radius = arc_radius env center begin;
                       width = ToSchUnits env (wire_width ewire);
                       thick = (real_of_int (width * 2) > radius);
                       begin1 = (if thick then thick_arc_point env center width radius begin
                                 else begin);
                       end1 = (if thick then thick_arc_point env center width radius end'
                               else end');
                       radius1 = (if thick then arc_radius env center begin1 else radius)
                   in Some (LIB_ARC center
                              (if curve > 0 then begin1 else end1)
                              (if curve > 0 then end1 else begin1)
                              (to_int radius1) (if thick then 1 else width) thick aGateNumber))
              | None \<Rightarrow>
                  Some (LIB_POLYLINE [begin, end'] aGateNumber (ToSchUnits env (wire_width ewire))))"

definition loadSymbolPolyLine :: "import_env \<Rightarrow> (int \<times> int) list \<Rightarrow> int \<Rightarrow> LIB_ITEM" where
  "loadSymbolPolyLine env vertices aGateNumber =
     LIB_POLYLINE (map (\<lambda>(x, y). (ToSchUnits env x, ToSchUnits env y)) vertices) aGateNumber 0"

text \<open>A pin: its position, name, unit and orientation (length, visibility and shape are not represented).\<close>

definition loadPin :: "import_env \<Rightarrow> EPIN \<Rightarrow> int \<Rightarrow> LIB_PIN" where
  "loadPin env aEPin aGateNumber =
     (let roti = (case epin_rot aEPin of None \<Rightarrow> 0 | Some rot \<Rightarrow> rot_degrees rot)
      in \<lparr>pin_position = (ToSchUnits env (epin_x aEPin), ToSchUnits env (epin_y aEPin)),
          pin_name = epin_name aEPin,
          pin_number = [],
          pin_unit = aGateNumber,
          pin_orientation =
            (if roti = 90 then CHR ''U'' else if roti = 180 then CHR ''L''
             else if roti = 270 then CHR ''D'' else CHR ''R''),
          pin_type = PT_BIDI\<rparr>)"

definition symbol_text :: "string \<Rightarrow> string" where
  "symbol_text content =
     (let text = map (\<lambda>c. if c = CHR 0x0A \<or> c = CHR 0x0D then CHR ''_'' else c) content
      in if text = [] then ''~~'' else text)"

definition loadSymbolText :: "import_env \<Rightarrow> ETEXT \<Rightarrow> int \<Rightarrow> point \<times> string \<times> int" where
  "loadSymbolText env etext aGateNumber =
     ((ToSchUnits env (etext_x etext), ToSchUnits env (etext_y etext)),
      symbol_text (etext_text etext), aGateNumber)"

text \<open>The table of pin directions, in the order of its keys.\<close>

definition pinDirectionsMap :: "(string \<times> ELECTRICAL_PINTYPE) list" where
  "pinDirectionsMap =
     [(''hiz'', PT_TRISTATE), (''in'', PT_INPUT), (''io'', PT_BIDI), (''nc'', PT_NC),
      (''oc'', PT_OPENCOLLECTOR), (''out'', PT_OUTPUT), (''pas'', PT_PASSIVE),
      (''pwr'', PT_POWER_IN), (''sup'', PT_POWER_IN)]"

text \<open>The loop over the table: the type of the first key equal to the direction, and whether that key is "sup".\<close>

definition pin_direction :: "string \<Rightarrow> (ELECTRICAL_PINTYPE \<times> bool) option" where
  "pin_direction direction =
     map_option (\<lambda>(key, ty). (ty, key = ''sup''))
       (find (\<lambda>(key, ty). Lower direction = key) pinDirectionsMap)"

text \<open>\<open>wxSplit( pad, ' ' )\<close>: the pad names between the spaces.\<close>

fun wxSplit :: "string \<Rightarrow> string \<Rightarrow> string list" where
  "wxSplit acc [] = (if acc = [] then [] else [acc])"
| "wxSplit acc (c # cs) = (if c = CHR '' '' then acc # wxSplit [] cs else wxSplit (acc @ [c]) cs)"

fun decimal :: "nat \<Rightarrow> string" where
  "decimal n = (if n < 10 then [char_of (48 + n)] else decimal (n div 10) @ [char_of (48 + n mod 10)])"

record symbol_state =
  sym_part :: LIB_PART
  foundName :: bool
  foundValue :: bool
  ispower :: bool
  pincount :: nat

definition AddDrawItem :: "LIB_ITEM \<Rightarrow> LIB_PART \<Rightarrow> LIB_PART" where
  "AddDrawItem item part = part\<lparr>part_items := part_items part @ [item]\<rparr>"

text \<open>
  The pin branch of loadSymbol. With connections declared for the device, the pin
  is added once for every pad of the first connection of this gate and pin (and not
  at all when there is none); otherwise it is added with its count as number.
\<close>

definition add_pin ::
  "import_env \<Rightarrow> EDEVICE \<Rightarrow> int \<Rightarrow> string \<Rightarrow> nat \<Rightarrow> LIB_PIN \<Rightarrow> LIB_PART \<Rightarrow> LIB_PART" where
  "add_pin env aDevice aGateNumber aGateName count pin part =
     (if device_connects aDevice \<noteq> [] then
        (case find (\<lambda>connect. connect_gate connect = aGateName \<and> pin_name pin = connect_pin connect)
                (device_connects aDevice) of
           None \<Rightarrow> part
         | Some connect \<Rightarrow>
             (let pin' = pin\<lparr>pin_unit := aGateNumber, pin_name := escapeName env (pin_name pin)\<rparr>
              in fold (\<lambda>padname. AddDrawItem (LIB_PIN_ITEM (pin'\<lparr>pin_number := padname\<rparr>)))
                   (wxSplit [] (connect_pad connect)) part))
      else
        AddDrawItem (LIB_PIN_ITEM (pin\<lparr>pin_unit := aGateNumber, pin_number := decimal count\<rparr>)) part)"

definition symbol_step ::
  "import_env \<Rightarrow> (EFRAME \<Rightarrow> LIB_ITEM list) \<Rightarrow> EDEVICE \<Rightarrow> int \<Rightarrow> string \<Rightarrow> symbol_child
     \<Rightarrow> symbol_state \<Rightarrow> symbol_state" where
  "symbol_step env frameItems aDevice aGateNumber aGateName child s =
     (case child of
        SYM_CIRCLE c \<Rightarrow>
          s\<lparr>sym_part := AddDrawItem (loadSymbolCircle env c aGateNumber) (sym_part s)\<rparr>
      | SYM_PIN ePin \<Rightarrow>
          (let pin0 = loadPin env ePin aGateNumber;
               count = pincount s + 1;
               dir = (case epin_direction ePin of
                        None \<Rightarrow> None
                      | Some direction \<Rightarrow> pin_direction direction);
               pin = (case dir of None \<Rightarrow> pin0 | Some (ty, is_sup) \<Rightarrow> pin0\<lparr>pin_type := ty\<rparr>);
               power = (case dir of None \<Rightarrow> ispower s | Some (ty, is_sup) \<Rightarrow> is_sup \<or> ispower s)
           in s\<lparr>sym_part := add_pin env aDevice aGateNumber aGateName count pin (sym_part s),
                ispower := power, pincount := count\<rparr>)
      | SYM_POLYGON vertices \<Rightarrow>
          s\<lparr>sym_part := AddDrawItem (loadSymbolPolyLine env vertices aGateNumber) (sym_part s)\<rparr>
      | SYM_RECTANGLE rect \<Rightarrow>
          s\<lparr>sym_part := AddDrawItem (loadSymbolRectangle env rect aGateNumber) (sym_part s)\<rparr>
      | SYM_TEXT etext \<Rightarrow>
          (let (pos, text, unit) = loadSymbolText env etext aGateNumber
           in if Upper text = ''>NAME'' then
                s\<lparr>sym_part := (sym_part s)\<lparr>part_reference_visible := True\<rparr>, foundName := True\<rparr>
              else if Upper text = ''>VALUE'' then
                s\<lparr>sym_part := (sym_part s)\<lparr>part_value_visible := True\<rparr>, foundValue := True\<rparr>
              else s\<lparr>sym_part := AddDrawItem (LIB_TEXT pos text unit) (sym_part s)\<rparr>)
      | SYM_WIRE ewire \<Rightarrow>
          (case loadSymbolWire env ewire aGateNumber of
             None \<Rightarrow> s
           | Some item \<Rightarrow> s\<lparr>sym_part := AddDrawItem item (sym_part s)\<rparr>)
      | SYM_FRAME eframe \<Rightarrow>
          s\<lparr>sym_part := fold AddDrawItem (frameItems eframe) (sym_part s)\<rparr>
      | SYM_OTHER \<Rightarrow> s)"

text \<open>
  loadSymbol: the symbol with the gate's items added, and whether the gate is a
  power unit. The items of a frame are taken from \<open>frameItems\<close> (their positions
  are floating-point results).
\<close>

definition loadSymbol ::
  "import_env \<Rightarrow> (EFRAME \<Rightarrow> LIB_ITEM list) \<Rightarrow> symbol_child list \<Rightarrow> LIB_PART \<Rightarrow> EDEVICE
     \<Rightarrow> int \<Rightarrow> string \<Rightarrow> LIB_PART \<times> bool" where
  "loadSymbol env frameItems aSymbolNode aPart aDevice aGateNumber aGateName =
     (let s = fold (symbol_step env frameItems aDevice aGateNumber aGateName) aSymbolNode
                \<lparr>sym_part = aPart, foundName = False, foundValue = False, ispower = False,
                 pincount = 0\<rparr>;
          p1 = (if foundName s then sym_part s else (sym_part s)\<lparr>part_reference_visible := False\<rparr>);
          p2 = (if foundValue s then p1 else p1\<lparr>part_value_visible := False\<rparr>)
      in (p2, if pincount s = 1 then ispower s else False))"

subsection \<open>Devices (the device loop of loadLibrary)\<close>

text \<open>
  The loop over the gates of the device set. The symbol of a gate is looked up by
  name among the symbols of the library; the source does not test the result, so a
  gate whose symbol is absent gives no part (\<open>None\<close>).
\<close>

fun load_gates ::
  "import_env \<Rightarrow> (EFRAME \<Rightarrow> LIB_ITEM list) \<Rightarrow> (string \<rightharpoonup> symbol_child list) \<Rightarrow> EDEVICE
     \<Rightarrow> EGATE list \<Rightarrow> int \<Rightarrow> LIB_PART \<times> bool \<Rightarrow> (LIB_PART \<times> bool) option" where
  "load_gates env frameItems SymbolNodes edevice [] gateindex acc = Some acc"
| "load_gates env frameItems SymbolNodes edevice (egate # gates) gateindex acc =
     (case SymbolNodes (gate_symbol egate) of
        None \<Rightarrow> None
      | Some node \<Rightarrow>
          load_gates env frameItems SymbolNodes edevice gates (gateindex + 1)
            (loadSymbol env frameItems node (fst acc) edevice gateindex (gate_name egate)))"

text \<open>
  The body of the loop over the devices of a device set: the symbol made for one
  device, first the new symbol (not a power symbol, its fields visible) with its
  reference field, then the gates. The gates
  element is given by its gate children (the document type allows no other child),
  and \<open>gates_count\<close> is their number.
\<close>

definition new_device_part :: "import_env \<Rightarrow> EDEVICE_SET \<Rightarrow> int \<Rightarrow> EDEVICE \<Rightarrow> LIB_PART" where
  "new_device_part env edeviceset gates_count edevice =
     (let prefix = (case deviceset_prefix edeviceset of None \<Rightarrow> [] | Some p \<Rightarrow> p);
          symbolName = FixIllegalChars env
            (filter (\<lambda>c. c \<noteq> CHR ''*'') (deviceset_name edeviceset @ device_name edevice));
          kpart = \<lparr>part_name = symbolName, part_unit_count = gates_count, part_power = False,
                   part_reference_visible = True, part_value_visible = True,
                   part_reference_text = ''U'', part_items = []\<rparr>
      in if prefix = [] then kpart\<lparr>part_reference_visible := False\<rparr>
         else kpart\<lparr>part_reference_text :=
                (if device_package edevice \<noteq> None then prefix else CHR ''#'' # prefix)\<rparr>)"

definition load_device ::
  "import_env \<Rightarrow> (EFRAME \<Rightarrow> LIB_ITEM list) \<Rightarrow> (string \<rightharpoonup> symbol_child list) \<Rightarrow> EDEVICE_SET
     \<Rightarrow> EGATE list \<Rightarrow> EDEVICE \<Rightarrow> LIB_PART option" where
  "load_device env frameItems SymbolNodes edeviceset gates edevice =
     (let gates_count = int (length gates);
          kpart1 = new_device_part env edeviceset gates_count edevice
      in case load_gates env frameItems SymbolNodes edevice gates 1 (kpart1, False) of
           None \<Rightarrow> None
         | Some (kpart, is_power) \<Rightarrow>
             (let kpart2 = (if gates_count = 1 \<and> is_power then kpart\<lparr>part_power := True\<rparr>
                            else kpart)
              in Some (kpart2\<lparr>part_name := FixIllegalChars env (part_name kpart2)\<rparr>)))"

subsection \<open>Implicit connections and missing units (addImplicitConnections, loadSchematic)\<close>

definition extractNetName :: "string \<Rightarrow> string" where
  "extractNetName aPinName = takeWhile (\<lambda>c. c \<noteq> CHR ''@'') aPinName"

definition checkConnections ::
  "import_env \<Rightarrow> conn_points \<Rightarrow> SCH_COMPONENT \<Rightarrow> LIB_PIN \<Rightarrow> bool" where
  "checkConnections env conn aComponent aPin =
     (case conn (GetPinPhysicalPosition env aComponent aPin) of
        None \<Rightarrow> False
      | Some items \<Rightarrow> card items > 1)"

text \<open>
  A \<open>std::map\<close> as a list of pairs kept in the order of the keys: \<open>emplace\<close> adds a
  pair only when the key is absent, an assignment through \<open>operator[]\<close> replaces the
  value of a key or adds the pair.
\<close>

definition map_emplace :: "'k::linorder \<Rightarrow> 'v \<Rightarrow> ('k \<times> 'v) list \<Rightarrow> ('k \<times> 'v) list" where
  "map_emplace k v m = (case map_of m k of Some old \<Rightarrow> m | None \<Rightarrow> insort_key fst (k, v) m)"

definition map_assign :: "'k::linorder \<Rightarrow> 'v \<Rightarrow> ('k \<times> 'v) list \<Rightarrow> ('k \<times> 'v) list" where
  "map_assign k v m =
     (case map_of m k of
        Some old \<Rightarrow> map (\<lambda>kv. if fst kv = k then (k, v) else kv) m
      | None \<Rightarrow> insort_key fst (k, v) m)"

record EAGLE_MISSING_CMP =
  missing_cmp :: SCH_COMPONENT
  missing_units :: "(int \<times> bool) list"

type_synonym missing_cmps = "(string \<times> EAGLE_MISSING_CMP) list"

text \<open>
  The loop over the pins of the symbol: a global label for every unconnected power
  input pin of the tested unit, and the set of the other units with such a pin.
\<close>

definition implicit_pin_step ::
  "import_env \<Rightarrow> conn_points \<Rightarrow> SCH_COMPONENT \<Rightarrow> bool \<Rightarrow> LIB_PIN
     \<Rightarrow> SCH_ITEM list \<times> int list \<Rightarrow> SCH_ITEM list \<times> int list" where
  "implicit_pin_step env conn aComponent aUpdateSet pin acc =
     (if pin_type pin = PT_POWER_IN then
        (let unit = cmp_unit aComponent;
             pinInUnit = (unit = 0 \<or> pin_unit pin = unit)
         in if pinInUnit then
              (if \<not> checkConnections env conn aComponent pin then
                 (fst acc @ [TEXT \<lparr>text_kind = SCH_GLOBAL_LABEL_T,
                                   text_pos = GetPinPhysicalPosition env aComponent pin,
                                   text_string = extractNetName (pin_name pin)\<rparr>],
                  snd acc)
               else acc)
            else if aUpdateSet then (fst acc, insort_insert (pin_unit pin) (snd acc))
            else acc)
      else acc)"

text \<open>The units saved for later: \<open>emplace( i, true )\<close> is reached only for a unit that is already a key.\<close>

definition save_missing_units :: "int list \<Rightarrow> (int \<times> bool) list \<Rightarrow> (int \<times> bool) list" where
  "save_missing_units missingUnits units =
     fold (\<lambda>i us. if map_of us i \<noteq> None then map_emplace i True us else us) missingUnits units"

definition update_missing ::
  "SCH_COMPONENT \<Rightarrow> int list \<Rightarrow> missing_cmps \<Rightarrow> missing_cmps" where
  "update_missing aComponent missingUnits m =
     (let reference = cmp_reference aComponent;
          unit = cmp_unit aComponent;
          m1 = (case map_of m reference of
                  None \<Rightarrow>
                    map_assign reference
                      \<lparr>missing_cmp = aComponent, missing_units = map_emplace unit False []\<rparr> m
                | Some entry \<Rightarrow>
                    map_assign reference
                      (entry\<lparr>missing_units := map_assign unit False (missing_units entry)\<rparr>) m)
      in if missingUnits \<noteq> [] then
           (case map_of m1 reference of
              None \<Rightarrow>
                map_assign reference
                  \<lparr>missing_cmp = aComponent, missing_units = save_missing_units missingUnits []\<rparr> m1
            | Some entry \<Rightarrow>
                map_assign reference
                  (entry\<lparr>missing_cmp := aComponent,
                         missing_units := save_missing_units missingUnits (missing_units entry)\<rparr>)
                  m1)
         else m1)"

definition addImplicitConnections ::
  "import_env \<Rightarrow> conn_points \<Rightarrow> SCH_COMPONENT \<Rightarrow> bool \<Rightarrow> SCH_ITEM list \<times> missing_cmps
     \<Rightarrow> SCH_ITEM list \<times> missing_cmps" where
  "addImplicitConnections env conn aComponent aUpdateSet acc =
     (case cmp_part_ref aComponent of
        None \<Rightarrow> acc
      | Some part \<Rightarrow>
          if part_power part then acc
          else
            (let (aScreen, missingUnits) =
                   fold (implicit_pin_step env conn aComponent aUpdateSet) (part_pins part)
                     (fst acc, [])
             in (aScreen,
                 if aUpdateSet \<and> part_unit_count part > 1
                 then update_missing aComponent missingUnits (snd acc)
                 else snd acc)))"

text \<open>
  The last phase of loadSheet for the symbols of a sheet, and the same over the
  sheets of the document, each with its own connection-point map and screen.
\<close>

definition sheet_implicit_connections ::
  "import_env \<Rightarrow> conn_points \<Rightarrow> SCH_COMPONENT list \<Rightarrow> SCH_ITEM list \<times> missing_cmps
     \<Rightarrow> SCH_ITEM list \<times> missing_cmps" where
  "sheet_implicit_connections env conn cmps acc =
     fold (\<lambda>c. addImplicitConnections env conn c True) cmps acc"

definition record_missing ::
  "import_env \<Rightarrow> (conn_points \<times> SCH_COMPONENT list \<times> SCH_ITEM list) list \<Rightarrow> missing_cmps
     \<Rightarrow> missing_cmps" where
  "record_missing env sheets m =
     fold (\<lambda>(conn, cmps, scr) m'. snd (sheet_implicit_connections env conn cmps (scr, m')))
       sheets m"

text \<open>
  The loop of loadSchematic over the missing units. The bounding box of a symbol
  (its width and height) is a parameter; the orientation 0 given to the new symbol
  is the normal one, not mirrored.
\<close>

record placement =
  newCmpPosition :: point
  maxY :: int
  root_screen :: "SCH_ITEM list"

definition instantiate_unit ::
  "import_env \<Rightarrow> conn_points \<Rightarrow> (SCH_COMPONENT \<Rightarrow> int \<times> int) \<Rightarrow> int \<Rightarrow> int \<Rightarrow> SCH_COMPONENT
     \<Rightarrow> int \<Rightarrow> placement \<Rightarrow> placement" where
  "instantiate_unit env conn cmpBbox pageWidth sheetLeft origCmp unit pl =
     (let component = origCmp\<lparr>cmp_unit := unit, cmp_orientation := CMP_ORIENT_0,
                              cmp_mirrored := False\<rparr>;
          (width, height) = cmpBbox component;
          posY = snd (newCmpPosition pl) + height;
          component' = component\<lparr>cmp_position := (fst (newCmpPosition pl), posY)\<rparr>;
          x' = fst (newCmpPosition pl) + width;
          maxY' = max (maxY pl) posY;
          newPos = (if x' \<ge> pageWidth then (sheetLeft, maxY') else (x', snd (newCmpPosition pl)));
          scr = fst (addImplicitConnections env conn component' False (root_screen pl, []))
      in \<lparr>newCmpPosition = newPos, maxY = maxY', root_screen = scr @ [COMPONENT component']\<rparr>)"

definition instantiate_missing ::
  "import_env \<Rightarrow> conn_points \<Rightarrow> (SCH_COMPONENT \<Rightarrow> int \<times> int) \<Rightarrow> int \<Rightarrow> int \<Rightarrow> missing_cmps
     \<Rightarrow> placement \<Rightarrow> placement" where
  "instantiate_missing env conn cmpBbox pageWidth sheetLeft m pl =
     fold (\<lambda>entry pl'.
        fold (\<lambda>unitEntry pl''.
           if snd unitEntry = False then pl''
           else instantiate_unit env conn cmpBbox pageWidth sheetLeft
                  (missing_cmp (snd entry)) (fst unitEntry) pl'')
          (missing_units (snd entry)) pl')
       m pl"

subsection \<open>Predicates used in the statements and proofs\<close>

text \<open>The invariant of the displacement search, and the two conditions that decide whether it returns.\<close>

definition search_inv :: "(point \<Rightarrow> bool) \<Rightarrow> search_state \<Rightarrow> bool" where
  "search_inv contains s \<longleftrightarrow>
     (\<not> move s \<or> (contains (labelPos s) \<and> (checkPositive s \<or> checkNegative s)))"

definition leaves :: "(point \<Rightarrow> bool) \<Rightarrow> point \<Rightarrow> point \<Rightarrow> int \<Rightarrow> bool" where
  "leaves contains o' wd N \<longleftrightarrow>
     (\<forall>k\<ge>N. \<not> contains (padd o' (pdiv (pscale wd k) 2)) \<and>
             \<not> contains (psub o' (pdiv (pscale wd k) 2)))"

definition stuck :: "point \<Rightarrow> search_state \<Rightarrow> bool" where
  "stuck o' s \<longleftrightarrow> (checkPositive s \<or> checkNegative s) \<and> (\<not> move s \<or> labelPos s = o')"

text \<open>
  An end point moved by one increment of 100 units along one axis, or along both.
\<close>

definition offset_by_increment :: "point \<Rightarrow> point \<Rightarrow> bool" where
  "offset_by_increment old new \<longleftrightarrow>
     (\<bar>fst new - fst old\<bar> = 100 \<and> (snd new = snd old \<or> \<bar>snd new - snd old\<bar> = 100)) \<or>
     (\<bar>snd new - snd old\<bar> = 100 \<and> (fst new = fst old \<or> \<bar>fst new - fst old\<bar> = 100))"

text \<open>
  The outcome the synthesizer is to reach for a wire whose start (or end) lies on the
  bus: one bus entry among the appended items, the wire kept, its other end point
  untouched, the touching end point offset and no longer on the bus.
\<close>

definition start_entry_made :: "point \<Rightarrow> point \<Rightarrow> point \<Rightarrow> point \<Rightarrow> pair_state \<Rightarrow> bool" where
  "start_entry_made bs be ls le st' \<longleftrightarrow>
     length (filter is_bus_entry (appended st')) = 1 \<and> \<not> wire_deleted st' \<and>
     wire_end st' = le \<and> offset_by_increment ls (wire_start st') \<and>
     \<not> TestSegmentHit (wire_start st') bs be"

definition end_entry_made :: "point \<Rightarrow> point \<Rightarrow> point \<Rightarrow> point \<Rightarrow> pair_state \<Rightarrow> bool" where
  "end_entry_made bs be ls le st' \<longleftrightarrow>
     length (filter is_bus_entry (appended st')) = 1 \<and> \<not> wire_deleted st' \<and>
     wire_start st' = ls \<and> offset_by_increment le (wire_end st') \<and>
     \<not> TestSegmentHit (wire_end st') bs be"

text \<open>
  The two probe points of an end point \<open>p\<close> on the bus, one increment to either side
  along the bus: above and below for a horizontal wire, left and right for a
  vertical one.
\<close>

definition probe_hit :: "point \<Rightarrow> point \<Rightarrow> point \<Rightarrow> point \<Rightarrow> point \<Rightarrow> bool" where
  "probe_hit bs be ls le p \<longleftrightarrow>
     (if snd ls = snd le
      then TestSegmentHit (padd p (0, -100)) bs be \<or> TestSegmentHit (padd p (0, 100)) bs be
      else TestSegmentHit (padd p (-100, 0)) bs be \<or> TestSegmentHit (padd p (100, 0)) bs be)"

text \<open>An orthogonal wire that is not a point, and a bus perpendicular to it.\<close>

definition perpendicular :: "point \<Rightarrow> point \<Rightarrow> point \<Rightarrow> point \<Rightarrow> bool" where
  "perpendicular bs be ls le \<longleftrightarrow>
     ls \<noteq> le \<and>
     ((snd ls = snd le \<and> fst bs = fst be) \<or> (fst ls = fst le \<and> snd bs = snd be))"

text \<open>
  The outcome of an entry branch of the first part: the bus entry is the only item
  appended, and the end point has moved along the wire's own axis.
\<close>

definition only_entry :: "pair_state \<Rightarrow> bool" where
  "only_entry st' \<longleftrightarrow> (\<exists>e f. appended st' = [SCH_BUS_WIRE_ENTRY e f])"

definition axis_offset :: "point \<Rightarrow> point \<Rightarrow> bool" where
  "axis_offset old new \<longleftrightarrow>
     (\<bar>fst new - fst old\<bar> = 100 \<and> snd new = snd old) \<or>
     (fst new = fst old \<and> \<bar>snd new - snd old\<bar> = 100)"

text \<open>
  The state of the loops of addBusEntries when they come to the bus at index \<open>i\<close> and
  the line at index \<open>j\<close>, and what they do after that round.
\<close>

definition loop_state :: "SCH_LINE list \<Rightarrow> point list \<Rightarrow> nat \<Rightarrow> nat \<Rightarrow> entries_state" where
  "loop_state lines lbls i j =
     fold (pair_step i) [Suc i..<j] (fold bus_step [0..<i] (entries_init lines lbls))"

definition loop_rest :: "SCH_LINE list \<Rightarrow> nat \<Rightarrow> nat \<Rightarrow> entries_state \<Rightarrow> entries_state" where
  "loop_rest lines i j es =
     fold bus_step [Suc i..<length lines] (fold (pair_step i) [Suc j..<length lines] es)"



text \<open>
  Lines for the examples: a vertical bus through the origin, a short one that begins
  there, and a horizontal wire that starts at the origin and leaves to the left.
\<close>

definition long_bus :: SCH_LINE where
  "long_bus = \<lparr>line_layer = LAYER_BUS, line_start = (0, -500), line_end = (0, 500)\<rparr>"


definition left_wire :: SCH_LINE where
  "left_wire = \<lparr>line_layer = LAYER_WIRE, line_start = (0, 0), line_end = (-300, 0)\<rparr>"

text \<open>The outcome of a marker branch followed by the second part.\<close>

definition marker_then_entry :: "point \<Rightarrow> pair_state \<Rightarrow> bool" where
  "marker_then_entry p st' \<longleftrightarrow>
     (\<exists>e f. appended st' = [SCH_MARKER ''Bus Entry needed'' p, SCH_BUS_WIRE_ENTRY e f])"

text \<open>An instance whose part is not in the part list, or whose symbol cannot be loaded.\<close>

definition unresolved_instance :: "import_env \<Rightarrow> EINSTANCE \<Rightarrow> bool" where
  "unresolved_instance env einstance =
     (case m_partlist env (Upper (inst_part einstance)) of
        None \<Rightarrow> True
      | Some epart \<Rightarrow> LoadSymbol env (kisymbolname_of env epart) = None)"

text \<open>
  An instance whose part is in the part list and whose symbol is found both in the
  imported library and in the library table of the project.
\<close>

definition resolved_instance :: "import_env \<Rightarrow> EINSTANCE \<Rightarrow> bool" where
  "resolved_instance env einstance =
     (case m_partlist env (Upper (inst_part einstance)) of
        None \<Rightarrow> False
      | Some epart \<Rightarrow>
          LoadSymbol env (kisymbolname_of env epart) \<noteq> None \<and>
          SchSymbolLibTable env (kisymbolname_of env epart) \<noteq> None)"

text \<open>
  The two end points of a wire of a symbol as the document gives them, the centre of
  the arc of a curved wire, and the test that makes the arc a thick one: its doubled
  width exceeds twice the distance of its begin point from the centre.
\<close>

definition symbol_wire_begin :: "import_env \<Rightarrow> EWIRE \<Rightarrow> point" where
  "symbol_wire_begin env ewire = (ToSchUnits env (wire_x1 ewire), ToSchUnits env (wire_y1 ewire))"

definition symbol_wire_end :: "import_env \<Rightarrow> EWIRE \<Rightarrow> point" where
  "symbol_wire_end env ewire = (ToSchUnits env (wire_x2 ewire), ToSchUnits env (wire_y2 ewire))"

definition arc_center :: "import_env \<Rightarrow> EWIRE \<Rightarrow> real \<Rightarrow> point" where
  "arc_center env ewire curve =
     ConvertArcCenter env (symbol_wire_begin env ewire) (symbol_wire_end env ewire) (- curve)"

definition thick_arc :: "import_env \<Rightarrow> EWIRE \<Rightarrow> real \<Rightarrow> bool" where
  "thick_arc env ewire curve \<longleftrightarrow>
     real_of_int (ToSchUnits env (wire_width ewire) * 2)
       > arc_radius env (arc_center env ewire curve) (symbol_wire_begin env ewire)"

text \<open>An end point of a thick arc, moved along the ray from the centre of the arc.\<close>

definition moved_point :: "import_env \<Rightarrow> EWIRE \<Rightarrow> real \<Rightarrow> point \<Rightarrow> point" where
  "moved_point env ewire curve p =
     thick_arc_point env (arc_center env ewire curve) (ToSchUnits env (wire_width ewire))
       (arc_radius env (arc_center env ewire curve) (symbol_wire_begin env ewire)) p"

text \<open>The pins of a symbol element.\<close>

definition symbol_pins :: "symbol_child list \<Rightarrow> EPIN list" where
  "symbol_pins node = concat (map (\<lambda>c. case c of SYM_PIN p \<Rightarrow> [p] | _ \<Rightarrow> []) node)"

definition supply_pin :: "EPIN \<Rightarrow> bool" where
  "supply_pin ePin =
     (case epin_direction ePin of None \<Rightarrow> False | Some direction \<Rightarrow> Lower direction = ''sup'')"

text \<open>
  An environment for the examples: coordinates taken as they are, names unchanged,
  no crossings, the layers 91 (nets) and 92 (buses), pins placed relative to their
  symbol, exact square roots and quotients, and an empty document. Its arcs are
  half circles (a curve of 180 degrees either way), whose centre is the middle of
  the two end points.
\<close>

definition example_env :: import_env where
  "example_env =
     \<lparr>ToSchUnits = (\<lambda>v. v), escapeName = (\<lambda>s. s), Intersect = (\<lambda>a b. None),
      kiCadLayer = (\<lambda>l. if l = 91 then LAYER_WIRE else if l = 92 then LAYER_BUS else LAYER_NOTES),
      FixIllegalChars = (\<lambda>s. s),
      GetPinPhysicalPosition = (\<lambda>c p. padd (cmp_position c) (pin_position p)),
      GetLibPins = (\<lambda>c. case cmp_part_ref c of None \<Rightarrow> [] | Some part \<Rightarrow> part_pins part),
      ConvertArcCenter = (\<lambda>a b angle. pdiv (padd a b) 2),
      sqrt_double = (\<lambda>n. sqrt (real_of_int n)), div_double = (\<lambda>n r. real_of_int n / r),
      LoadSymbol = Map.empty, SchSymbolLibTable = Map.empty,
      m_netCounts = Map.empty, m_partlist = Map.empty\<rparr>"

text \<open>
  A document with the part R1, a resistor of the library rcl, whose symbol is in the
  imported library and in the library table of the project.
\<close>

definition resistor_symbol :: LIB_PART where
  "resistor_symbol =
     \<lparr>part_name = ''R'', part_unit_count = 1, part_power = False,
      part_reference_visible = True, part_value_visible = True, part_reference_text = ''R'',
      part_items =
        [LIB_PIN_ITEM \<lparr>pin_position = (-200, 0), pin_name = ''1'', pin_number = ''1'',
           pin_unit = 1, pin_orientation = CHR ''R'', pin_type = PT_PASSIVE\<rparr>,
         LIB_PIN_ITEM \<lparr>pin_position = (200, 0), pin_name = ''2'', pin_number = ''2'',
           pin_unit = 1, pin_orientation = CHR ''L'', pin_type = PT_PASSIVE\<rparr>]\<rparr>"

definition resistor_env :: import_env where
  "resistor_env =
     example_env
       \<lparr>LoadSymbol := [''R'' \<mapsto> resistor_symbol],
        SchSymbolLibTable := [''R'' \<mapsto> resistor_symbol],
        m_partlist := [''R1'' \<mapsto> \<lparr>epart_name = ''R1'', epart_library = ''rcl'',
          epart_deviceset = ''R'', epart_device = [], epart_value = None\<rparr>]\<rparr>"

definition empty_sheet :: sheet_state where
  "empty_sheet =
     \<lparr>screen = [], m_connPoints = Map.empty, m_segments = [], m_wireIntersections = [],
      m_eagleLibs = Map.empty, reports = []\<rparr>"

text \<open>No unit of any part is flagged as still to be instantiated.\<close>

definition no_unit_flagged :: "missing_cmps \<Rightarrow> bool" where
  "no_unit_flagged m =
     list_all (\<lambda>entry. list_all (\<lambda>unitEntry. snd unitEntry = False) (missing_units (snd entry))) m"

text \<open>
  The label a segment is to receive: none unless it has a wire, no label of its own,
  and a net that is counted more than once in the document or has more than one
  segment; global in the first case, local in the second.
\<close>

definition expected_label ::
  "import_env \<Rightarrow> string \<Rightarrow> int \<Rightarrow> segment_child list \<Rightarrow> SCH_ITEM list" where
  "expected_label env netName segmentCount children =
     (if segment_wires children \<noteq> [] \<and> \<not> has_label children \<and>
         (netCount env netName > 1 \<or> segmentCount > 1)
      then [TEXT \<lparr>text_kind = (if netCount env netName > 1 then SCH_GLOBAL_LABEL_T
                                 else SCH_LABEL_T),
                  text_pos = line_start (make_wire env (hd (segment_wires children))),
                  text_string = escapeName env netName\<rparr>]
      else [])"

text \<open>A symbol of three units, each with a power input pin, and its first unit placed on a sheet.\<close>

definition three_unit_part :: LIB_PART where
  "three_unit_part =
     \<lparr>part_name = ''IC'', part_unit_count = 3, part_power = False,
      part_reference_visible = True, part_value_visible = True, part_reference_text = ''U'',
      part_items =
        [LIB_PIN_ITEM \<lparr>pin_position = (0, 0), pin_name = ''VCC@1'', pin_number = ''1'',
           pin_unit = 1, pin_orientation = CHR ''R'', pin_type = PT_POWER_IN\<rparr>,
         LIB_PIN_ITEM \<lparr>pin_position = (0, 0), pin_name = ''VCC@2'', pin_number = ''2'',
           pin_unit = 2, pin_orientation = CHR ''R'', pin_type = PT_POWER_IN\<rparr>,
         LIB_PIN_ITEM \<lparr>pin_position = (0, 0), pin_name = ''VCC@3'', pin_number = ''3'',
           pin_unit = 3, pin_orientation = CHR ''R'', pin_type = PT_POWER_IN\<rparr>]\<rparr>"

definition unit_one :: SCH_COMPONENT where
  "unit_one =
     \<lparr>cmp_lib_id = ''IC'', cmp_unit = 1, cmp_position = (1000, -1000),
      cmp_orientation = CMP_ORIENT_0, cmp_mirrored = False, cmp_footprint = ''DIL14'',
      cmp_reference = ''U1'', cmp_value = ''IC'', cmp_part_ref = Some three_unit_part\<rparr>"

fun is_component :: "SCH_ITEM \<Rightarrow> bool" where
  "is_component (COMPONENT c) = True"
| "is_component item = False"

section \<open>Properties\<close>

subsection \<open>Alignment\<close>

lemmas align_defs = CENTER_def CENTER_LEFT_def TOP_CENTER_def TOP_LEFT_def TOP_RIGHT_def
  CENTER_RIGHT_def BOTTOM_CENTER_def BOTTOM_LEFT_def BOTTOM_RIGHT_def

lemma align_mirror_twice: "align_mirror d (align_mirror d a) = a"
  by (simp add: align_mirror_def align_defs)

text \<open>
  C5. For each of the nine values of the Eagle alignment enumeration and each absolute
  rotation angle among 0, 90, 180 and 270, the mirror permutation of
  eagleToKicadAlignment applied twice with the same angle gives the value back: the
  mirror step is an involution on the enumeration.
\<close>

theorem C5_mirror_involution:
  "\<forall>a \<in> set eagle_alignments. \<forall>d \<in> {0, 90, 180, 270}.
     align_mirror d a \<in> set eagle_alignments \<and> align_mirror d (align_mirror d a) = a"
  by (simp add: eagle_alignments_def align_mirror_def align_defs)

theorem C5_mirror_involution_witness:
  "BOTTOM_RIGHT \<in> set eagle_alignments \<and> (90::int) \<in> {0, 90, 180, 270} \<and>
   align_mirror 90 BOTTOM_RIGHT = TOP_RIGHT \<and>
   align_mirror 90 (align_mirror 90 BOTTOM_RIGHT) = BOTTOM_RIGHT"
  using C5_mirror_involution
  by (simp add: eagle_alignments_def align_mirror_def align_defs)


subsection \<open>Nearest line point\<close>

lemma try_point_line:
  "nearestLine (try_point fsqrt p line t st) = Some l \<Longrightarrow> l = line \<or> nearestLine st = Some l"
  by (auto simp: try_point_def Let_def split: if_splits)

lemma nearest_loop_line:
  "nearestLine (nearest_loop fsqrt p lines st) = Some l \<Longrightarrow>
   l \<in> set lines \<or> nearestLine st = Some l"
proof (induction lines arbitrary: st)
  case Nil
  then show ?case by simp
next
  case (Cons line lines)
  from Cons.IH[OF Cons.prems[simplified]] show ?case
    by (auto dest!: try_point_line)
qed

lemma findNearestLinePoint_line:
  "findNearestLinePoint fsqrt p lines = (q, Some l) \<Longrightarrow> l \<in> set lines"
  by (auto simp: findNearestLinePoint_def Let_def dest: nearest_loop_line)

lemma try_point_cand:
  assumes "\<And>l. nearestLine st = Some l \<Longrightarrow> (nearestPoint st, l) \<in> S" "(t, line) \<in> S"
    "nearestLine (try_point fsqrt p line t st) = Some l"
  shows "(nearestPoint (try_point fsqrt p line t st), l) \<in> S"
  using assms by (auto simp: try_point_def Let_def split: if_splits)

lemma nearest_loop_cand:
  assumes "\<And>l. nearestLine st = Some l \<Longrightarrow> (nearestPoint st, l) \<in> S"
    "set (candidates lines) \<subseteq> S"
    "nearestLine (nearest_loop fsqrt p lines st) = Some l"
  shows "(nearestPoint (nearest_loop fsqrt p lines st), l) \<in> S"
  using assms
proof (induction lines arbitrary: st)
  case Nil
  then show ?case by simp
next
  case (Cons line lines)
  let ?s1 = "try_point fsqrt p line (seg_A line) st"
  let ?s2 = "try_point fsqrt p line (Center line) ?s1"
  let ?s3 = "try_point fsqrt p line (seg_B line) ?s2"
  have in_S: "(seg_A line, line) \<in> S" "(Center line, line) \<in> S" "(seg_B line, line) \<in> S"
    and rest: "set (candidates lines) \<subseteq> S"
    using Cons.prems(2) by (auto simp: candidates_def)
  have 1: "\<And>l. nearestLine ?s1 = Some l \<Longrightarrow> (nearestPoint ?s1, l) \<in> S"
    using try_point_cand[OF Cons.prems(1) in_S(1)] by blast
  have 2: "\<And>l. nearestLine ?s2 = Some l \<Longrightarrow> (nearestPoint ?s2, l) \<in> S"
    using try_point_cand[OF 1 in_S(2)] by blast
  have 3: "\<And>l. nearestLine ?s3 = Some l \<Longrightarrow> (nearestPoint ?s3, l) \<in> S"
    using try_point_cand[OF 2 in_S(3)] by blast
  from Cons.IH[OF 3 rest] Cons.prems(3) show ?case by simp
qed

text \<open>
  What holds of the search: the point returned with a segment is the start, the
  midpoint or the end of that segment, and the segment is one of the list.
\<close>

lemma findNearestLinePoint_candidate:
  assumes "findNearestLinePoint fsqrt p lines = (q, Some l)"
  shows "(q, l) \<in> set (candidates lines)"
proof -
  let ?st = "\<lparr>mindistance = None, nearestPoint = (0, 0), nearestLine = None\<rparr> :: 'a nearest_state"
  have "nearestLine (nearest_loop fsqrt p lines ?st) = Some l"
    and q: "q = nearestPoint (nearest_loop fsqrt p lines ?st)"
    using assms by (simp_all add: findNearestLinePoint_def Let_def)
  from nearest_loop_cand[of ?st "set (candidates lines)" lines fsqrt p l, OF _ _ this(1)] q
  show ?thesis by simp
qed

text \<open>
  C8. For every query point and every non-empty list of segments,
  findNearestLinePoint is to return a candidate (start, midpoint or end of a
  segment) at minimum Euclidean distance from the query point, with its segment.
  The code orders the candidates by \<open>sqrt(|(dx XOR 2) + (dy XOR 2)|)\<close>: for the query
  point (3, 1) and the single segment from (1, 0) to (3, 0) it returns the start
  (1, 0), at squared distance 5, although the end (3, 0) is at squared distance 1.
  This holds for every rounding of the square root that keeps the root of 3 below
  the roots of 5 and 6.
\<close>

theorem C8_nearest_point_orders_by_xor:
  assumes "fsqrt 3 < fsqrt 5" "fsqrt 3 < fsqrt 6"
  shows "findNearestLinePoint fsqrt (3, 1) [\<lparr>seg_A = (1, 0), seg_B = (3, 0)\<rparr>]
           = ((1, 0), Some \<lparr>seg_A = (1, 0), seg_B = (3, 0)\<rparr>)
         \<and> sq_dist (3, 1) (1, 0) = 5 \<and> sq_dist (3, 1) (3, 0) = 1
         \<and> ((3, 0), \<lparr>seg_A = (1, 0), seg_B = (3, 0)\<rparr>)
             \<in> set (candidates [\<lparr>seg_A = (1, 0), seg_B = (3, 0)\<rparr>])"
  using assms
  by (auto simp: findNearestLinePoint_def try_point_def dist_arg_def Center_def padd_def
      psub_def pdiv_def cdiv_def Let_def sq_dist_def candidates_def dest: less_asym)

theorem C8_nearest_point_orders_by_xor_witness:
  "findNearestLinePoint (\<lambda>v. v) (3, 1) [\<lparr>seg_A = (1, 0), seg_B = (3, 0)\<rparr>]
     = ((1, 0), Some \<lparr>seg_A = (1, 0), seg_B = (3, 0)\<rparr>)
   \<and> sq_dist (3, 1) (1, 0) = 5 \<and> sq_dist (3, 1) (3, 0) = 1"
  using C8_nearest_point_orders_by_xor[of "\<lambda>v. v"] by simp

subsection \<open>Label placement\<close>

lemma search_step_inv: "search_inv contains (search_step contains o' wd s)"
  by (simp add: search_inv_def search_step_def Let_def)

lemma search_loop_inv_aux:
  assumes "search_loop onI contains o' wd s = Some r"
  shows "search_inv contains s \<longrightarrow> search_inv contains r \<and> \<not> search_cond onI r"
proof (rule search_loop.raw_induct[where P = "\<lambda>onI contains o' wd s r.
         search_inv contains s \<longrightarrow> search_inv contains r \<and> \<not> search_cond onI r", OF _ assms])
  fix f :: "(point \<Rightarrow> bool) \<Rightarrow> (point \<Rightarrow> bool) \<Rightarrow> point \<Rightarrow> point \<Rightarrow> search_state
              \<Rightarrow> search_state option"
  fix onI contains o' wd s r
  assume IH: "\<And>onI contains o' wd s r. f onI contains o' wd s = Some r \<Longrightarrow>
     search_inv contains s \<longrightarrow> search_inv contains r \<and> \<not> search_cond onI r"
  assume eq: "(if search_cond onI s then f onI contains o' wd (search_step contains o' wd s)
     else Some s) = Some r"
  show "search_inv contains s \<longrightarrow> search_inv contains r \<and> \<not> search_cond onI r"
  proof (cases "search_cond onI s")
    case True
    with eq have "f onI contains o' wd (search_step contains o' wd s) = Some r" by simp
    from IH[OF this] search_step_inv show ?thesis by blast
  next
    case False
    with eq have "r = s" by simp
    with False show ?thesis by simp
  qed
qed

text \<open>When the search returns with \<open>move\<close> set, the position found is on the segment and off the crossings.\<close>

lemma search_loop_moved:
  assumes "search_loop onI contains o' wd (search_init p) = Some r" "move r"
  shows "contains (labelPos r) \<and> \<not> onI (labelPos r)"
proof -
  have "search_inv contains (search_init p)" by (simp add: search_inv_def search_init_def)
  with search_loop_inv_aux[OF assms(1)] assms(2) show ?thesis
    by (auto simp: search_inv_def search_cond_def)
qed

text \<open>
  The search returns whenever the positions tried leave the segment for good in
  both directions, from some trial \<open>N\<close> on.
\<close>

lemma search_loop_two_steps:
  assumes "leaves contains o' wd N" "N \<le> trial s"
  shows "\<exists>r. search_loop onI contains o' wd s = Some r"
proof -
  let ?s1 = "search_step contains o' wd s"
  let ?s2 = "search_step contains o' wd ?s1"
  have t1: "trial ?s1 = trial s + 1" by (simp add: search_step_def Let_def)
  have nc2: "\<not> search_cond onI ?s2"
    using assms t1 unfolding leaves_def search_cond_def
    by (cases "trial s mod 2 = 1") (auto simp: search_step_def Let_def, presburger+)
  show ?thesis
    by (subst search_loop.simps, subst search_loop.simps, subst search_loop.simps) (simp add: nc2)
qed

lemma search_loop_terminates:
  assumes "leaves contains o' wd N"
  shows "\<exists>r. search_loop onI contains o' wd s = Some r"
proof (induction "nat (N - trial s)" arbitrary: s)
  case 0
  then have "N \<le> trial s" by simp
  from search_loop_two_steps[OF assms this] show ?case .
next
  case (Suc n)
  show ?case
  proof (cases "search_cond onI s")
    case False
    then show ?thesis by (subst search_loop.simps) simp
  next
    case True
    have "n = nat (N - trial (search_step contains o' wd s))"
      using Suc(2) by (auto simp: search_step_def Let_def)
    from Suc(1)[OF this] True show ?thesis by (subst search_loop.simps) simp
  qed
qed

text \<open>
  With the exact containment test, the trial positions along a direction that is not
  zero leave the segment, whose points lie within a bounded box.
\<close>

lemma cdiv_two_abs: "\<bar>cdiv a 2\<bar> = \<bar>a\<bar> div 2"
  by (cases "a = 0") (simp_all add: cdiv_def abs_mult)

lemma far_component:
  assumes "a \<noteq> 0" "2 * M + 2 \<le> k" "0 \<le> M"
  shows "M < \<bar>cdiv (a * k) 2\<bar>"
proof -
  have k: "0 \<le> k" using assms by simp
  have "1 \<le> \<bar>a\<bar>" using assms(1) by simp
  then have "1 * k \<le> \<bar>a\<bar> * k" using k by (intro mult_right_mono) simp_all
  then have "k \<le> \<bar>a * k\<bar>" using k by (simp add: abs_mult)
  then have "k div 2 \<le> \<bar>a * k\<bar> div 2" by (rule zdiv_mono1) simp
  moreover have "M < k div 2" using assms(2) by simp
  ultimately show ?thesis by (simp add: cdiv_two_abs)
qed

lemma outside_x:
  assumes "\<bar>fst (seg_A s) - x\<bar> + \<bar>fst (seg_B s) - x\<bar> < \<bar>d\<bar>"
  shows "\<not> Contains s (x + d, y)" "\<not> Contains s (x - d, y)"
  using assms by (auto simp: Contains_def TestSegmentHit_def)

lemma outside_y:
  assumes "\<bar>snd (seg_A s) - y\<bar> + \<bar>snd (seg_B s) - y\<bar> < \<bar>d\<bar>"
  shows "\<not> Contains s (x, y + d)" "\<not> Contains s (x, y - d)"
  using assms by (auto simp: Contains_def TestSegmentHit_def)

lemma leaves_exact:
  assumes "wd \<noteq> (0, 0)"
  shows "\<exists>N. leaves (Contains s) o' wd N"
proof (cases "fst wd = 0")
  case False
  let ?M = "\<bar>fst (seg_A s) - fst o'\<bar> + \<bar>fst (seg_B s) - fst o'\<bar>"
  have "leaves (Contains s) o' wd (2 * ?M + 2)"
    unfolding leaves_def
  proof (intro allI impI)
    fix k assume "2 * ?M + 2 \<le> k"
    from far_component[OF False this] have "?M < \<bar>cdiv (fst wd * k) 2\<bar>" by simp
    from outside_x[OF this]
    show "\<not> Contains s (padd o' (pdiv (pscale wd k) 2)) \<and>
          \<not> Contains s (psub o' (pdiv (pscale wd k) 2))"
      by (simp add: padd_def psub_def pdiv_def pscale_def)
  qed
  then show ?thesis ..
next
  case True
  with assms have ny: "snd wd \<noteq> 0" by (cases wd) auto
  let ?M = "\<bar>snd (seg_A s) - snd o'\<bar> + \<bar>snd (seg_B s) - snd o'\<bar>"
  have "leaves (Contains s) o' wd (2 * ?M + 2)"
    unfolding leaves_def
  proof (intro allI impI)
    fix k assume "2 * ?M + 2 \<le> k"
    from far_component[OF ny this] have "?M < \<bar>cdiv (snd wd * k) 2\<bar>" by simp
    from outside_y[OF this]
    show "\<not> Contains s (padd o' (pdiv (pscale wd k) 2)) \<and>
          \<not> Contains s (psub o' (pdiv (pscale wd k) 2))"
      by (simp add: padd_def psub_def pdiv_def pscale_def)
  qed
  then show ?thesis ..
qed

text \<open>
  With a zero direction every trial is the starting point itself. Once that point is
  on the segment and is a crossing, the loop condition holds for ever.
\<close>

lemma pdiv_zero: "pdiv (pscale (0, 0) k) 2 = (0, 0)"
  by (simp add: pdiv_def pscale_def cdiv_def)

lemma stuck_step:
  "contains o' \<Longrightarrow> stuck o' s \<Longrightarrow> stuck o' (search_step contains o' (0, 0) s)"
  by (simp add: stuck_def search_step_def Let_def pdiv_zero padd_def psub_def)

lemma stuck_cond: "onI o' \<Longrightarrow> stuck o' s \<Longrightarrow> search_cond onI s"
  by (auto simp: stuck_def search_cond_def)

lemma search_loop_stuck_aux:
  assumes "search_loop onI contains o' wd s = Some r"
  shows "\<not> (wd = (0, 0) \<and> contains o' \<and> onI o' \<and> stuck o' s)"
proof (rule search_loop.raw_induct[where P = "\<lambda>onI contains o' wd s r.
         \<not> (wd = (0, 0) \<and> contains o' \<and> onI o' \<and> stuck o' s)", OF _ assms])
  fix f :: "(point \<Rightarrow> bool) \<Rightarrow> (point \<Rightarrow> bool) \<Rightarrow> point \<Rightarrow> point \<Rightarrow> search_state
              \<Rightarrow> search_state option"
  fix onI contains o' wd s r
  assume IH: "\<And>onI contains o' wd s r. f onI contains o' wd s = Some r \<Longrightarrow>
     \<not> (wd = (0, 0) \<and> contains o' \<and> onI o' \<and> stuck o' s)"
  assume eq: "(if search_cond onI s then f onI contains o' wd (search_step contains o' wd s)
     else Some s) = Some r"
  show "\<not> (wd = (0, 0) \<and> contains o' \<and> onI o' \<and> stuck o' s)"
  proof
    assume h: "wd = (0, 0) \<and> contains o' \<and> onI o' \<and> stuck o' s"
    then have "search_cond onI s" using stuck_cond[of onI o' s] by blast
    with eq have "f onI contains o' wd (search_step contains o' wd s) = Some r" by simp
    from IH[OF this] h stuck_step[of contains o' s] show False by simp
  qed
qed

lemma search_loop_diverges:
  assumes "contains o'" "onI o'"
  shows "search_loop onI contains o' (0, 0) (search_init p) = None"
proof (cases "search_loop onI contains o' (0, 0) (search_init p)")
  case None
  then show ?thesis .
next
  case (Some r)
  have "stuck o' (search_init p)" by (simp add: stuck_def search_init_def)
  with search_loop_stuck_aux[OF Some] assms show ?thesis by simp
qed

text \<open>
  What holds of the corrector whenever it returns: the label is where it was, or on
  a segment of its group and off every recorded crossing.
\<close>

lemma adjust_label_result:
  assumes "adjust_label contains Resize50 fsqrt wireIntersections sgs pos = Some p'"
  shows "p' = pos \<or> ((\<exists>seg \<in> set sgs. contains seg p') \<and> p' \<notin> set wireIntersections)"
proof (cases "LabelAttached contains sgs pos")
  case None
  show ?thesis
  proof (cases "findNearestLinePoint fsqrt pos sgs")
    case (Pair start sa)
    show ?thesis
    proof (cases sa)
      case None
      with Pair \<open>LabelAttached contains sgs pos = None\<close> assms show ?thesis
        by (simp add: adjust_label_def Let_def)
    next
      case (Some seg)
      with Pair have seg: "seg \<in> set sgs" by (auto dest: findNearestLinePoint_line)
      from Some Pair \<open>LabelAttached contains sgs pos = None\<close> assms
      obtain r where r: "search_loop (\<lambda>aPos. aPos \<in> set wireIntersections) (contains seg) start
          (Resize50 (psub (seg_B seg) (seg_A seg))) (search_init start) = Some r"
        and p': "p' = (if move r then labelPos r else pos)"
        by (auto simp: adjust_label_def Let_def)
      from search_loop_moved[OF r] p' seg show ?thesis by auto
    qed
  qed
next
  case (Some seg)
  then have seg: "seg \<in> set sgs"
    by (auto simp: LabelAttached_def find_Some_iff)
  show ?thesis
  proof (cases "pos \<in> set wireIntersections")
    case False
    with Some assms show ?thesis by (simp add: adjust_label_def Let_def)
  next
    case True
    with Some assms
    obtain r where r: "search_loop (\<lambda>aPos. aPos \<in> set wireIntersections) (contains seg) pos
        (Resize50 (psub (seg_B seg) (seg_A seg))) (search_init pos) = Some r"
      and p': "p' = (if move r then labelPos r else pos)"
      by (auto simp: adjust_label_def Let_def)
    from search_loop_moved[OF r] p' seg show ?thesis by auto
  qed
qed

text \<open>
  The corrector returns for every label of a group whose segments all have two
  different end points, as long as resizing keeps a vector that is not zero from
  becoming zero.
\<close>

lemma adjust_label_terminates:
  assumes "\<And>v. v \<noteq> (0, 0) \<Longrightarrow> Resize50 v \<noteq> (0, 0)"
    and "\<And>seg. seg \<in> set sgs \<Longrightarrow> seg_A seg \<noteq> seg_B seg"
  shows "\<exists>p'. adjust_label Contains Resize50 fsqrt wireIntersections sgs pos = Some p'"
proof -
  have loop: "\<exists>r. search_loop onI (Contains seg) start
      (Resize50 (psub (seg_B seg) (seg_A seg))) (search_init start) = Some r"
    if "seg \<in> set sgs" for seg start onI
  proof -
    have "psub (seg_B seg) (seg_A seg) \<noteq> (0, 0)"
      using assms(2)[OF that] by (cases "seg_A seg"; cases "seg_B seg") (auto simp: psub_def)
    from leaves_exact[OF assms(1)[OF this]] obtain N where
      "leaves (Contains seg) start (Resize50 (psub (seg_B seg) (seg_A seg))) N" ..
    then show ?thesis by (rule search_loop_terminates)
  qed
  show ?thesis
  proof (cases "LabelAttached Contains sgs pos")
    case None
    show ?thesis
    proof (cases "findNearestLinePoint fsqrt pos sgs")
      case (Pair start sa)
      show ?thesis
      proof (cases sa)
        case None
        with Pair \<open>LabelAttached Contains sgs pos = None\<close> show ?thesis
          by (simp add: adjust_label_def Let_def)
      next
        case (Some seg)
        with Pair have "seg \<in> set sgs" by (auto dest: findNearestLinePoint_line)
        from loop[OF this, of "\<lambda>aPos. aPos \<in> set wireIntersections" start]
        obtain r where "search_loop (\<lambda>aPos. aPos \<in> set wireIntersections) (Contains seg) start
            (Resize50 (psub (seg_B seg) (seg_A seg))) (search_init start) = Some r" ..
        with Some Pair \<open>LabelAttached Contains sgs pos = None\<close>
        have "adjust_label Contains Resize50 fsqrt wireIntersections sgs pos =
                Some (if move r then labelPos r else pos)"
          by (simp add: adjust_label_def Let_def)
        then show ?thesis ..
      qed
    qed
  next
    case (Some seg)
    then have "seg \<in> set sgs" by (auto simp: LabelAttached_def find_Some_iff)
    from loop[OF this, of "\<lambda>aPos. aPos \<in> set wireIntersections" pos]
    obtain r where r: "search_loop (\<lambda>aPos. aPos \<in> set wireIntersections) (Contains seg) pos
        (Resize50 (psub (seg_B seg) (seg_A seg))) (search_init pos) = Some r" ..
    show ?thesis
    proof (cases "pos \<in> set wireIntersections")
      case False
      with Some show ?thesis by (simp add: adjust_label_def Let_def)
    next
      case True
      with Some r
      have "adjust_label Contains Resize50 fsqrt wireIntersections sgs pos =
              Some (if move r then labelPos r else pos)"
        by (simp add: adjust_label_def Let_def)
      then show ?thesis ..
    qed
  qed
qed

lemma findNearest_zero_length:
  "findNearestLinePoint fsqrt p [\<lparr>seg_A = a, seg_B = a\<rparr>] = (a, Some \<lparr>seg_A = a, seg_B = a\<rparr>)"
  by (simp add: findNearestLinePoint_def try_point_def Let_def Center_def psub_def pdiv_def
      cdiv_def padd_def)

text \<open>
  C1. For a segment group with exactly one explicit label placed off all of the
  group's segments, adjustNetLabels is to terminate, leaving the label on a segment
  of the group and off the recorded crossings, or where it was. Whenever the pass
  returns, the label is so placed (\<open>adjust_label_result\<close>), and it returns whenever
  no segment of the group is a single point (\<open>adjust_label_terminates\<close>). It does not
  return for a group whose only segment has zero length and lies on a recorded
  crossing: the direction vector is zero (a resizing keeps the zero vector), every
  trial position is the segment's point, and the loop condition never fails.
\<close>

theorem C1_zero_length_segment_never_returns:
  assumes "Resize50 (0, 0) = (0, 0)"
    and "segs g = [\<lparr>seg_A = a, seg_B = a\<rparr>]" and "labels g = [l]"
    and "\<not> contains \<lparr>seg_A = a, seg_B = a\<rparr> (text_pos l)"
    and "contains \<lparr>seg_A = a, seg_B = a\<rparr> a"
    and "a \<in> set wireIntersections"
  shows "adjustNetLabels contains Resize50 fsqrt wireIntersections [g] = None"
proof -
  have "LabelAttached contains (segs g) (text_pos l) = None"
    using assms(2,4) by (simp add: LabelAttached_def)
  moreover have "search_loop (\<lambda>aPos. aPos \<in> set wireIntersections)
      (contains \<lparr>seg_A = a, seg_B = a\<rparr>) a (0, 0) (search_init a) = None"
    using assms(5,6) by (rule search_loop_diverges)
  ultimately have "adjust_label contains Resize50 fsqrt wireIntersections (segs g) (text_pos l)
      = None"
    using assms(1,2)
    by (simp add: adjust_label_def Let_def findNearest_zero_length psub_def)
  then show ?thesis using assms(3) by simp
qed

theorem C1_zero_length_segment_never_returns_witness:
  "adjustNetLabels Contains Resize50_axis (\<lambda>v. v) [(0, 0)]
     [\<lparr>labels = [\<lparr>text_kind = SCH_LABEL_T, text_pos = (500, 500), text_string = ''N3''\<rparr>],
       segs = [\<lparr>seg_A = (0, 0), seg_B = (0, 0)\<rparr>]\<rparr>] = None"
  by (rule C1_zero_length_segment_never_returns[where a = "(0, 0)"
        and l = "\<lparr>text_kind = SCH_LABEL_T, text_pos = (500, 500), text_string = ''N3''\<rparr>"])
    (simp_all add: Resize50_axis_def Contains_def TestSegmentHit_def)


subsection \<open>Bus entries\<close>

lemma hit_vertical: "fst bs = fst be \<Longrightarrow> TestSegmentHit p bs be \<Longrightarrow> fst p = fst bs"
  by (auto simp: TestSegmentHit_def)

lemma hit_horizontal: "snd bs = snd be \<Longrightarrow> TestSegmentHit p bs be \<Longrightarrow> snd p = snd bs"
  by (auto simp: TestSegmentHit_def)

lemma off_vertical:
  assumes "fst bs = fst be" "fst p \<noteq> fst bs"
  shows "\<not> TestSegmentHit p bs be"
  using assms hit_vertical by blast

lemma off_horizontal:
  assumes "snd bs = snd be" "snd p \<noteq> snd bs"
  shows "\<not> TestSegmentHit p bs be"
  using assms hit_horizontal by blast

lemma entry_at_start_fields:
  "appended (entry_at_start e f p st) = appended st @ [SCH_BUS_WIRE_ENTRY e f]"
  "wire_start (entry_at_start e f p st) = p"
  "wire_end (entry_at_start e f p st) = wire_end st"
  "wire_deleted (entry_at_start e f p st) = wire_deleted st"
  by (simp_all add: entry_at_start_def SetStartPoint_def moveLabels_def Append_def)

lemma entry_at_end_fields:
  "appended (entry_at_end e f p st) = appended st @ [SCH_BUS_WIRE_ENTRY e f]"
  "wire_start (entry_at_end e f p st) = wire_start st"
  "wire_end (entry_at_end e f p st) = p"
  "wire_deleted (entry_at_end e f p st) = wire_deleted st"
  by (simp_all add: entry_at_end_def SetEndPoint_def moveLabels_def Append_def)

lemma marker_at_fields:
  "appended (marker_at p st) = appended st @ [SCH_MARKER ''Bus Entry needed'' p]"
  "wire_start (marker_at p st) = wire_start st"
  "wire_end (marker_at p st) = wire_end st"
  "wire_deleted (marker_at p st) = wire_deleted st"
  by (simp_all add: marker_at_def Append_def)

lemma diagonal_start_entry_fields:
  "appended (diagonal_start_entry e f p le st) = appended st @ [SCH_BUS_WIRE_ENTRY e f]"
  "wire_start (diagonal_start_entry e f p le st) = (if p = le then wire_start st else p)"
  "wire_end (diagonal_start_entry e f p le st) = wire_end st"
  "wire_deleted (diagonal_start_entry e f p le st) = (p = le \<or> wire_deleted st)"
  by (simp_all add: diagonal_start_entry_def SetStartPoint_def DeleteItem_def moveLabels_def
      Append_def Let_def)

lemma diagonal_end_entry_fields:
  "appended (diagonal_end_entry e f p ls st) = appended st @ [SCH_BUS_WIRE_ENTRY e f]"
  "wire_start (diagonal_end_entry e f p ls st) = wire_start st"
  "wire_end (diagonal_end_entry e f p ls st) = (if p = ls then wire_end st else p)"
  "wire_deleted (diagonal_end_entry e f p ls st) = (p = ls \<or> wire_deleted st)"
  by (simp_all add: diagonal_end_entry_def SetEndPoint_def DeleteItem_def moveLabels_def
      Append_def Let_def)

lemma pair_init_fields:
  "appended (pair_init ls le lbls) = []"
  "wire_start (pair_init ls le lbls) = ls"
  "wire_end (pair_init ls le lbls) = le"
  "wire_deleted (pair_init ls le lbls) = False"
  by (simp_all add: pair_init_def)

lemmas pair_fields = entry_at_start_fields entry_at_end_fields marker_at_fields
  diagonal_start_entry_fields diagonal_end_entry_fields pair_init_fields

text \<open>The second part does nothing to a wire with no end point on the bus.\<close>

lemma diagonal_idle:
  assumes "\<not> TestSegmentHit (wire_start st) bs be" "\<not> TestSegmentHit (wire_end st) bs be"
  shows "diagonal_part bs be st = st"
  using assms by (simp add: diagonal_part_def diagonal_start_def diagonal_end_def Let_def)

text \<open>Which of the four blocks of the first part runs, for each orientation.\<close>

lemma h_start_orth:
  assumes "snd ls = snd le" "fst bs = fst be" "ls \<noteq> le" "TestSegmentHit ls bs be"
  shows "orthogonal_part bs be (pair_init ls le lbls) =
           horizontal_wire_start bs be ls le (pair_init ls le lbls)"
proof -
  have x: "fst ls = fst bs" by (rule hit_vertical[OF assms(2,4)])
  have le: "fst le \<noteq> fst bs" using assms(1,3) x by (cases ls; cases le) auto
  have nle: "\<not> TestSegmentHit le bs be" by (rule off_vertical[OF assms(2) le])
  have nv: "\<not> (fst ls = fst le)" using le x by simp
  show ?thesis
    using assms(1,2) nle nv
    by (simp add: orthogonal_part_def Let_def pair_init_fields horizontal_wire_end_def)
qed

lemma h_end_orth:
  assumes "snd ls = snd le" "fst bs = fst be" "ls \<noteq> le" "TestSegmentHit le bs be"
  shows "orthogonal_part bs be (pair_init ls le lbls) =
           horizontal_wire_end bs be ls le (pair_init ls le lbls)"
proof -
  have x: "fst le = fst bs" by (rule hit_vertical[OF assms(2,4)])
  have ls: "fst ls \<noteq> fst bs" using assms(1,3) x by (cases ls; cases le) auto
  have nls: "\<not> TestSegmentHit ls bs be" by (rule off_vertical[OF assms(2) ls])
  have nv: "\<not> (fst ls = fst le)" using ls x by simp
  show ?thesis
    using assms(1,2) nls nv
    by (simp add: orthogonal_part_def Let_def pair_init_fields horizontal_wire_start_def)
qed

lemma v_start_orth:
  assumes "fst ls = fst le" "snd bs = snd be" "ls \<noteq> le" "TestSegmentHit ls bs be"
  shows "orthogonal_part bs be (pair_init ls le lbls) =
           vertical_wire_start bs be ls le (pair_init ls le lbls)"
proof -
  have y: "snd ls = snd bs" by (rule hit_horizontal[OF assms(2,4)])
  have le: "snd le \<noteq> snd bs" using assms(1,3) y by (cases ls; cases le) auto
  have nle: "\<not> TestSegmentHit le bs be" by (rule off_horizontal[OF assms(2) le])
  have nh: "\<not> (snd ls = snd le)" using le y by simp
  show ?thesis
    using assms(1,2) nle nh
    by (simp add: orthogonal_part_def Let_def pair_init_fields vertical_wire_end_def)
qed

lemma v_end_orth:
  assumes "fst ls = fst le" "snd bs = snd be" "ls \<noteq> le" "TestSegmentHit le bs be"
  shows "orthogonal_part bs be (pair_init ls le lbls) =
           vertical_wire_end bs be ls le (pair_init ls le lbls)"
proof -
  have y: "snd le = snd bs" by (rule hit_horizontal[OF assms(2,4)])
  have ls: "snd ls \<noteq> snd bs" using assms(1,3) y by (cases ls; cases le) auto
  have nls: "\<not> TestSegmentHit ls bs be" by (rule off_horizontal[OF assms(2) ls])
  have nh: "\<not> (snd ls = snd le)" using ls y by simp
  show ?thesis
    using assms(1,2) nls nh
    by (simp add: orthogonal_part_def Let_def pair_init_fields vertical_wire_start_def)
qed

text \<open>
  After a marker the end point is still on the bus, so the second part runs on it:
  it appends a bus entry and moves the end point diagonally.
\<close>

lemma h_start_marker:
  fixes lbls :: "point list"
  assumes "snd ls = snd le" "fst bs = fst be" "ls \<noteq> le" "TestSegmentHit ls bs be"
  defines "st' \<equiv> diagonal_part bs be (marker_at ls (pair_init ls le lbls))"
  shows "marker_then_entry ls st'"
    and "start_entry_made bs be ls le st'"
proof -
  have x: "fst ls = fst bs" by (rule hit_vertical[OF assms(2,4)])
  have le: "fst le \<noteq> fst bs" using assms(1,3) x by (cases ls; cases le) auto
  have nle: "\<not> TestSegmentHit le bs be" by (rule off_vertical[OF assms(2) le])
  have ne: "padd ls (d, 100) \<noteq> le" for d
    using assms(1) by (cases ls; cases le) (auto simp: padd_def)
  have off: "\<not> TestSegmentHit (padd ls (d, 100)) bs be" if "d = 100 \<or> d = -100" for d
    using that x by (intro off_vertical[OF assms(2)]) (auto simp: padd_def)
  show "marker_then_entry ls st'"
    using assms(1,4) nle ne
    by (auto simp add: st'_def diagonal_part_def diagonal_start_def diagonal_end_def Let_def
        pair_fields psub_def marker_then_entry_def)
  show "start_entry_made bs be ls le st'"
    using assms(1,4) nle ne off[of 100] off[of "-100"]
    by (simp add: st'_def diagonal_part_def diagonal_start_def diagonal_end_def Let_def
        pair_fields start_entry_made_def psub_def offset_by_increment_def)
      (simp add: padd_def)
qed

lemma h_end_marker:
  fixes lbls :: "point list"
  assumes "snd ls = snd le" "fst bs = fst be" "ls \<noteq> le" "TestSegmentHit le bs be"
  defines "st' \<equiv> diagonal_part bs be (marker_at le (pair_init ls le lbls))"
  shows "marker_then_entry le st'"
    and "end_entry_made bs be ls le st'"
proof -
  have x: "fst le = fst bs" by (rule hit_vertical[OF assms(2,4)])
  have ls: "fst ls \<noteq> fst bs" using assms(1,3) x by (cases ls; cases le) auto
  have nls: "\<not> TestSegmentHit ls bs be" by (rule off_vertical[OF assms(2) ls])
  have ne: "padd le (d, -100) \<noteq> ls" for d
    using assms(1) by (cases ls; cases le) (auto simp: padd_def)
  have off: "\<not> TestSegmentHit (padd le (d, -100)) bs be" if "d = 100 \<or> d = -100" for d
    using that x by (intro off_vertical[OF assms(2)]) (auto simp: padd_def)
  show "marker_then_entry le st'"
    using assms(1,4) nls ne
    by (auto simp add: st'_def diagonal_part_def diagonal_start_def diagonal_end_def Let_def
        pair_fields psub_def marker_then_entry_def)
  show "end_entry_made bs be ls le st'"
    using assms(1,4) nls ne off[of 100] off[of "-100"]
    by (simp add: st'_def diagonal_part_def diagonal_start_def diagonal_end_def Let_def
        pair_fields end_entry_made_def psub_def offset_by_increment_def)
      (simp add: padd_def)
qed

lemma v_start_marker:
  fixes lbls :: "point list"
  assumes "fst ls = fst le" "snd bs = snd be" "ls \<noteq> le" "TestSegmentHit ls bs be"
  defines "st' \<equiv> diagonal_part bs be (marker_at ls (pair_init ls le lbls))"
  shows "marker_then_entry ls st'"
    and "start_entry_made bs be ls le st'"
proof -
  have y: "snd ls = snd bs" by (rule hit_horizontal[OF assms(2,4)])
  have le: "snd le \<noteq> snd bs" using assms(1,3) y by (cases ls; cases le) auto
  have nle: "\<not> TestSegmentHit le bs be" by (rule off_horizontal[OF assms(2) le])
  have ne: "padd ls (100, d) \<noteq> le" for d
    using assms(1) by (cases ls; cases le) (auto simp: padd_def)
  have off: "\<not> TestSegmentHit (padd ls (100, d)) bs be" if "d = 100 \<or> d = -100" for d
    using that y by (intro off_horizontal[OF assms(2)]) (auto simp: padd_def)
  show "marker_then_entry ls st'"
    using assms(1,4) nle ne
    by (auto simp add: st'_def diagonal_part_def diagonal_start_def diagonal_end_def Let_def
        pair_fields psub_def marker_then_entry_def)
  show "start_entry_made bs be ls le st'"
    using assms(1,4) nle ne off[of 100] off[of "-100"]
    by (simp add: st'_def diagonal_part_def diagonal_start_def diagonal_end_def Let_def
        pair_fields start_entry_made_def psub_def offset_by_increment_def)
      (simp add: padd_def)
qed

lemma v_end_marker:
  fixes lbls :: "point list"
  assumes "fst ls = fst le" "snd bs = snd be" "ls \<noteq> le" "TestSegmentHit le bs be"
  defines "st' \<equiv> diagonal_part bs be (marker_at le (pair_init ls le lbls))"
  shows "marker_then_entry le st'"
    and "end_entry_made bs be ls le st'"
proof -
  have y: "snd le = snd bs" by (rule hit_horizontal[OF assms(2,4)])
  have ls: "snd ls \<noteq> snd bs" using assms(1,3) y by (cases ls; cases le) auto
  have nls: "\<not> TestSegmentHit ls bs be" by (rule off_horizontal[OF assms(2) ls])
  have ne: "padd le (-100, d) \<noteq> ls" for d
    using assms(1) by (cases ls; cases le) (auto simp: padd_def)
  have off: "\<not> TestSegmentHit (padd le (-100, d)) bs be" if "d = 100 \<or> d = -100" for d
    using that y by (intro off_horizontal[OF assms(2)]) (auto simp: padd_def)
  show "marker_then_entry le st'"
    using assms(1,4) nls ne
    by (auto simp add: st'_def diagonal_part_def diagonal_start_def diagonal_end_def Let_def
        pair_fields psub_def marker_then_entry_def)
  show "end_entry_made bs be ls le st'"
    using assms(1,4) nls ne off[of 100] off[of "-100"]
    by (simp add: st'_def diagonal_part_def diagonal_start_def diagonal_end_def Let_def
        pair_fields end_entry_made_def psub_def offset_by_increment_def)
      (simp add: padd_def)
qed

text \<open>An entry made by the first part leaves no end point on the bus: the second part is idle.\<close>

lemma h_start_entry:
  assumes "snd ls = snd le" "fst bs = fst be" "ls \<noteq> le" "TestSegmentHit ls bs be"
    and "d = 100 \<or> d = -100"
  shows "start_entry_made bs be ls le
           (diagonal_part bs be (entry_at_start e f (padd ls (d, 0)) (pair_init ls le lbls)))"
    and "only_entry (diagonal_part bs be (entry_at_start e f (padd ls (d, 0)) (pair_init ls le lbls)))"
    and "axis_offset ls (wire_start
           (diagonal_part bs be (entry_at_start e f (padd ls (d, 0)) (pair_init ls le lbls))))"
proof -
  let ?st = "entry_at_start e f (padd ls (d, 0)) (pair_init ls le lbls)"
  have x: "fst ls = fst bs" by (rule hit_vertical[OF assms(2,4)])
  have le: "fst le \<noteq> fst bs" using assms(1,3) x by (cases ls; cases le) auto
  have nle: "\<not> TestSegmentHit le bs be" by (rule off_vertical[OF assms(2) le])
  have off: "\<not> TestSegmentHit (padd ls (d, 0)) bs be"
    using assms(5) x by (intro off_vertical[OF assms(2)]) (auto simp: padd_def)
  then have eq: "diagonal_part bs be ?st = ?st"
    using nle by (intro diagonal_idle) (simp_all add: pair_fields)
  show "start_entry_made bs be ls le (diagonal_part bs be ?st)"
    unfolding eq using assms(5) off
    by (auto simp: start_entry_made_def pair_fields offset_by_increment_def padd_def)
  show "only_entry (diagonal_part bs be ?st)"
    unfolding eq by (simp add: only_entry_def pair_fields)
  show "axis_offset ls (wire_start (diagonal_part bs be ?st))"
    unfolding eq using assms(5) by (auto simp: axis_offset_def pair_fields padd_def)
qed

lemma h_end_entry:
  assumes "snd ls = snd le" "fst bs = fst be" "ls \<noteq> le" "TestSegmentHit le bs be"
    and "d = 100 \<or> d = -100"
  shows "end_entry_made bs be ls le
           (diagonal_part bs be (entry_at_end e f (padd le (d, 0)) (pair_init ls le lbls)))"
    and "only_entry (diagonal_part bs be (entry_at_end e f (padd le (d, 0)) (pair_init ls le lbls)))"
    and "axis_offset le (wire_end
           (diagonal_part bs be (entry_at_end e f (padd le (d, 0)) (pair_init ls le lbls))))"
proof -
  let ?st = "entry_at_end e f (padd le (d, 0)) (pair_init ls le lbls)"
  have x: "fst le = fst bs" by (rule hit_vertical[OF assms(2,4)])
  have ls: "fst ls \<noteq> fst bs" using assms(1,3) x by (cases ls; cases le) auto
  have nls: "\<not> TestSegmentHit ls bs be" by (rule off_vertical[OF assms(2) ls])
  have off: "\<not> TestSegmentHit (padd le (d, 0)) bs be"
    using assms(5) x by (intro off_vertical[OF assms(2)]) (auto simp: padd_def)
  then have eq: "diagonal_part bs be ?st = ?st"
    using nls by (intro diagonal_idle) (simp_all add: pair_fields)
  show "end_entry_made bs be ls le (diagonal_part bs be ?st)"
    unfolding eq using assms(5) off
    by (auto simp: end_entry_made_def pair_fields offset_by_increment_def padd_def)
  show "only_entry (diagonal_part bs be ?st)"
    unfolding eq by (simp add: only_entry_def pair_fields)
  show "axis_offset le (wire_end (diagonal_part bs be ?st))"
    unfolding eq using assms(5) by (auto simp: axis_offset_def pair_fields padd_def)
qed

lemma v_start_entry:
  assumes "fst ls = fst le" "snd bs = snd be" "ls \<noteq> le" "TestSegmentHit ls bs be"
    and "d = 100 \<or> d = -100"
  shows "start_entry_made bs be ls le
           (diagonal_part bs be (entry_at_start e f (padd ls (0, d)) (pair_init ls le lbls)))"
    and "only_entry (diagonal_part bs be (entry_at_start e f (padd ls (0, d)) (pair_init ls le lbls)))"
    and "axis_offset ls (wire_start
           (diagonal_part bs be (entry_at_start e f (padd ls (0, d)) (pair_init ls le lbls))))"
proof -
  let ?st = "entry_at_start e f (padd ls (0, d)) (pair_init ls le lbls)"
  have y: "snd ls = snd bs" by (rule hit_horizontal[OF assms(2,4)])
  have le: "snd le \<noteq> snd bs" using assms(1,3) y by (cases ls; cases le) auto
  have nle: "\<not> TestSegmentHit le bs be" by (rule off_horizontal[OF assms(2) le])
  have off: "\<not> TestSegmentHit (padd ls (0, d)) bs be"
    using assms(5) y by (intro off_horizontal[OF assms(2)]) (auto simp: padd_def)
  then have eq: "diagonal_part bs be ?st = ?st"
    using nle by (intro diagonal_idle) (simp_all add: pair_fields)
  show "start_entry_made bs be ls le (diagonal_part bs be ?st)"
    unfolding eq using assms(5) off
    by (auto simp: start_entry_made_def pair_fields offset_by_increment_def padd_def)
  show "only_entry (diagonal_part bs be ?st)"
    unfolding eq by (simp add: only_entry_def pair_fields)
  show "axis_offset ls (wire_start (diagonal_part bs be ?st))"
    unfolding eq using assms(5) by (auto simp: axis_offset_def pair_fields padd_def)
qed

lemma v_end_entry:
  assumes "fst ls = fst le" "snd bs = snd be" "ls \<noteq> le" "TestSegmentHit le bs be"
    and "d = 100 \<or> d = -100"
  shows "end_entry_made bs be ls le
           (diagonal_part bs be (entry_at_end e f (padd le (0, d)) (pair_init ls le lbls)))"
    and "only_entry (diagonal_part bs be (entry_at_end e f (padd le (0, d)) (pair_init ls le lbls)))"
    and "axis_offset le (wire_end
           (diagonal_part bs be (entry_at_end e f (padd le (0, d)) (pair_init ls le lbls))))"
proof -
  let ?st = "entry_at_end e f (padd le (0, d)) (pair_init ls le lbls)"
  have y: "snd le = snd bs" by (rule hit_horizontal[OF assms(2,4)])
  have ls: "snd ls \<noteq> snd bs" using assms(1,3) y by (cases ls; cases le) auto
  have nls: "\<not> TestSegmentHit ls bs be" by (rule off_horizontal[OF assms(2) ls])
  have off: "\<not> TestSegmentHit (padd le (0, d)) bs be"
    using assms(5) y by (intro off_horizontal[OF assms(2)]) (auto simp: padd_def)
  then have eq: "diagonal_part bs be ?st = ?st"
    using nls by (intro diagonal_idle) (simp_all add: pair_fields)
  show "end_entry_made bs be ls le (diagonal_part bs be ?st)"
    unfolding eq using assms(5) off
    by (auto simp: end_entry_made_def pair_fields offset_by_increment_def padd_def)
  show "only_entry (diagonal_part bs be ?st)"
    unfolding eq by (simp add: only_entry_def pair_fields)
  show "axis_offset le (wire_end (diagonal_part bs be ?st))"
    unfolding eq using assms(5) by (auto simp: axis_offset_def pair_fields padd_def)
qed

text \<open>The four orientations with the start on the bus, and the four with the end on it.\<close>

lemma h_start_made:
  assumes "snd ls = snd le" "fst bs = fst be" "ls \<noteq> le" "TestSegmentHit ls bs be"
  shows "start_entry_made bs be ls le (bus_wire_pair bs be (pair_init ls le lbls))"
  unfolding bus_wire_pair_def h_start_orth[OF assms] horizontal_wire_start_def
  using assms(4) h_start_entry(1)[OF assms, of 100] h_start_entry(1)[OF assms, of "-100"]
    h_start_marker(2)[OF assms]
  by simp

lemma h_end_made:
  assumes "snd ls = snd le" "fst bs = fst be" "ls \<noteq> le" "TestSegmentHit le bs be"
  shows "end_entry_made bs be ls le (bus_wire_pair bs be (pair_init ls le lbls))"
  unfolding bus_wire_pair_def h_end_orth[OF assms] horizontal_wire_end_def
  using assms(4) h_end_entry(1)[OF assms, of 100] h_end_entry(1)[OF assms, of "-100"]
    h_end_marker(2)[OF assms]
  by simp

lemma v_start_made:
  assumes "fst ls = fst le" "snd bs = snd be" "ls \<noteq> le" "TestSegmentHit ls bs be"
  shows "start_entry_made bs be ls le (bus_wire_pair bs be (pair_init ls le lbls))"
  unfolding bus_wire_pair_def v_start_orth[OF assms] vertical_wire_start_def
  using assms(4) v_start_entry(1)[OF assms, of 100] v_start_entry(1)[OF assms, of "-100"]
    v_start_marker(2)[OF assms]
  by simp

lemma v_end_made:
  assumes "fst ls = fst le" "snd bs = snd be" "ls \<noteq> le" "TestSegmentHit le bs be"
  shows "end_entry_made bs be ls le (bus_wire_pair bs be (pair_init ls le lbls))"
  unfolding bus_wire_pair_def v_end_orth[OF assms] vertical_wire_end_def
  using assms(4) v_end_entry(1)[OF assms, of 100] v_end_entry(1)[OF assms, of "-100"]
    v_end_marker(2)[OF assms]
  by simp





text \<open>With no probe point on the bus the first part sets the marker, and the second part follows.\<close>

lemma h_start_no_probe:
  assumes "snd ls = snd le" "fst bs = fst be" "ls \<noteq> le" "TestSegmentHit ls bs be"
    and "\<not> probe_hit bs be ls le ls"
  shows "marker_then_entry ls (bus_wire_pair bs be (pair_init ls le lbls))"
  unfolding bus_wire_pair_def h_start_orth[OF assms(1-4)] horizontal_wire_start_def
  using assms(1,4,5) h_start_marker(1)[OF assms(1-4)]
  by (auto simp: probe_hit_def)

lemma h_end_no_probe:
  assumes "snd ls = snd le" "fst bs = fst be" "ls \<noteq> le" "TestSegmentHit le bs be"
    and "\<not> probe_hit bs be ls le le"
  shows "marker_then_entry le (bus_wire_pair bs be (pair_init ls le lbls))"
  unfolding bus_wire_pair_def h_end_orth[OF assms(1-4)] horizontal_wire_end_def
  using assms(1,4,5) h_end_marker(1)[OF assms(1-4)]
  by (auto simp: probe_hit_def)

lemma v_start_no_probe:
  assumes "fst ls = fst le" "snd bs = snd be" "ls \<noteq> le" "TestSegmentHit ls bs be"
    and "\<not> probe_hit bs be ls le ls"
  shows "marker_then_entry ls (bus_wire_pair bs be (pair_init ls le lbls))"
proof -
  have "snd ls \<noteq> snd le" using assms(1,3) by (cases ls; cases le) auto
  then show ?thesis
    unfolding bus_wire_pair_def v_start_orth[OF assms(1-4)] vertical_wire_start_def
    using assms(4,5) v_start_marker(1)[OF assms(1-4)]
    by (auto simp: probe_hit_def)
qed

lemma v_end_no_probe:
  assumes "fst ls = fst le" "snd bs = snd be" "ls \<noteq> le" "TestSegmentHit le bs be"
    and "\<not> probe_hit bs be ls le le"
  shows "marker_then_entry le (bus_wire_pair bs be (pair_init ls le lbls))"
proof -
  have "snd ls \<noteq> snd le" using assms(1,3) by (cases ls; cases le) auto
  then show ?thesis
    unfolding bus_wire_pair_def v_end_orth[OF assms(1-4)] vertical_wire_end_def
    using assms(4,5) v_end_marker(1)[OF assms(1-4)]
    by (auto simp: probe_hit_def)
qed

lemma perpendicular_cases:
  assumes "perpendicular bs be ls le"
  obtains (horizontal) "snd ls = snd le" "fst bs = fst be" "ls \<noteq> le"
        | (vertical) "fst ls = fst le" "snd bs = snd be" "ls \<noteq> le"
  using assms unfolding perpendicular_def by blast













text \<open>
  Before the first bus of the sheet nothing has happened, and a round changes no
  line but its own: the first bus finds every later line as the sheet has it.
\<close>

lemma pair_step_other:
  "k \<noteq> j \<Longrightarrow> es_lines (pair_step i j es) ! k = es_lines es ! k"
  by (simp add: pair_step_def Let_def split: option.splits)

lemma fold_pair_step_other:
  "k \<notin> set js \<Longrightarrow> es_lines (fold (pair_step i) js es) ! k = es_lines es ! k"
  by (induction js arbitrary: es) (simp_all add: pair_step_other)

lemma fold_bus_step_no_bus:
  assumes "\<forall>k\<in>set ks. k < length lines \<and> line_layer (lines ! k) \<noteq> LAYER_BUS"
  shows "fold bus_step ks (entries_init lines lbls) = entries_init lines lbls"
  using assms
  by (induction ks) (simp_all add: bus_step_def entries_init_def)

lemma first_bus_finds_wire:
  assumes "\<forall>k<i. line_layer (lines ! k) \<noteq> LAYER_BUS" "i < j" "j < length lines"
  shows "es_lines (loop_state lines lbls i j) ! j = Some (lines ! j)"
proof -
  have "fold bus_step [0..<i] (entries_init lines lbls) = entries_init lines lbls"
    using assms by (intro fold_bus_step_no_bus) simp
  then show ?thesis
    using assms(3) by (simp add: loop_state_def fold_pair_step_other entries_init_def)
qed

text \<open>Nothing that has been appended is taken away again by the rest of the loops.\<close>

lemma pair_step_appends:
  "\<exists>items. es_appended (pair_step i j es) = es_appended es @ items"
  by (simp add: pair_step_def Let_def split: option.splits)

lemma fold_pair_step_appends:
  "\<exists>items. es_appended (fold (pair_step i) js es) = es_appended es @ items"
proof (induction js arbitrary: es)
  case Nil
  then show ?case by simp
next
  case (Cons j js)
  obtain a where a: "es_appended (pair_step i j es) = es_appended es @ a"
    using pair_step_appends by blast
  obtain b where "es_appended (fold (pair_step i) js (pair_step i j es))
                    = es_appended (pair_step i j es) @ b"
    using Cons.IH by blast
  then show ?case using a by simp
qed

lemma bus_step_appends:
  "\<exists>items. es_appended (bus_step i es) = es_appended es @ items"
  using fold_pair_step_appends[of i _ es]
  by (simp add: bus_step_def split: option.splits)

lemma fold_bus_step_appends:
  "\<exists>items. es_appended (fold bus_step ks es) = es_appended es @ items"
proof (induction ks arbitrary: es)
  case Nil
  then show ?case by simp
next
  case (Cons k ks)
  obtain a where a: "es_appended (bus_step k es) = es_appended es @ a"
    using bus_step_appends by blast
  obtain b where "es_appended (fold bus_step ks (bus_step k es))
                    = es_appended (bus_step k es) @ b"
    using Cons.IH by blast
  then show ?case using a by simp
qed

lemma loop_rest_appends:
  "\<exists>items. es_appended (loop_rest lines i j es) = es_appended es @ items"
proof -
  obtain a where a: "es_appended (fold (pair_step i) [Suc j..<length lines] es)
                       = es_appended es @ a"
    using fold_pair_step_appends by blast
  obtain b where "es_appended (loop_rest lines i j es)
                    = es_appended (fold (pair_step i) [Suc j..<length lines] es) @ b"
    unfolding loop_rest_def using fold_bus_step_appends by blast
  then show ?thesis using a by simp
qed



text \<open>The example, evaluated: one bus entry, and the start of the wire one increment to the left.\<close>

lemma addBusEntries_example:
  "addBusEntries [long_bus, left_wire] [] =
     \<lparr>es_lines = [Some long_bus, Some (left_wire\<lparr>line_start := (-100, 0)\<rparr>)],
      es_appended = [SCH_BUS_WIRE_ENTRY (-100, 0) True], es_labels = []\<rparr>"
  by (simp add: addBusEntries_def entries_init_def bus_step_def pair_step_def long_bus_def
      left_wire_def bus_wire_pair_def orthogonal_part_def diagonal_part_def Let_def
      pair_init_def horizontal_wire_start_def horizontal_wire_end_def
      diagonal_start_def diagonal_end_def entry_at_start_def Append_def
      moveLabels_def SetStartPoint_def TestSegmentHit_def padd_def psub_def)


text \<open>
  C6. When an orthogonal wire end point lies on a perpendicular bus and neither probe
  point is on the bus, the synthesizer is to append the marker "Bus Entry needed" at
  the touch point, make no bus entry for that end point and leave the wire's end
  points unchanged. The code appends the marker, and then its second part, which
  tests only that the end point is on the bus, appends a bus entry and moves that
  end point off the bus.
\<close>

theorem C6_marker_is_followed_by_entry:
  assumes "perpendicular bs be ls le"
  shows "(TestSegmentHit ls bs be \<and> \<not> probe_hit bs be ls le ls \<longrightarrow>
            marker_then_entry ls (bus_wire_pair bs be (pair_init ls le lbls)) \<and>
            wire_start (bus_wire_pair bs be (pair_init ls le lbls)) \<noteq> ls) \<and>
         (TestSegmentHit le bs be \<and> \<not> probe_hit bs be ls le le \<longrightarrow>
            marker_then_entry le (bus_wire_pair bs be (pair_init ls le lbls)) \<and>
            wire_end (bus_wire_pair bs be (pair_init ls le lbls)) \<noteq> le)"
  using assms
proof (cases rule: perpendicular_cases)
  case horizontal
  have "wire_start (bus_wire_pair bs be (pair_init ls le lbls)) \<noteq> ls"
    if "TestSegmentHit ls bs be"
    using h_start_made[OF horizontal that, of lbls] that
    by (auto simp: start_entry_made_def)
  moreover have "wire_end (bus_wire_pair bs be (pair_init ls le lbls)) \<noteq> le"
    if "TestSegmentHit le bs be"
    using h_end_made[OF horizontal that, of lbls] that
    by (auto simp: end_entry_made_def)
  ultimately show ?thesis
    using h_start_no_probe[OF horizontal] h_end_no_probe[OF horizontal] by blast
next
  case vertical
  have "wire_start (bus_wire_pair bs be (pair_init ls le lbls)) \<noteq> ls"
    if "TestSegmentHit ls bs be"
    using v_start_made[OF vertical that, of lbls] that
    by (auto simp: start_entry_made_def)
  moreover have "wire_end (bus_wire_pair bs be (pair_init ls le lbls)) \<noteq> le"
    if "TestSegmentHit le bs be"
    using v_end_made[OF vertical that, of lbls] that
    by (auto simp: end_entry_made_def)
  ultimately show ?thesis
    using v_start_no_probe[OF vertical] v_end_no_probe[OF vertical] by blast
qed

theorem C6_marker_is_followed_by_entry_witness:
  "perpendicular (0, 0) (0, 50) (0, 0) (-200, 0) \<and>
   TestSegmentHit (0, 0) (0, 0) (0, 50) \<and>
   \<not> probe_hit (0, 0) (0, 50) (0, 0) (-200, 0) (0, 0) \<and>
   marker_then_entry (0, 0) (bus_wire_pair (0, 0) (0, 50) (pair_init (0, 0) (-200, 0) [])) \<and>
   wire_start (bus_wire_pair (0, 0) (0, 50) (pair_init (0, 0) (-200, 0) [])) \<noteq> (0, 0)"
proof -
  have p: "perpendicular (0, 0) (0, 50) (0, 0) (-200, 0)"
    by (simp add: perpendicular_def)
  have h: "TestSegmentHit (0, 0) (0, 0) (0, 50)"
    by (simp add: TestSegmentHit_def)
  have q: "\<not> probe_hit (0, 0) (0, 50) (0, 0) (-200, 0) (0, 0)"
    by (simp add: probe_hit_def TestSegmentHit_def padd_def)
  from C6_marker_is_followed_by_entry[OF p, of "[]"] h q p show ?thesis by blast
qed

text \<open>The same input, evaluated: the marker, then a bus entry, and a wire that is no longer horizontal.\<close>

lemma bus_entry_needed_example:
  "bus_wire_pair (0, 0) (0, 50) (pair_init (0, 0) (-200, 0) []) =
     \<lparr>appended = [SCH_MARKER ''Bus Entry needed'' (0, 0), SCH_BUS_WIRE_ENTRY (-100, 100) True],
      wire_start = (-100, 100), wire_end = (-200, 0), wire_deleted = False,
      label_positions = []\<rparr>"
  by (simp add: bus_wire_pair_def orthogonal_part_def diagonal_part_def Let_def
      pair_init_def horizontal_wire_start_def horizontal_wire_end_def
      diagonal_start_def diagonal_end_def diagonal_start_entry_def marker_at_def Append_def
      moveLabels_def SetStartPoint_def TestSegmentHit_def padd_def psub_def)


subsection \<open>Net counts\<close>

lemma count_net_apply:
  "count_net n counts name =
     (if name = n then Some ((case counts n of None \<Rightarrow> 0 | Some c \<Rightarrow> c) + 1)
      else counts name)"
  by (simp add: count_net_def split: option.splits)

lemma fold_count_net:
  "fold count_net nets counts name =
     (if name \<in> set nets
      then Some ((case counts name of None \<Rightarrow> 0 | Some c \<Rightarrow> c) + int (count_list nets name))
      else counts name)"
proof (induction nets arbitrary: counts)
  case Nil
  then show ?case by simp
next
  case (Cons n nets)
  have step: "fold count_net (n # nets) counts name =
      (if name \<in> set nets
       then Some ((case count_net n counts name of None \<Rightarrow> 0 | Some c \<Rightarrow> c)
                  + int (count_list nets name))
       else count_net n counts name)"
    using Cons.IH[of "count_net n counts"] by simp
  have rhs: "(if name \<in> set nets
       then Some ((case count_net n counts name of None \<Rightarrow> 0 | Some c \<Rightarrow> c)
                  + int (count_list nets name))
       else count_net n counts name) =
      (if name \<in> set (n # nets)
       then Some ((case counts name of None \<Rightarrow> 0 | Some c \<Rightarrow> c)
                  + int (count_list (n # nets) name))
       else counts name)"
    by (auto simp: count_net_apply split: option.splits)
  show ?case unfolding step rhs ..
qed

lemma fold_fold_concat: "fold (\<lambda>xs. fold f xs) xss s = fold f (concat xss) s"
  by (induction xss arbitrary: s) simp_all

text \<open>countNets counts, for every name, the net elements of that name in all the sheets.\<close>

lemma countNets_counts:
  "countNets sheets Map.empty name =
     (if name \<in> set (concat sheets) then Some (int (count_list (concat sheets) name)) else None)"
proof -
  have "countNets sheets Map.empty = fold count_net (concat sheets) Map.empty"
    unfolding countNets_def by (rule fold_fold_concat)
  then show ?thesis by (simp add: fold_count_net)
qed

subsection \<open>Net label synthesis\<close>

lemma segment_wires_Cons:
  "segment_wires (c # cs) = segment_wires [c] @ segment_wires cs"
  by (simp add: segment_wires_def)

lemma segment_attributes_Cons:
  "segment_attributes env n (c # cs) = segment_attributes env n [c] @ segment_attributes env n cs"
  by (simp add: segment_attributes_def)

lemma has_label_Cons: "has_label (c # cs) = (has_label [c] \<or> has_label cs)"
  by (simp add: has_label_def)

lemma wire_step_screen:
  "screen (snd (segment_wire_step env n c acc)) =
     screen (snd acc) @ map (\<lambda>w. LINE (make_wire env w)) (segment_wires [c])"
  by (cases c; cases acc)
    (simp_all add: segment_wire_step_def segment_wires_def loadWire_def Let_def screen_Append_def)

lemma wire_step_first:
  "fst (segment_wire_step env n c acc) =
     (case fst acc of Some w \<Rightarrow> Some w
      | None \<Rightarrow> (case segment_wires [c] of [] \<Rightarrow> None | w # ws \<Rightarrow> Some (make_wire env w)))"
  by (cases c; cases acc)
    (simp_all add: segment_wire_step_def segment_wires_def loadWire_def Let_def
      split: option.splits)

lemma fold_wire_step_screen:
  "screen (snd (fold (segment_wire_step env n) cs acc)) =
     screen (snd acc) @ map (\<lambda>w. LINE (make_wire env w)) (segment_wires cs)"
proof (induction cs arbitrary: acc)
  case Nil
  then show ?case by (simp add: segment_wires_def)
next
  case (Cons c cs)
  have "fold (segment_wire_step env n) (c # cs) acc =
          fold (segment_wire_step env n) cs (segment_wire_step env n c acc)"
    by simp
  then show ?case
    using Cons.IH[of "segment_wire_step env n c acc"] wire_step_screen[of env n c acc]
      segment_wires_Cons[of c cs]
    by simp
qed

lemma fold_wire_step_first:
  "fst (fold (segment_wire_step env n) cs acc) =
     (case fst acc of Some w \<Rightarrow> Some w
      | None \<Rightarrow> (case segment_wires cs of [] \<Rightarrow> None | w # ws \<Rightarrow> Some (make_wire env w)))"
proof (induction cs arbitrary: acc)
  case Nil
  then show ?case by (simp add: segment_wires_def split: option.splits)
next
  case (Cons c cs)
  have "fold (segment_wire_step env n) (c # cs) acc =
          fold (segment_wire_step env n) cs (segment_wire_step env n c acc)"
    by simp
  then show ?case
    using Cons.IH[of "segment_wire_step env n c acc"] wire_step_first[of env n c acc]
      segment_wires_Cons[of c cs]
    by (auto split: option.splits list.splits)
qed

lemma attribute_step_screen:
  "screen (snd (segment_attribute_step env n c acc)) =
     screen (snd acc) @ segment_attributes env n [c]"
  by (cases c)
    (simp_all add: segment_attribute_step_def segment_attributes_def Let_def screen_Append_def)

lemma attribute_step_labelled:
  "fst (segment_attribute_step env n c acc) = (fst acc \<or> has_label [c])"
  by (cases c) (simp_all add: segment_attribute_step_def has_label_def Let_def)

lemma fold_attribute_step_screen:
  "screen (snd (fold (segment_attribute_step env n) cs acc)) =
     screen (snd acc) @ segment_attributes env n cs"
proof (induction cs arbitrary: acc)
  case Nil
  then show ?case by (simp add: segment_attributes_def)
next
  case (Cons c cs)
  have "fold (segment_attribute_step env n) (c # cs) acc =
          fold (segment_attribute_step env n) cs (segment_attribute_step env n c acc)"
    by simp
  then show ?case
    using Cons.IH[of "segment_attribute_step env n c acc"] attribute_step_screen[of env n c acc]
      segment_attributes_Cons[of env n c cs]
    by simp
qed

lemma fold_attribute_step_labelled:
  "fst (fold (segment_attribute_step env n) cs acc) = (fst acc \<or> has_label cs)"
proof (induction cs arbitrary: acc)
  case Nil
  then show ?case by (simp add: has_label_def)
next
  case (Cons c cs)
  have "fold (segment_attribute_step env n) (c # cs) acc =
          fold (segment_attribute_step env n) cs (segment_attribute_step env n c acc)"
    by simp
  then show ?case
    using Cons.IH[of "segment_attribute_step env n c acc"] attribute_step_labelled[of env n c acc]
      has_label_Cons[of c cs]
    by simp
qed

text \<open>What loadSegment appends to the screen: the wires, the junctions and labels, the synthesized label.\<close>

lemma loadSegment_screen:
  "screen (loadSegment env netName segmentCount children st) =
     screen st @ map (\<lambda>w. LINE (make_wire env w)) (segment_wires children)
       @ segment_attributes env netName children
       @ expected_label env netName segmentCount children"
proof -
  let ?st0 = "st\<lparr>m_segments := m_segments st @ [\<lparr>labels = [], segs = []\<rparr>]\<rparr>"
  obtain fw st1 where w: "fold (segment_wire_step env netName) children (None, ?st0) = (fw, st1)"
    by (cases "fold (segment_wire_step env netName) children (None, ?st0)")
  obtain lb st2 where a: "fold (segment_attribute_step env netName) children (False, st1) = (lb, st2)"
    by (cases "fold (segment_attribute_step env netName) children (False, st1)")
  have fw: "fw = (case segment_wires children of [] \<Rightarrow> None | w # ws \<Rightarrow> Some (make_wire env w))"
    using fold_wire_step_first[of env netName children "(None, ?st0)"] w by simp
  have s1: "screen st1 = screen st @ map (\<lambda>w. LINE (make_wire env w)) (segment_wires children)"
    using fold_wire_step_screen[of env netName children "(None, ?st0)"] w by simp
  have lb: "lb = has_label children"
    using fold_attribute_step_labelled[of env netName children "(False, st1)"] a by simp
  have s2: "screen st2 = screen st1 @ segment_attributes env netName children"
    using fold_attribute_step_screen[of env netName children "(False, st1)"] a by simp
  have "loadSegment env netName segmentCount children st =
          (case synthesized_label env netName segmentCount lb fw of
             None \<Rightarrow> st2 | Some label \<Rightarrow> screen_Append (TEXT label) st2)"
    by (simp add: loadSegment_def Let_def w a)
  then show ?thesis
    using fw lb s1 s2
    by (cases "segment_wires children")
      (auto simp: synthesized_label_def expected_label_def screen_Append_def)
qed


text \<open>
  C2. A label is synthesized for a segment group if and only if the group has a wire
  and no explicit label; it is global exactly when the net's name is counted more
  than once in the document, otherwise local exactly when the net has more than one
  segment, and there is none otherwise; it stands at the start of the group's first
  wire and carries the escaped net name.
  As stated the first clause fails: a group with a wire and no label, of a net
  counted once and of one segment, gets no label. The statement proved adds that
  condition to the first clause: what loadSegment appends after the items of the
  segment is exactly \<open>expected_label\<close>.
\<close>

theorem C2_label_synthesis:
  "screen (loadSegment env netName segmentCount children st) =
     screen st @ map (\<lambda>w. LINE (make_wire env w)) (segment_wires children)
       @ segment_attributes env netName children
       @ expected_label env netName segmentCount children"
  by (rule loadSegment_screen)

theorem C2_label_synthesis_witness:
  "screen (loadSegment (example_env\<lparr>m_netCounts := [''N1'' \<mapsto> 2]\<rparr>) ''N1'' 1
      [SEG_WIRE \<lparr>wire_x1 = 10, wire_y1 = 20, wire_x2 = 30, wire_y2 = 20, wire_width = 0,
                 wire_layer = 91, wire_curve = None\<rparr>] empty_sheet) =
     [LINE \<lparr>line_layer = LAYER_WIRE, line_start = (10, -20), line_end = (30, -20)\<rparr>,
      TEXT \<lparr>text_kind = SCH_GLOBAL_LABEL_T, text_pos = (10, -20), text_string = ''N1''\<rparr>]"
  using C2_label_synthesis[of "example_env\<lparr>m_netCounts := [''N1'' \<mapsto> 2]\<rparr>" "''N1''" 1
      "[SEG_WIRE \<lparr>wire_x1 = 10, wire_y1 = 20, wire_x2 = 30, wire_y2 = 20, wire_width = 0,
                  wire_layer = 91, wire_curve = None\<rparr>]" empty_sheet]
  by (simp add: expected_label_def segment_wires_def segment_attributes_def has_label_def
      make_wire_def netCount_def example_env_def empty_sheet_def)

theorem C2_wire_without_label_counterexample:
  "segment_wires [SEG_WIRE \<lparr>wire_x1 = 10, wire_y1 = 20, wire_x2 = 30, wire_y2 = 20,
                     wire_width = 0, wire_layer = 91, wire_curve = None\<rparr>] \<noteq> [] \<and>
   \<not> has_label [SEG_WIRE \<lparr>wire_x1 = 10, wire_y1 = 20, wire_x2 = 30, wire_y2 = 20,
                     wire_width = 0, wire_layer = 91, wire_curve = None\<rparr>] \<and>
   screen (loadSegment example_env ''N1'' 1
      [SEG_WIRE \<lparr>wire_x1 = 10, wire_y1 = 20, wire_x2 = 30, wire_y2 = 20, wire_width = 0,
                 wire_layer = 91, wire_curve = None\<rparr>] empty_sheet) =
     [LINE \<lparr>line_layer = LAYER_WIRE, line_start = (10, -20), line_end = (30, -20)\<rparr>]"
  by (simp add: loadSegment_screen expected_label_def segment_wires_def segment_attributes_def
      has_label_def make_wire_def netCount_def example_env_def empty_sheet_def)

subsection \<open>Unresolved instances\<close>

text \<open>
  C7. For an instance whose part is absent from the part list, or whose symbol cannot
  be loaded from the imported library, loadInstance reports one diagnostic of error
  severity and returns: nothing is appended to the screen and the connection-point
  map is unchanged. (The model has no exception on these paths, as the source has
  no throw statement on them.)
\<close>

theorem C7_unresolved_instance_is_skipped:
  assumes "unresolved_instance env einstance"
  shows "screen (loadInstance env einstance st) = screen st \<and>
         m_connPoints (loadInstance env einstance st) = m_connPoints st \<and>
         (\<exists>msg. reports (loadInstance env einstance st) = reports st @ [(msg, RPT_SEVERITY_ERROR)])"
  using assms
  by (auto simp: unresolved_instance_def loadInstance_def Report_def Let_def split: option.splits)

theorem C7_unresolved_instance_is_skipped_witness:
  "unresolved_instance example_env
     \<lparr>inst_part = ''R1'', inst_gate = ''G$1'', inst_x = 0, inst_y = 0, inst_smashed = None,
      inst_rot = None\<rparr> \<and>
   screen (loadInstance example_env
     \<lparr>inst_part = ''R1'', inst_gate = ''G$1'', inst_x = 0, inst_y = 0, inst_smashed = None,
      inst_rot = None\<rparr> empty_sheet) = [] \<and>
   reports (loadInstance example_env
     \<lparr>inst_part = ''R1'', inst_gate = ''G$1'', inst_x = 0, inst_y = 0, inst_smashed = None,
      inst_rot = None\<rparr> empty_sheet) = [(part_not_found_msg ''R1'', RPT_SEVERITY_ERROR)] \<and>
   unresolved_instance
     (example_env\<lparr>m_partlist := [''R1'' \<mapsto> \<lparr>epart_name = ''R1'', epart_library = ''rcl'',
        epart_deviceset = ''R'', epart_device = [], epart_value = None\<rparr>]\<rparr>)
     \<lparr>inst_part = ''r1'', inst_gate = ''G$1'', inst_x = 0, inst_y = 0, inst_smashed = None,
      inst_rot = None\<rparr> \<and>
   screen (loadInstance
     (example_env\<lparr>m_partlist := [''R1'' \<mapsto> \<lparr>epart_name = ''R1'', epart_library = ''rcl'',
        epart_deviceset = ''R'', epart_device = [], epart_value = None\<rparr>]\<rparr>)
     \<lparr>inst_part = ''r1'', inst_gate = ''G$1'', inst_x = 0, inst_y = 0, inst_smashed = None,
      inst_rot = None\<rparr> empty_sheet) = [] \<and>
   reports (loadInstance
     (example_env\<lparr>m_partlist := [''R1'' \<mapsto> \<lparr>epart_name = ''R1'', epart_library = ''rcl'',
        epart_deviceset = ''R'', epart_device = [], epart_value = None\<rparr>]\<rparr>)
     \<lparr>inst_part = ''r1'', inst_gate = ''G$1'', inst_x = 0, inst_y = 0, inst_smashed = None,
      inst_rot = None\<rparr> empty_sheet) = [(symbol_not_found_msg ''R'', RPT_SEVERITY_ERROR)]"
proof -
  let ?i1 = "\<lparr>inst_part = ''R1'', inst_gate = ''G$1'', inst_x = 0, inst_y = 0,
              inst_smashed = None, inst_rot = None\<rparr>"
  let ?i2 = "\<lparr>inst_part = ''r1'', inst_gate = ''G$1'', inst_x = 0, inst_y = 0,
              inst_smashed = None, inst_rot = None\<rparr>"
  let ?env2 = "example_env\<lparr>m_partlist := [''R1'' \<mapsto> \<lparr>epart_name = ''R1'',
        epart_library = ''rcl'', epart_deviceset = ''R'', epart_device = [],
        epart_value = None\<rparr>]\<rparr>"
  have up: "Upper ''r1'' = ''R1''" by code_simp
  have u1: "unresolved_instance example_env ?i1"
    by (simp add: unresolved_instance_def example_env_def)
  have u2: "unresolved_instance ?env2 ?i2"
    by (simp add: unresolved_instance_def example_env_def up kisymbolname_of_def)
  have r1: "reports (loadInstance example_env ?i1 empty_sheet)
              = [(part_not_found_msg ''R1'', RPT_SEVERITY_ERROR)]"
    by (simp add: loadInstance_def example_env_def Report_def empty_sheet_def)
  have r2: "reports (loadInstance ?env2 ?i2 empty_sheet)
              = [(symbol_not_found_msg ''R'', RPT_SEVERITY_ERROR)]"
    by (simp add: loadInstance_def example_env_def Report_def empty_sheet_def up
        kisymbolname_of_def Let_def)
  from C7_unresolved_instance_is_skipped[OF u1, of empty_sheet]
    C7_unresolved_instance_is_skipped[OF u2, of empty_sheet] u1 u2 r1 r2
  show ?thesis by (simp add: empty_sheet_def)
qed

subsection \<open>The direction of the Y axis\<close>

text \<open>
  The loaders of a sheet negate the Y coordinate of the document; the loaders of a
  library symbol do not. The statements are about the position each loader gives its
  item: when a sheet has been loaded, loadSheet moves all its items by one common
  vector, to the centre of the page.
\<close>

lemma sheet_items:
  "line_start (fst (loadWire env ewire st)) =
     (ToSchUnits env (wire_x1 ewire), - ToSchUnits env (wire_y1 ewire))"
  "line_end (fst (loadWire env ewire st)) =
     (ToSchUnits env (wire_x2 ewire), - ToSchUnits env (wire_y2 ewire))"
  "loadJunction env ejunction =
     JUNCTION (ToSchUnits env (junction_x ejunction), - ToSchUnits env (junction_y ejunction))"
  "text_pos (loadLabel env elabel aNetName) =
     (ToSchUnits env (elabel_x elabel), - ToSchUnits env (elabel_y elabel))"
  "text_pos (loadPlainText env etext) =
     (ToSchUnits env (etext_x etext), - ToSchUnits env (etext_y etext))"
  "map line_start (loadFrame env eframe) =
     [(ToSchUnits env (frame_x1 eframe), - ToSchUnits env (frame_y1 eframe)),
      (ToSchUnits env (frame_x2 eframe), - ToSchUnits env (frame_y1 eframe)),
      (ToSchUnits env (frame_x2 eframe), - ToSchUnits env (frame_y2 eframe)),
      (ToSchUnits env (frame_x1 eframe), - ToSchUnits env (frame_y2 eframe))]"
  "map line_end (loadFrame env eframe) =
     [(ToSchUnits env (frame_x2 eframe), - ToSchUnits env (frame_y1 eframe)),
      (ToSchUnits env (frame_x2 eframe), - ToSchUnits env (frame_y2 eframe)),
      (ToSchUnits env (frame_x1 eframe), - ToSchUnits env (frame_y2 eframe)),
      (ToSchUnits env (frame_x1 eframe), - ToSchUnits env (frame_y1 eframe))]"
  by (simp_all add: loadWire_def make_wire_def loadJunction_def loadLabel_def loadPlainText_def
      loadFrame_def Let_def)

lemma symbol_items:
  "loadSymbolCircle env c g =
     LIB_CIRCLE (ToSchUnits env (circle_x c), ToSchUnits env (circle_y c))
       (ToSchUnits env (circle_radius c)) (ToSchUnits env (circle_width c)) g"
  "loadSymbolRectangle env rect g =
     LIB_RECTANGLE (ToSchUnits env (rect_x1 rect), ToSchUnits env (rect_y1 rect))
       (ToSchUnits env (rect_x2 rect), ToSchUnits env (rect_y2 rect)) g"
  "pin_position (loadPin env ePin g) = (ToSchUnits env (epin_x ePin), ToSchUnits env (epin_y ePin))"
  "fst (loadSymbolText env etext g) = (ToSchUnits env (etext_x etext), ToSchUnits env (etext_y etext))"
  by (simp_all add: loadSymbolCircle_def loadSymbolRectangle_def loadPin_def loadSymbolText_def Let_def)

lemma loadInstance_resolved:
  assumes "resolved_instance env einstance"
  shows "\<exists>c. screen (loadInstance env einstance st) = screen st @ [COMPONENT c] \<and>
             cmp_position c = (ToSchUnits env (inst_x einstance), - ToSchUnits env (inst_y einstance))"
  using assms
  by (auto simp: resolved_instance_def loadInstance_def kisymbolname_of_def Let_def screen_Append_def
      split: option.splits)

lemma symbol_wire_none:
  "symbol_wire_begin env swire = symbol_wire_end env swire \<Longrightarrow> loadSymbolWire env swire g = None"
  by (simp add: loadSymbolWire_def symbol_wire_begin_def symbol_wire_end_def Let_def)

lemma symbol_wire_line:
  "symbol_wire_begin env swire \<noteq> symbol_wire_end env swire \<Longrightarrow> wire_curve swire = None \<Longrightarrow>
   loadSymbolWire env swire g =
     Some (LIB_POLYLINE [symbol_wire_begin env swire, symbol_wire_end env swire] g
             (ToSchUnits env (wire_width swire)))"
  by (simp add: loadSymbolWire_def symbol_wire_begin_def symbol_wire_end_def Let_def)

lemma symbol_wire_thin_arc:
  "symbol_wire_begin env swire \<noteq> symbol_wire_end env swire \<Longrightarrow> wire_curve swire = Some curve \<Longrightarrow>
   \<not> thick_arc env swire curve \<Longrightarrow>
   loadSymbolWire env swire g =
     Some (LIB_ARC (arc_center env swire curve)
             (if curve > 0 then symbol_wire_begin env swire else symbol_wire_end env swire)
             (if curve > 0 then symbol_wire_end env swire else symbol_wire_begin env swire)
             (to_int (arc_radius env (arc_center env swire curve) (symbol_wire_begin env swire)))
             (ToSchUnits env (wire_width swire)) False g)"
  by (simp add: loadSymbolWire_def symbol_wire_begin_def symbol_wire_end_def thick_arc_def
      arc_center_def Let_def)

lemma symbol_wire_thick_arc:
  "symbol_wire_begin env swire \<noteq> symbol_wire_end env swire \<Longrightarrow> wire_curve swire = Some curve \<Longrightarrow>
   thick_arc env swire curve \<Longrightarrow>
   loadSymbolWire env swire g =
     Some (LIB_ARC (arc_center env swire curve)
             (if curve > 0 then moved_point env swire curve (symbol_wire_begin env swire)
              else moved_point env swire curve (symbol_wire_end env swire))
             (if curve > 0 then moved_point env swire curve (symbol_wire_end env swire)
              else moved_point env swire curve (symbol_wire_begin env swire))
             (to_int (arc_radius env (arc_center env swire curve)
                        (moved_point env swire curve (symbol_wire_begin env swire))))
             1 True g)"
  by (simp add: loadSymbolWire_def symbol_wire_begin_def symbol_wire_end_def thick_arc_def
      arc_center_def moved_point_def Let_def)

text \<open>
  C10. Every item of a sheet made from the Eagle document (wire, junction, label,
  plain text, frame line, and the instance of a part that is found with its symbol)
  is placed at the source X coordinate and the negated source Y coordinate, while
  the drawing primitives of a library symbol (circle, rectangle, pin, text, wire)
  keep the source Y coordinate as it is. For the wires of a symbol this holds of a
  straight wire and of an arc whose doubled width does not exceed its radius value
  (the start and end of an arc being exchanged when the curve is not positive); a
  thicker arc has both end points moved along the rays from the centre of the arc,
  which is computed from the source coordinates as they are.
\<close>

theorem C10_y_axis_of_sheet_and_symbol_items:
  "line_start (fst (loadWire env ewire st)) =
     (ToSchUnits env (wire_x1 ewire), - ToSchUnits env (wire_y1 ewire)) \<and>
   line_end (fst (loadWire env ewire st)) =
     (ToSchUnits env (wire_x2 ewire), - ToSchUnits env (wire_y2 ewire)) \<and>
   loadJunction env ejunction =
     JUNCTION (ToSchUnits env (junction_x ejunction), - ToSchUnits env (junction_y ejunction)) \<and>
   text_pos (loadLabel env elabel aNetName) =
     (ToSchUnits env (elabel_x elabel), - ToSchUnits env (elabel_y elabel)) \<and>
   text_pos (loadPlainText env etext) =
     (ToSchUnits env (etext_x etext), - ToSchUnits env (etext_y etext)) \<and>
   map line_start (loadFrame env eframe) =
     [(ToSchUnits env (frame_x1 eframe), - ToSchUnits env (frame_y1 eframe)),
      (ToSchUnits env (frame_x2 eframe), - ToSchUnits env (frame_y1 eframe)),
      (ToSchUnits env (frame_x2 eframe), - ToSchUnits env (frame_y2 eframe)),
      (ToSchUnits env (frame_x1 eframe), - ToSchUnits env (frame_y2 eframe))] \<and>
   map line_end (loadFrame env eframe) =
     [(ToSchUnits env (frame_x2 eframe), - ToSchUnits env (frame_y1 eframe)),
      (ToSchUnits env (frame_x2 eframe), - ToSchUnits env (frame_y2 eframe)),
      (ToSchUnits env (frame_x1 eframe), - ToSchUnits env (frame_y2 eframe)),
      (ToSchUnits env (frame_x1 eframe), - ToSchUnits env (frame_y1 eframe))] \<and>
   (resolved_instance env einstance \<longrightarrow>
      (\<exists>c. screen (loadInstance env einstance st) = screen st @ [COMPONENT c] \<and>
           cmp_position c =
             (ToSchUnits env (inst_x einstance), - ToSchUnits env (inst_y einstance)))) \<and>
   loadSymbolCircle env c g =
     LIB_CIRCLE (ToSchUnits env (circle_x c), ToSchUnits env (circle_y c))
       (ToSchUnits env (circle_radius c)) (ToSchUnits env (circle_width c)) g \<and>
   loadSymbolRectangle env rect g =
     LIB_RECTANGLE (ToSchUnits env (rect_x1 rect), ToSchUnits env (rect_y1 rect))
       (ToSchUnits env (rect_x2 rect), ToSchUnits env (rect_y2 rect)) g \<and>
   pin_position (loadPin env ePin g) =
     (ToSchUnits env (epin_x ePin), ToSchUnits env (epin_y ePin)) \<and>
   fst (loadSymbolText env stext g) =
     (ToSchUnits env (etext_x stext), ToSchUnits env (etext_y stext)) \<and>
   (symbol_wire_begin env swire = symbol_wire_end env swire \<longrightarrow>
      loadSymbolWire env swire g = None) \<and>
   (symbol_wire_begin env swire \<noteq> symbol_wire_end env swire \<and> wire_curve swire = None \<longrightarrow>
      loadSymbolWire env swire g =
        Some (LIB_POLYLINE
                [(ToSchUnits env (wire_x1 swire), ToSchUnits env (wire_y1 swire)),
                 (ToSchUnits env (wire_x2 swire), ToSchUnits env (wire_y2 swire))]
                g (ToSchUnits env (wire_width swire)))) \<and>
   (symbol_wire_begin env swire \<noteq> symbol_wire_end env swire \<and>
    wire_curve swire = Some curve \<and> \<not> thick_arc env swire curve \<longrightarrow>
      loadSymbolWire env swire g =
        Some (LIB_ARC (arc_center env swire curve)
                (if curve > 0
                 then (ToSchUnits env (wire_x1 swire), ToSchUnits env (wire_y1 swire))
                 else (ToSchUnits env (wire_x2 swire), ToSchUnits env (wire_y2 swire)))
                (if curve > 0
                 then (ToSchUnits env (wire_x2 swire), ToSchUnits env (wire_y2 swire))
                 else (ToSchUnits env (wire_x1 swire), ToSchUnits env (wire_y1 swire)))
                (to_int (arc_radius env (arc_center env swire curve) (symbol_wire_begin env swire)))
                (ToSchUnits env (wire_width swire)) False g)) \<and>
   (symbol_wire_begin env swire \<noteq> symbol_wire_end env swire \<and>
    wire_curve swire = Some curve \<and> thick_arc env swire curve \<longrightarrow>
      loadSymbolWire env swire g =
        Some (LIB_ARC (arc_center env swire curve)
                (if curve > 0 then moved_point env swire curve (symbol_wire_begin env swire)
                 else moved_point env swire curve (symbol_wire_end env swire))
                (if curve > 0 then moved_point env swire curve (symbol_wire_end env swire)
                 else moved_point env swire curve (symbol_wire_begin env swire))
                (to_int (arc_radius env (arc_center env swire curve)
                           (moved_point env swire curve (symbol_wire_begin env swire))))
                1 True g))"
proof -
  have b: "(ToSchUnits env (wire_x1 swire), ToSchUnits env (wire_y1 swire)) = symbol_wire_begin env swire"
    and e: "(ToSchUnits env (wire_x2 swire), ToSchUnits env (wire_y2 swire)) = symbol_wire_end env swire"
    by (simp_all add: symbol_wire_begin_def symbol_wire_end_def)
  show ?thesis
    unfolding b e
    using loadInstance_resolved[of env einstance st] symbol_wire_none[of env swire g]
      symbol_wire_line[of env swire g] symbol_wire_thin_arc[of env swire curve g]
      symbol_wire_thick_arc[of env swire curve g]
    by (simp only: sheet_items symbol_items) blast
qed

theorem C10_y_axis_of_sheet_and_symbol_items_witness:
  "line_start (fst (loadWire resistor_env
      \<lparr>wire_x1 = 10, wire_y1 = 20, wire_x2 = 30, wire_y2 = 40, wire_width = 0, wire_layer = 91,
       wire_curve = None\<rparr> empty_sheet)) = (10, -20) \<and>
   resolved_instance resistor_env
      \<lparr>inst_part = ''R1'', inst_gate = ''G$1'', inst_x = 1000, inst_y = 2000, inst_smashed = None,
       inst_rot = None\<rparr> \<and>
   (\<exists>c. screen (loadInstance resistor_env
      \<lparr>inst_part = ''R1'', inst_gate = ''G$1'', inst_x = 1000, inst_y = 2000, inst_smashed = None,
       inst_rot = None\<rparr> empty_sheet) = [COMPONENT c] \<and> cmp_position c = (1000, -2000)) \<and>
   loadSymbolWire resistor_env
      \<lparr>wire_x1 = 10, wire_y1 = 20, wire_x2 = 30, wire_y2 = 40, wire_width = 0, wire_layer = 94,
       wire_curve = None\<rparr> 1 = Some (LIB_POLYLINE [(10, 20), (30, 40)] 1 0) \<and>
   \<not> thick_arc resistor_env
      \<lparr>wire_x1 = 0, wire_y1 = 0, wire_x2 = 0, wire_y2 = 100, wire_width = 10, wire_layer = 94,
       wire_curve = Some 180\<rparr> 180 \<and>
   loadSymbolWire resistor_env
      \<lparr>wire_x1 = 0, wire_y1 = 0, wire_x2 = 0, wire_y2 = 100, wire_width = 10, wire_layer = 94,
       wire_curve = Some 180\<rparr> 1 = Some (LIB_ARC (0, 50) (0, 0) (0, 100) 100 10 False 1)"
proof -
  let ?w = "\<lparr>wire_x1 = 10, wire_y1 = 20, wire_x2 = 30, wire_y2 = 40, wire_width = 0,
             wire_layer = 91, wire_curve = None\<rparr>"
  let ?i = "\<lparr>inst_part = ''R1'', inst_gate = ''G$1'', inst_x = 1000, inst_y = 2000,
             inst_smashed = None, inst_rot = None\<rparr>"
  let ?s = "\<lparr>wire_x1 = 10, wire_y1 = 20, wire_x2 = 30, wire_y2 = 40, wire_width = 0,
             wire_layer = 94, wire_curve = None\<rparr>"
  let ?a = "\<lparr>wire_x1 = 0, wire_y1 = 0, wire_x2 = 0, wire_y2 = 100, wire_width = 10,
             wire_layer = 94, wire_curve = Some 180\<rparr>"
  have up: "Upper ''R1'' = ''R1''" by code_simp
  have sq: "sqrt 2500 = 50" by (rule real_sqrt_unique) simp_all
  have r: "resolved_instance resistor_env ?i"
    by (simp add: resolved_instance_def resistor_env_def example_env_def kisymbolname_of_def up)
  have c: "arc_center resistor_env ?a 180 = (0, 50)"
    by (simp add: arc_center_def resistor_env_def example_env_def symbol_wire_begin_def
        symbol_wire_end_def padd_def pdiv_def cdiv_def)
  have rad: "arc_radius resistor_env (0, 50) (0, 0) = 100"
    by (simp add: arc_radius_def resistor_env_def example_env_def sq)
  have env: "ToSchUnits resistor_env = (\<lambda>v. v)"
    by (simp add: resistor_env_def example_env_def)
  have thin: "\<not> thick_arc resistor_env ?a 180"
    by (simp add: thick_arc_def c rad symbol_wire_begin_def env)
  from C10_y_axis_of_sheet_and_symbol_items[where env = resistor_env and ewire = ?w
      and st = empty_sheet and einstance = ?i and swire = ?s and g = 1]
    C10_y_axis_of_sheet_and_symbol_items[where env = resistor_env and swire = ?a and g = 1
      and curve = 180]
    r thin
  show ?thesis
    by (simp add: env empty_sheet_def symbol_wire_begin_def symbol_wire_end_def c rad to_int_def)
qed

text \<open>
  A thick arc: the wire from (0, 0) to (0, 100) with width 80 and a curve of 180
  degrees has the centre (0, 50) and the radius value 100, less than the doubled
  width. Its end points become (0, -30) and (0, 130): neither keeps the Y coordinate
  of the document.
\<close>

theorem C10_thick_arc_counterexample:
  "symbol_wire_begin example_env
     \<lparr>wire_x1 = 0, wire_y1 = 0, wire_x2 = 0, wire_y2 = 100, wire_width = 80, wire_layer = 94,
      wire_curve = Some 180\<rparr> = (0, 0) \<and>
   symbol_wire_end example_env
     \<lparr>wire_x1 = 0, wire_y1 = 0, wire_x2 = 0, wire_y2 = 100, wire_width = 80, wire_layer = 94,
      wire_curve = Some 180\<rparr> = (0, 100) \<and>
   loadSymbolWire example_env
     \<lparr>wire_x1 = 0, wire_y1 = 0, wire_x2 = 0, wire_y2 = 100, wire_width = 80, wire_layer = 94,
      wire_curve = Some 180\<rparr> 1 = Some (LIB_ARC (0, 50) (0, -30) (0, 130) 160 1 True 1)"
proof -
  have sq: "sqrt 2500 = 50" "sqrt 6400 = 80" by (rule real_sqrt_unique; simp)+
  show ?thesis
    by (simp add: loadSymbolWire_def example_env_def Let_def arc_radius_def thick_arc_point_def
        padd_def psub_def pdiv_def cdiv_def to_int_def sq symbol_wire_begin_def
        symbol_wire_end_def)
qed

subsection \<open>Power symbols\<close>

lemma pin_direction_sup:
  "pin_direction d = Some (ty, b) \<Longrightarrow> b = (Lower d = ''sup'')"
  by (auto simp: pin_direction_def pinDirectionsMap_def split: if_splits)

lemma add_pin_power: "part_power (add_pin env dev g gn n pin part) = part_power part"
proof -
  have f: "part_power (fold (\<lambda>padname. AddDrawItem (LIB_PIN_ITEM (p\<lparr>pin_number := padname\<rparr>))) pads q)
            = part_power q" for p pads q
    by (induction pads arbitrary: q) (simp_all add: AddDrawItem_def)
  show ?thesis
    by (simp add: add_pin_def Let_def f AddDrawItem_def split: option.splits)
qed

lemma fold_AddDrawItem_power: "part_power (fold AddDrawItem items q) = part_power q"
  by (induction items arbitrary: q) (simp_all add: AddDrawItem_def)

lemma symbol_step_power:
  "part_power (sym_part (symbol_step env fr dev g gn c s)) = part_power (sym_part s)"
  by (cases c)
    (simp_all add: symbol_step_def Let_def AddDrawItem_def add_pin_power fold_AddDrawItem_power
      split: option.splits prod.splits)

lemma symbol_step_count:
  "pincount (symbol_step env fr dev g gn c s) = pincount s + length (symbol_pins [c])"
  by (cases c) (simp_all add: symbol_step_def Let_def symbol_pins_def split: option.splits prod.splits)

lemma symbol_step_ispower:
  "ispower (symbol_step env fr dev g gn c s) = (ispower s \<or> list_ex supply_pin (symbol_pins [c]))"
proof (cases c)
  case (SYM_PIN p)
  show ?thesis
  proof (cases "epin_direction p")
    case None
    with SYM_PIN show ?thesis
      by (simp add: symbol_step_def Let_def symbol_pins_def supply_pin_def)
  next
    case (Some d)
    show ?thesis
    proof (cases "pin_direction d")
      case None
      then have "Lower d \<noteq> ''sup''"
        by (auto simp: pin_direction_def pinDirectionsMap_def split: if_splits)
      with None Some SYM_PIN show ?thesis
        by (simp add: symbol_step_def Let_def symbol_pins_def supply_pin_def)
    next
      case (Some tb)
      obtain ty b where tb: "tb = (ty, b)" by (cases tb)
      with Some pin_direction_sup[of d ty b] have "b = (Lower d = ''sup'')" by simp
      with Some tb \<open>epin_direction p = Some d\<close> SYM_PIN show ?thesis
        by (auto simp: symbol_step_def Let_def symbol_pins_def supply_pin_def)
    qed
  qed
qed (simp_all add: symbol_step_def Let_def symbol_pins_def split: option.splits prod.splits)

lemma symbol_pins_Cons: "symbol_pins (c # cs) = symbol_pins [c] @ symbol_pins cs"
  by (simp add: symbol_pins_def)

lemma fold_symbol_step:
  "part_power (sym_part (fold (symbol_step env fr dev g gn) node s)) = part_power (sym_part s) \<and>
   pincount (fold (symbol_step env fr dev g gn) node s) = pincount s + length (symbol_pins node) \<and>
   ispower (fold (symbol_step env fr dev g gn) node s) =
     (ispower s \<or> list_ex supply_pin (symbol_pins node))"
proof (induction node arbitrary: s)
  case Nil
  then show ?case by (simp add: symbol_pins_def)
next
  case (Cons c cs)
  have "fold (symbol_step env fr dev g gn) (c # cs) s =
          fold (symbol_step env fr dev g gn) cs (symbol_step env fr dev g gn c s)"
    by simp
  then show ?case
    using Cons.IH[of "symbol_step env fr dev g gn c s"] symbol_step_power[of env fr dev g gn c s]
      symbol_step_count[of env fr dev g gn c s] symbol_step_ispower[of env fr dev g gn c s]
      symbol_pins_Cons[of c cs]
    by auto
qed

lemma loadSymbol_result:
  "part_power (fst (loadSymbol env fr node aPart dev g gn)) = part_power aPart"
  "snd (loadSymbol env fr node aPart dev g gn) =
     (length (symbol_pins node) = 1 \<and> list_ex supply_pin (symbol_pins node))"
  using fold_symbol_step[of env fr dev g gn node
      "\<lparr>sym_part = aPart, foundName = False, foundValue = False, ispower = False, pincount = 0\<rparr>"]
  by (simp_all add: loadSymbol_def Let_def)

lemma one_supply_pin:
  "(length ps = 1 \<and> list_ex supply_pin ps) = (\<exists>p. ps = [p] \<and> supply_pin p)"
  by (cases ps) auto

lemma load_gates_power:
  "load_gates env fr nodes dev gates i acc = Some r \<Longrightarrow> part_power (fst r) = part_power (fst acc)"
proof (induction gates arbitrary: i acc)
  case Nil
  then show ?case by simp
next
  case (Cons gt gates)
  then show ?case
    by (auto simp: loadSymbol_result(1) split: option.splits)
qed

text \<open>
  C9. The symbol made for a device is marked as a power symbol if and only if the
  device set has exactly one gate and the symbol of that gate has exactly one pin,
  whose direction is the supply direction ("sup"); with more gates, more pins or no
  supply pin it is not marked.
\<close>

theorem C9_power_symbol:
  assumes "load_device env fr nodes edeviceset gates edevice = Some kpart"
  shows "part_power kpart \<longleftrightarrow>
           (\<exists>egate node ePin. gates = [egate] \<and> nodes (gate_symbol egate) = Some node \<and>
              symbol_pins node = [ePin] \<and> supply_pin ePin)"
proof -
  let ?k1 = "new_device_part env edeviceset (int (length gates)) edevice"
  from assms obtain kp ip where
    lg: "load_gates env fr nodes edevice gates 1 (?k1, False) = Some (kp, ip)"
    and k: "part_power kpart = part_power (if int (length gates) = 1 \<and> ip
                                            then kp\<lparr>part_power := True\<rparr> else kp)"
    by (auto simp: load_device_def Let_def split: option.splits)
  have "part_power ?k1 = False" by (simp add: new_device_part_def Let_def)
  with load_gates_power[OF lg] have "part_power kp = False" by simp
  with k have power: "part_power kpart = (length gates = 1 \<and> ip)" by auto
  show ?thesis
  proof (cases gates)
    case Nil
    with power show ?thesis by simp
  next
    case (Cons egate rest)
    show ?thesis
    proof (cases rest)
      case Nil
      with Cons lg obtain node where node: "nodes (gate_symbol egate) = Some node"
        and r: "loadSymbol env fr node ?k1 edevice 1 (gate_name egate) = (kp, ip)"
        by (auto split: option.splits)
      from r loadSymbol_result(2)[of env fr node ?k1 edevice 1 "gate_name egate"]
        one_supply_pin[of "symbol_pins node"]
      have "ip = (\<exists>p. symbol_pins node = [p] \<and> supply_pin p)"
        by simp
      with power Cons Nil node show ?thesis by auto
    next
      case (Cons g2 rest2)
      with \<open>gates = egate # rest\<close> power show ?thesis by simp
    qed
  qed
qed

theorem C9_power_symbol_witness:
  "\<exists>kpart. load_device example_env (\<lambda>f. [])
       [''GND'' \<mapsto> [SYM_PIN \<lparr>epin_name = ''GND'', epin_x = 0, epin_y = 0,
                       epin_direction = Some ''sup'', epin_rot = None\<rparr>]]
       \<lparr>deviceset_name = ''GND'', deviceset_prefix = None\<rparr>
       [\<lparr>gate_name = ''1'', gate_symbol = ''GND''\<rparr>]
       \<lparr>device_name = [], device_package = None, device_connects = []\<rparr> = Some kpart \<and>
     part_power kpart"
proof -
  let ?pin = "\<lparr>epin_name = ''GND'', epin_x = 0, epin_y = 0, epin_direction = Some ''sup'',
               epin_rot = None\<rparr>"
  let ?nodes = "[''GND'' \<mapsto> [SYM_PIN ?pin]]"
  let ?gate = "\<lparr>gate_name = ''1'', gate_symbol = ''GND''\<rparr>"
  let ?dev = "load_device example_env (\<lambda>f. []) ?nodes
       \<lparr>deviceset_name = ''GND'', deviceset_prefix = None\<rparr> [?gate]
       \<lparr>device_name = [], device_package = None, device_connects = []\<rparr>"
  have low: "Lower ''sup'' = ''sup''" by code_simp
  have "?dev \<noteq> None"
    by (simp add: load_device_def Let_def split: prod.splits)
  then obtain kpart where eq: "?dev = Some kpart" by blast
  have "\<exists>egate node ePin. [?gate] = [egate] \<and> ?nodes (gate_symbol egate) = Some node \<and>
          symbol_pins node = [ePin] \<and> supply_pin ePin"
    by (simp add: symbol_pins_def supply_pin_def low)
  with C9_power_symbol[OF eq] have "part_power kpart" by blast
  with eq show ?thesis by blast
qed


subsection \<open>Missing units\<close>

lemma map_emplace_present: "map_of m k \<noteq> None \<Longrightarrow> map_emplace k v m = m"
  by (auto simp: map_emplace_def)

lemma save_missing_units_idle: "save_missing_units missingUnits units = units"
  unfolding save_missing_units_def
  by (induction missingUnits) (auto simp: map_emplace_present)

lemma list_all_insort_key:
  "list_all P (insort_key f x xs) = (P x \<and> list_all P xs)"
  by (auto simp: list_all_iff set_insort_key)

lemma list_all_map_assign:
  assumes "P (k, v)" "list_all P m"
  shows "list_all P (map_assign k v m)"
proof (cases "map_of m k")
  case None
  then show ?thesis using assms by (simp add: map_assign_def list_all_insort_key)
next
  case (Some old)
  then show ?thesis using assms by (auto simp: map_assign_def list_all_iff)
qed

lemma list_all_map_emplace:
  assumes "P (k, v)" "list_all P m"
  shows "list_all P (map_emplace k v m)"
  using assms by (cases "map_of m k") (simp_all add: map_emplace_def list_all_insort_key)

lemma map_of_list_all: "list_all P m \<Longrightarrow> map_of m k = Some v \<Longrightarrow> P (k, v)"
  by (auto simp: list_all_iff dest: map_of_SomeD)

lemma update_missing_no_flag:
  assumes "no_unit_flagged m"
  shows "no_unit_flagged (update_missing aComponent missingUnits m)"
proof -
  let ?P = "\<lambda>entry :: string \<times> EAGLE_MISSING_CMP.
              list_all (\<lambda>unitEntry. snd unitEntry = False) (missing_units (snd entry))"
  let ?ref = "cmp_reference aComponent"
  let ?m1 = "case map_of m ?ref of
               None \<Rightarrow> map_assign ?ref
                 \<lparr>missing_cmp = aComponent, missing_units = map_emplace (cmp_unit aComponent) False []\<rparr> m
             | Some entry \<Rightarrow> map_assign ?ref
                 (entry\<lparr>missing_units := map_assign (cmp_unit aComponent) False (missing_units entry)\<rparr>) m"
  have m: "list_all ?P m" using assms by (simp add: no_unit_flagged_def)
  have m1: "list_all ?P ?m1"
  proof (cases "map_of m ?ref")
    case None
    then show ?thesis using m
      by (auto intro!: list_all_map_assign list_all_map_emplace)
  next
    case (Some entry)
    with m have "?P (?ref, entry)" by (rule map_of_list_all)
    with Some show ?thesis using m
      by (auto intro!: list_all_map_assign)
  qed
  have "list_all ?P (update_missing aComponent missingUnits m)"
  proof (cases "missingUnits = []")
    case True
    then show ?thesis using m1 by (simp add: update_missing_def Let_def)
  next
    case False
    show ?thesis
    proof (cases "map_of ?m1 ?ref")
      case None
      then show ?thesis using False m1
        by (auto simp: update_missing_def Let_def save_missing_units_idle intro!: list_all_map_assign)
    next
      case (Some entry)
      with m1 have "?P (?ref, entry)" by (rule map_of_list_all)
      with Some show ?thesis using False m1
        by (auto simp: update_missing_def Let_def save_missing_units_idle intro!: list_all_map_assign)
    qed
  qed
  then show ?thesis by (simp add: no_unit_flagged_def)
qed

lemma addImplicitConnections_no_flag:
  "no_unit_flagged (snd acc) \<Longrightarrow>
   no_unit_flagged (snd (addImplicitConnections env conn c upd acc))"
  by (auto simp: addImplicitConnections_def Let_def update_missing_no_flag
      split: option.splits prod.splits)

lemma sheet_implicit_no_flag:
  "no_unit_flagged (snd acc) \<Longrightarrow>
   no_unit_flagged (snd (sheet_implicit_connections env conn cmps acc))"
  unfolding sheet_implicit_connections_def
proof (induction cmps arbitrary: acc)
  case Nil
  then show ?case by simp
next
  case (Cons c cs)
  from Cons.IH[OF addImplicitConnections_no_flag[OF Cons.prems]] show ?case by simp
qed

lemma record_missing_no_flag:
  "no_unit_flagged m \<Longrightarrow> no_unit_flagged (record_missing env sheets m)"
  unfolding record_missing_def
proof (induction sheets arbitrary: m)
  case Nil
  then show ?case by simp
next
  case (Cons s ss)
  obtain conn cmps scr where s: "s = (conn, cmps, scr)" by (cases s)
  have "no_unit_flagged (snd (sheet_implicit_connections env conn cmps (scr, m)))"
    using sheet_implicit_no_flag[of "(scr, m)"] Cons.prems by simp
  from Cons.IH[OF this] s show ?case by simp
qed

lemma fold_units_idle:
  "list_all (\<lambda>unitEntry. \<not> snd unitEntry) us \<Longrightarrow>
   fold (\<lambda>unitEntry pl''. if \<not> snd unitEntry then pl'' else f unitEntry pl'') us pl = pl"
  by (induction us arbitrary: pl) auto

lemma instantiate_missing_idle:
  "no_unit_flagged m \<Longrightarrow> instantiate_missing env conn bb pw left m pl = pl"
  unfolding instantiate_missing_def no_unit_flagged_def
  by (induction m arbitrary: pl) (auto simp: fold_units_idle)

text \<open>
  The loop over the missing units does make one symbol for every unit that is
  flagged: for a record with units 2 and 3 flagged, the units 2 and 3 are appended
  to the root sheet, side by side.
\<close>

lemma instantiate_missing_flagged_example:
  "map (\<lambda>i. case i of COMPONENT c \<Rightarrow> (cmp_unit c, cmp_position c) | _ \<Rightarrow> (0, (0, 0)))
     (filter is_component
       (root_screen (instantiate_missing example_env Map.empty (\<lambda>c. (400, 300)) 11000 0
          [(''U1'', \<lparr>missing_cmp = unit_one,
                     missing_units = [(1, False), (2, True), (3, True)]\<rparr>)]
          \<lparr>newCmpPosition = (0, 2000), maxY = 0, root_screen = []\<rparr>)))
   = [(2, (0, 2300)), (3, (400, 2300))]"
  by (simp add: instantiate_missing_def instantiate_unit_def addImplicitConnections_def
      unit_one_def three_unit_part_def part_pins_def implicit_pin_step_def Let_def
      checkConnections_def example_env_def padd_def)

text \<open>
  C4. For a part with the units 1, 2 and 3 of which only unit 1 is drawn on a sheet,
  two symbols (units 2 and 3) are to be appended to the root sheet after all sheets
  are processed. The code records a unit as missing only under the test that the
  unit is already in the record, where \<open>emplace\<close> does nothing: no unit is ever
  flagged, and the loop over the missing units appends nothing, whatever the sheets
  hold.
\<close>

theorem C4_missing_units_never_instantiated:
  "instantiate_missing env conn cmpBbox pageWidth sheetLeft (record_missing env sheets []) pl = pl"
  by (rule instantiate_missing_idle[OF record_missing_no_flag]) (simp add: no_unit_flagged_def)

theorem C4_missing_units_never_instantiated_witness:
  "record_missing example_env [(Map.empty, [unit_one], [COMPONENT unit_one])] [] =
     [(''U1'', \<lparr>missing_cmp = unit_one, missing_units = [(1, False)]\<rparr>)] \<and>
   root_screen (instantiate_missing example_env Map.empty (\<lambda>c. (400, 300)) 11000 0
     (record_missing example_env [(Map.empty, [unit_one], [COMPONENT unit_one])] [])
     \<lparr>newCmpPosition = (0, 2000), maxY = 0, root_screen = [COMPONENT unit_one]\<rparr>)
   = [COMPONENT unit_one]"
proof -
  have "record_missing example_env [(Map.empty, [unit_one], [COMPONENT unit_one])] [] =
     [(''U1'', \<lparr>missing_cmp = unit_one, missing_units = [(1, False)]\<rparr>)]"
    by (simp add: record_missing_def sheet_implicit_connections_def addImplicitConnections_def
        unit_one_def three_unit_part_def part_pins_def implicit_pin_step_def Let_def
        checkConnections_def example_env_def update_missing_def map_assign_def map_emplace_def
        save_missing_units_def insort_insert_key_def)
  then show ?thesis
    using C4_missing_units_never_instantiated[of example_env Map.empty "\<lambda>c. (400, 300)" 11000 0
        "[(Map.empty, [unit_one], [COMPONENT unit_one])]"
        "\<lparr>newCmpPosition = (0, 2000), maxY = 0, root_screen = [COMPONENT unit_one]\<rparr>"]
    by simp
qed

end
